(* ===== verification/Prelude.thy ===== *)
theory Prelude
  imports Main "HOL-Library.Word" "HOL-Library.AList"
begin

text \<open>
  Shared vocabulary of the development: the C types of \<^verbatim>\<open>src/src/main.c\<close> as HOL types,
  the GLib error value \<^verbatim>\<open>GError\<close>, the faults a C run can hit (NULL dereference, double
  free), an error-propagating bind, and a generic object heap with allocation and release.
  The heap is polymorphic in the object type; the application theory instantiates it with
  the objects \<^verbatim>\<open>main.c\<close> creates (strings, the key file, the receiver, the HTTP server,
  the main loop).
\<close>

named_theorems heap_simps "evaluation rules of the object heap"
named_theorems glib_simps "evaluation rules of the GLib library model"

section \<open>C and GLib types\<close>

type_synonym addr = nat
type_synonym guint = "32 word"
type_synonym gint = int

text \<open>\<^verbatim>\<open>G_MININT\<close> and \<^verbatim>\<open>G_MAXINT\<close>: the range of a 32-bit \<^verbatim>\<open>gint\<close>.\<close>

definition gint_min :: int where "gint_min = - (2 ^ 31)"
definition gint_max :: int where "gint_max = 2 ^ 31 - 1"

definition in_gint_range :: "int \<Rightarrow> bool" where
  "in_gint_range n \<longleftrightarrow> gint_min \<le> n \<and> n \<le> gint_max"

text \<open>The error domains and codes that the program can receive in a \<^verbatim>\<open>GError\<close>.\<close>

datatype gerror_code =
    KEY_FILE_ERROR_GROUP_NOT_FOUND
  | KEY_FILE_ERROR_KEY_NOT_FOUND
  | KEY_FILE_ERROR_INVALID_VALUE
  | KEY_FILE_ERROR_PARSE
  | KEY_FILE_ERROR_UNKNOWN_ENCODING
  | FILE_ERROR_NOENT
  | OPTION_ERROR_UNKNOWN_OPTION
  | OPTION_ERROR_BAD_VALUE
  | DMX_ERROR
  | HTTP_ERROR

datatype gerror = GError (gerror_code: gerror_code) (gerror_message: string)

text \<open>
  A fault is what makes the C program's behaviour undefined: dereferencing a NULL
  \<^verbatim>\<open>GError *\<close>, freeing or unreferencing memory that is already released.
\<close>

datatype fault = Null_deref | Double_free addr | Use_after_free addr

section \<open>Error propagation\<close>

definition bindE :: "'e + 'a \<Rightarrow> ('a \<Rightarrow> 'e + 'b) \<Rightarrow> 'e + 'b" where
  "bindE m f = (case m of Inl e \<Rightarrow> Inl e | Inr x \<Rightarrow> f x)"

text \<open>GLib's messages quote names with the typographic quotes U+201C and U+201D, three
  bytes each in UTF-8 (a \<open>char\<close> is a byte).\<close>

definition glib_quote :: "string \<Rightarrow> string" where
  "glib_quote s = [CHR 0xE2, CHR 0x80, CHR 0x9C] @ s @ [CHR 0xE2, CHR 0x80, CHR 0x9D]"

lemma bindE_Inl [simp]: "bindE (Inl e) f = Inl e"
  and bindE_Inr [simp]: "bindE (Inr x) f = f x"
  by (simp_all add: bindE_def)

lemma bindE_assoc: "bindE (bindE m f) g = bindE m (\<lambda>x. bindE (f x) g)"
  by (cases m) simp_all

lemma bindE_eq_Inr_iff:
  "bindE m f = Inr y \<longleftrightarrow> (\<exists>x. m = Inr x \<and> f x = Inr y)"
  by (cases m) simp_all

lemma bindE_eq_Inl_iff:
  "bindE m f = Inl e \<longleftrightarrow> m = Inl e \<or> (\<exists>x. m = Inr x \<and> f x = Inl e)"
  by (cases m) simp_all

section \<open>The object heap\<close>

text \<open>
  Every pointer the program owns points to an object of the heap. Allocation takes the
  next fresh address; releasing an address that holds no live object is a
  \<^const>\<open>Double_free\<close>.
\<close>

record 'o heap =
  objs :: "addr \<rightharpoonup> 'o"
  next_addr :: addr

definition heap_empty :: "'o heap" where
  "heap_empty = \<lparr>objs = Map.empty, next_addr = 0\<rparr>"

definition heap_alloc :: "'o \<Rightarrow> 'o heap \<Rightarrow> addr \<times> 'o heap" where
  "heap_alloc x h =
     (next_addr h, h\<lparr>objs := (objs h)(next_addr h \<mapsto> x), next_addr := Suc (next_addr h)\<rparr>)"

definition heap_release :: "addr \<Rightarrow> 'o heap \<Rightarrow> fault + 'o heap" where
  "heap_release a h =
     (if a \<in> dom (objs h) then Inr (h\<lparr>objs := (objs h)(a := None)\<rparr>) else Inl (Double_free a))"

definition heap_read :: "addr \<Rightarrow> 'o heap \<Rightarrow> fault + 'o" where
  "heap_read a h = (case objs h a of None \<Rightarrow> Inl (Use_after_free a) | Some x \<Rightarrow> Inr x)"

definition heap_write :: "addr \<Rightarrow> 'o \<Rightarrow> 'o heap \<Rightarrow> fault + 'o heap" where
  "heap_write a x h =
     (if a \<in> dom (objs h) then Inr (h\<lparr>objs := (objs h)(a \<mapsto> x)\<rparr>) else Inl (Use_after_free a))"

text \<open>Every live address is below the allocation counter.\<close>

definition heap_wf :: "'o heap \<Rightarrow> bool" where
  "heap_wf h \<longleftrightarrow> (\<forall>a \<in> dom (objs h). a < next_addr h)"

definition live :: "'o heap \<Rightarrow> addr \<Rightarrow> bool" where
  "live h a \<longleftrightarrow> a \<in> dom (objs h)"

lemma heap_empty_wf [simp]: "heap_wf heap_empty"
  by (simp add: heap_wf_def heap_empty_def)

lemma heap_alloc_fresh:
  "heap_wf h \<Longrightarrow> \<not> live h (fst (heap_alloc x h))"
  by (auto simp: heap_wf_def heap_alloc_def live_def)

lemma heap_alloc_wf [intro]:
  "heap_wf h \<Longrightarrow> heap_wf (snd (heap_alloc x h))"
  unfolding heap_wf_def heap_alloc_def by (auto intro: less_SucI)

lemma heap_release_wf [intro]:
  "heap_wf h \<Longrightarrow> heap_release a h = Inr h' \<Longrightarrow> heap_wf h'"
  by (auto simp: heap_wf_def heap_release_def split: if_splits)

lemma heap_write_wf [intro]:
  "heap_wf h \<Longrightarrow> heap_write a x h = Inr h' \<Longrightarrow> heap_wf h'"
  by (auto simp: heap_wf_def heap_write_def split: if_splits)

lemma heap_wf_mono:
  "heap_wf h \<Longrightarrow> dom (objs h') \<subseteq> dom (objs h) \<Longrightarrow> next_addr h \<le> next_addr h' \<Longrightarrow> heap_wf h'"
  unfolding heap_wf_def by (meson order_less_le_trans subsetD)

lemma heap_release_live_iff [heap_simps]:
  "heap_release a h = Inr h' \<Longrightarrow> live h' b \<longleftrightarrow> live h b \<and> b \<noteq> a"
  by (auto simp: heap_release_def live_def split: if_splits)

lemma heap_release_dead [heap_simps]:
  "\<not> live h a \<Longrightarrow> heap_release a h = Inl (Double_free a)"
  by (simp add: heap_release_def live_def)

lemma heap_release_live [heap_simps]:
  "live h a \<Longrightarrow> heap_release a h = Inr (h\<lparr>objs := (objs h)(a := None)\<rparr>)"
  by (simp add: heap_release_def live_def)

lemma heap_alloc_objs [heap_simps]:
  "objs (snd (heap_alloc x h)) = (objs h)(next_addr h \<mapsto> x)"
  and heap_alloc_addr [heap_simps]: "fst (heap_alloc x h) = next_addr h"
  and heap_alloc_next [heap_simps]: "next_addr (snd (heap_alloc x h)) = Suc (next_addr h)"
  by (simp_all add: heap_alloc_def)

lemma heap_write_objs [heap_simps]:
  "heap_write a x h = Inr h' \<Longrightarrow> objs h' = (objs h)(a \<mapsto> x)"
  by (auto simp: heap_write_def split: if_splits)

lemma heap_write_live [heap_simps]:
  "live h a \<Longrightarrow> heap_write a x h = Inr (h\<lparr>objs := (objs h)(a \<mapsto> x)\<rparr>)"
  by (simp add: heap_write_def live_def)

lemma heap_read_live [heap_simps]:
  "objs h a = Some x \<Longrightarrow> heap_read a h = Inr x"
  by (simp add: heap_read_def)

section \<open>GLib memory primitives\<close>

text \<open>
  \<^verbatim>\<open>g_free (p)\<close> releases \<open>p\<close> and ignores NULL. \<^verbatim>\<open>g_clear_object (&p)\<close> drops the
  reference held in \<open>p\<close> (if any) and sets \<open>p\<close> to NULL; every object of the program has a
  single reference, so dropping it releases the object.
\<close>

definition g_free :: "addr option \<Rightarrow> 'o heap \<Rightarrow> fault + 'o heap" where
  "g_free p h = (case p of None \<Rightarrow> Inr h | Some a \<Rightarrow> heap_release a h)"

definition g_clear_object :: "addr option \<Rightarrow> 'o heap \<Rightarrow> fault + (addr option \<times> 'o heap)" where
  "g_clear_object p h =
     (case p of None \<Rightarrow> Inr (None, h)
      | Some a \<Rightarrow> bindE (heap_release a h) (\<lambda>h'. Inr (None, h')))"

lemma g_free_None [simp]: "g_free None h = Inr h"
  and g_clear_object_None [simp]: "g_clear_object None h = Inr (None, h)"
  by (simp_all add: g_free_def g_clear_object_def)

lemma g_free_Some [heap_simps]: "g_free (Some a) h = heap_release a h"
  by (simp add: g_free_def)

lemma g_clear_object_Some [heap_simps]:
  "g_clear_object (Some a) h = bindE (heap_release a h) (\<lambda>h'. Inr (None, h'))"
  by (simp add: g_clear_object_def)

text \<open>
  Releasing functions that take a pointer the caller never passes NULL:
  \<^verbatim>\<open>g_object_unref\<close>, \<^verbatim>\<open>g_main_loop_unref\<close>, \<^verbatim>\<open>g_option_context_free\<close>.
  \<^verbatim>\<open>g_key_file_unref (NULL)\<close> returns at its \<^verbatim>\<open>g_return_if_fail\<close>.
\<close>

definition g_object_unref :: "addr \<Rightarrow> 'o heap \<Rightarrow> fault + 'o heap" where
  "g_object_unref a h = heap_release a h"

definition g_key_file_unref :: "addr option \<Rightarrow> 'o heap \<Rightarrow> fault + 'o heap" where
  "g_key_file_unref p h = (case p of None \<Rightarrow> Inr h | Some a \<Rightarrow> heap_release a h)"

lemma g_key_file_unref_None [simp]: "g_key_file_unref None h = Inr h"
  and g_key_file_unref_Some [heap_simps]: "g_key_file_unref (Some a) h = heap_release a h"
  and g_object_unref_eq [heap_simps]: "g_object_unref a h = heap_release a h"
  by (simp_all add: g_key_file_unref_def g_object_unref_def)

text \<open>Releasing never makes an address live: the live addresses after a release are a
  subset of those before.\<close>

lemma heap_release_Inr:
  "heap_release a h = Inr h' \<Longrightarrow> live h a \<and> h' = h\<lparr>objs := (objs h)(a := None)\<rparr>"
  by (auto simp: heap_release_def live_def split: if_splits)

lemma heap_release_dom: "heap_release a h = Inr h' \<Longrightarrow> dom (objs h') = dom (objs h) - {a}"
  by (auto dest!: heap_release_Inr split: if_splits)

lemma heap_release_dom_sub: "heap_release a h = Inr h' \<Longrightarrow> dom (objs h') \<subseteq> dom (objs h)"
  using heap_release_dom by blast

lemma g_free_dom: "g_free p h = Inr h' \<Longrightarrow> dom (objs h') \<subseteq> dom (objs h)"
  by (cases p) (simp_all add: g_free_Some heap_release_dom_sub)

lemma g_key_file_unref_dom: "g_key_file_unref p h = Inr h' \<Longrightarrow> dom (objs h') \<subseteq> dom (objs h)"
  by (cases p) (simp_all add: g_key_file_unref_Some heap_release_dom_sub)

lemma g_clear_object_dom:
  "g_clear_object p h = Inr (q, h') \<Longrightarrow> q = None \<and> dom (objs h') \<subseteq> dom (objs h)"
  by (cases p) (auto simp: g_clear_object_def bindE_eq_Inr_iff dest: heap_release_dom_sub)

section \<open>Lists and strings\<close>

text \<open>\<^verbatim>\<open>g_ascii_isspace\<close>: space, tab, newline, vertical tab, form feed, carriage return.\<close>

definition is_space :: "char \<Rightarrow> bool" where
  "is_space c \<longleftrightarrow> c \<in> set [CHR '' '', CHR 0x09, CHR 0x0A, CHR 0x0B, CHR 0x0C, CHR 0x0D]"

definition is_digit :: "char \<Rightarrow> bool" where
  "is_digit c \<longleftrightarrow> (48::nat) \<le> of_char c \<and> of_char c \<le> (57::nat)"

definition digit_val :: "char \<Rightarrow> nat" where
  "digit_val c = of_char c - 48"

definition digit_char :: "nat \<Rightarrow> char" where
  "digit_char d = char_of (d + 48)"

lemma is_digit_digit_char [simp]: "d < 10 \<Longrightarrow> is_digit (digit_char d)"
  by (simp add: is_digit_def digit_char_def)

lemma digit_val_digit_char [simp]: "d < 10 \<Longrightarrow> digit_val (digit_char d) = d"
  by (simp add: digit_val_def digit_char_def)

lemma digit_char_not_space [simp]: "d < 10 \<Longrightarrow> \<not> is_space (digit_char d)"
  using is_digit_digit_char [of d]
  by (auto simp: is_space_def is_digit_def)

lemma map_of_update_same [simp]: "map_of (AList.update k v xs) k = Some v"
  by (simp add: update_conv)

end
