(* ===== verification/KeyFile.thy ===== *)
theory KeyFile
  imports Prelude
begin

text \<open>
  The configuration store (spec 4.1): GLib's \<^verbatim>\<open>GKeyFile\<close> as \<^verbatim>\<open>main.c\<close> uses it. A
  loaded key file is a list of groups, each a list of key/value pairs, values kept raw as
  in the file. The typed lookups \<^verbatim>\<open>g_key_file_get_string\<close> and
  \<^verbatim>\<open>g_key_file_get_integer\<close> are modelled at their C interface: they take a possibly
  NULL key file and return the value together with the \<^verbatim>\<open>GError\<close> they set, so that a
  caller that reads the error after a call that did not set it is visible in the model.
  Errors carry GLib's messages; the string getter validates UTF-8 before it decodes
  escapes. The library is not under \<^verbatim>\<open>src/\<close>; these definitions follow the spec's ConfigStore
  contract and GLib's documented behaviour. The last sections give the writer side, the
  decimal printer, the key-file printer and the escaping of string values, with the proofs
  that the loader and the getters read back what they write.
\<close>

type_synonym kf_group = "(string \<times> string) list"
type_synonym keyfile = "(string \<times> kf_group) list"

section \<open>Raw lookup\<close>

definition kf_get_value :: "keyfile \<Rightarrow> string \<Rightarrow> string \<Rightarrow> gerror + string" where
  "kf_get_value kf grp key =
     (case map_of kf grp of
        None \<Rightarrow> Inl (GError KEY_FILE_ERROR_GROUP_NOT_FOUND
                   (''Key file does not have group '' @ glib_quote grp))
      | Some g \<Rightarrow>
          (case map_of g key of
             None \<Rightarrow> Inl (GError KEY_FILE_ERROR_KEY_NOT_FOUND
                        (''Key file does not have key '' @ glib_quote key @ '' in group '' @ glib_quote grp))
           | Some v \<Rightarrow> Inr v))"

section \<open>String values: escape sequences\<close>

text \<open>
  \<^verbatim>\<open>g_key_file_parse_value_as_string\<close>: the escapes \<^verbatim>\<open>\s \n \t \r \\\<close> are decoded; any
  other escape, or a backslash at the end of the value, is an error.
\<close>

definition kf_escape_char :: "char \<Rightarrow> char option" where
  "kf_escape_char c =
     (if c = CHR ''s'' then Some CHR '' ''
      else if c = CHR ''n'' then Some CHR 0x0A
      else if c = CHR ''t'' then Some CHR 0x09
      else if c = CHR ''r'' then Some CHR 0x0D
      else if c = CHR 0x5C then Some CHR 0x5C
      else None)"

fun kf_unescape :: "string \<Rightarrow> gerror + string" where
  "kf_unescape [] = Inr []"
| "kf_unescape [c] =
     (if c = CHR 0x5C
      then Inl (GError KEY_FILE_ERROR_INVALID_VALUE ''Key file contains escape character at end of line'')
      else Inr [c])"
| "kf_unescape (c # d # cs) =
     (if c = CHR 0x5C then
        (case kf_escape_char d of
           None \<Rightarrow> Inl (GError KEY_FILE_ERROR_INVALID_VALUE
                     (''Key file contains invalid escape sequence '' @ glib_quote [c, d]))
         | Some e \<Rightarrow> map_sum id (Cons e) (kf_unescape cs))
      else map_sum id (Cons c) (kf_unescape (d # cs)))"

section \<open>Integer values: strtol\<close>

definition nat_of_digits :: "string \<Rightarrow> nat" where
  "nat_of_digits ds = foldl (\<lambda>n c. 10 * n + digit_val c) 0 ds"

text \<open>
  C's \<^verbatim>\<open>strtol (value, &end, 10)\<close>: leading white space, an optional sign, the longest
  run of decimal digits; with no digit the value is 0 and \<open>end\<close> is the start of the string.
  The value is an unbounded integer here; the range check of the caller rejects every value
  that \<^verbatim>\<open>strtol\<close> would clamp.
\<close>

definition strtol10 :: "string \<Rightarrow> int \<times> string" where
  "strtol10 s =
     (let t = dropWhile is_space s;
          (sg, u) = (case t of
                       [] \<Rightarrow> (1::int, [])
                     | c # r \<Rightarrow> (if c = CHR ''-'' then (-1, r)
                                 else if c = CHR ''+'' then (1, r) else (1, t)));
          ds = takeWhile is_digit u
      in if ds = [] then (0, s) else (sg * int (nat_of_digits ds), dropWhile is_digit u))"

text \<open>
  \<^verbatim>\<open>g_key_file_parse_value_as_integer\<close>: an empty value, or a value whose conversion
  stops at a character that is not white space, cannot be read as a number; a number
  outside the range of \<^verbatim>\<open>gint\<close> is out of range.
\<close>

definition kf_parse_integer :: "string \<Rightarrow> gerror + int" where
  "kf_parse_integer v =
     (let (n, rest) = strtol10 v in
      if v = [] \<or> (rest \<noteq> [] \<and> \<not> is_space (hd rest))
      then Inl (GError KEY_FILE_ERROR_INVALID_VALUE (''Value '' @ glib_quote v @ '' cannot be interpreted as a number.''))
      else if \<not> in_gint_range n
      then Inl (GError KEY_FILE_ERROR_INVALID_VALUE (''Integer value '' @ glib_quote v @ '' out of range''))
      else Inr n)"

section \<open>Loading a key file\<close>

text \<open>
  \<^verbatim>\<open>g_key_file_load_from_file\<close> reads the file line by line
  (\<^verbatim>\<open>g_key_file_parse_line\<close>): leading white space is skipped; an empty line or one
  starting with \<^verbatim>\<open>#\<close> is a comment; \<^verbatim>\<open>[name]\<close>, followed by nothing but blanks,
  opens (or reopens) a group; a line with an \<^verbatim>\<open>=\<close> after its first character is a
  key/value pair of the current group, the key with trailing white space removed and the
  value with leading white space removed; a repeated key replaces the earlier value. Any
  other line, a key/value pair before the first group, or an invalid group or key name is
  an error. Localised keys (\<^verbatim>\<open>Name[de]\<close>) are not modelled: a bracket in a key is
  refused.
\<close>

definition kf_group_name_ok :: "string \<Rightarrow> bool" where
  "kf_group_name_ok g \<longleftrightarrow>
     g \<noteq> [] \<and> (\<forall>c \<in> set g. c \<noteq> CHR ''['' \<and> c \<noteq> CHR '']'' \<and> (32::nat) \<le> of_char c \<and> of_char c \<noteq> (127::nat))"

definition kf_key_name_ok :: "string \<Rightarrow> bool" where
  "kf_key_name_ok k \<longleftrightarrow> k \<noteq> [] \<and> (\<forall>c \<in> set k. c \<noteq> CHR ''='' \<and> c \<noteq> CHR ''['' \<and> c \<noteq> CHR '']'')"

text \<open>\<^verbatim>\<open>g_key_file_line_is_group\<close>, applied to a line without leading white space.\<close>

definition kf_line_group :: "string \<Rightarrow> string option" where
  "kf_line_group t =
     (case t of
        c # r \<Rightarrow>
          (if c = CHR ''['' \<and> CHR '']'' \<in> set r
              \<and> (\<forall>x \<in> set (tl (dropWhile (\<lambda>x. x \<noteq> CHR '']'') r)). x = CHR '' '' \<or> x = CHR 0x09)
           then Some (takeWhile (\<lambda>x. x \<noteq> CHR '']'') r) else None)
      | [] \<Rightarrow> None)"

text \<open>\<^verbatim>\<open>g_key_file_line_is_key_value_pair\<close> and \<^verbatim>\<open>g_key_file_parse_key_value_pair\<close>.\<close>

definition kf_line_pair :: "string \<Rightarrow> (string \<times> string) option" where
  "kf_line_pair t =
     (if CHR ''='' \<in> set t \<and> hd t \<noteq> CHR ''=''
      then Some (rev (dropWhile is_space (rev (takeWhile (\<lambda>x. x \<noteq> CHR ''='') t))),
                 dropWhile is_space (tl (dropWhile (\<lambda>x. x \<noteq> CHR ''='') t)))
      else None)"

definition kf_add_group :: "string \<Rightarrow> keyfile \<Rightarrow> keyfile" where
  "kf_add_group g kf = (if map_of kf g = None then kf @ [(g, [])] else kf)"

definition kf_add_pair :: "string \<Rightarrow> string \<Rightarrow> string \<Rightarrow> keyfile \<Rightarrow> keyfile" where
  "kf_add_pair g k v kf = AList.map_entry g (AList.update k v) kf"

definition kf_parse_error :: "string \<Rightarrow> gerror" where
  "kf_parse_error msg = GError KEY_FILE_ERROR_PARSE msg"

fun kf_parse_lines :: "string option \<Rightarrow> string list \<Rightarrow> keyfile \<Rightarrow> gerror + keyfile" where
  "kf_parse_lines cur [] kf = Inr kf"
| "kf_parse_lines cur (l # ls) kf =
     (let t = dropWhile is_space l in
      if t = [] \<or> hd t = CHR ''#'' then kf_parse_lines cur ls kf
      else case kf_line_group t of
        Some g \<Rightarrow>
          (if kf_group_name_ok g then kf_parse_lines (Some g) ls (kf_add_group g kf)
           else Inl (kf_parse_error (''Invalid group name: '' @ g)))
      | None \<Rightarrow>
          (case kf_line_pair t of
             Some (k, v) \<Rightarrow>
               (if \<not> kf_key_name_ok k then Inl (kf_parse_error (''Invalid key name: '' @ k))
                else case cur of
                  None \<Rightarrow> Inl (GError KEY_FILE_ERROR_GROUP_NOT_FOUND ''Key file does not start with a group'')
                | Some g \<Rightarrow> kf_parse_lines cur ls (kf_add_pair g k v kf))
           | None \<Rightarrow>
               Inl (kf_parse_error (''Key file contains line '' @ glib_quote l @
                                    '' which is not a key-value pair, group, or comment''))))"

text \<open>The file system maps a path to the lines of the file.\<close>

type_synonym filesystem = "string \<rightharpoonup> string list"

definition g_key_file_load_from_file :: "filesystem \<Rightarrow> string \<Rightarrow> gerror + keyfile" where
  "g_key_file_load_from_file fs path =
     (case fs path of
        None \<Rightarrow> Inl (GError FILE_ERROR_NOENT ''No such file or directory'')
      | Some ls \<Rightarrow> kf_parse_lines None ls [])"

section \<open>UTF-8 validation\<close>

text \<open>
  \<^verbatim>\<open>g_utf8_validate\<close> (GLib's \<^verbatim>\<open>fast_validate\<close>) over the bytes of a value:
  \<open>utf8_seq_len c cs\<close> is the length of the well-formed sequence that starts with the
  byte \<open>c\<close> (no overlong form, no surrogate, nothing above U+10FFFF), and
  \<open>utf8_valid_len\<close> the length of the longest valid prefix, the \<^verbatim>\<open>end\<close> pointer of
  the C function. \<^verbatim>\<open>g_utf8_make_valid\<close> copies each valid stretch and replaces the
  byte where validation stops by U+FFFD.
\<close>

definition utf8_cont :: "char \<Rightarrow> bool" where
  "utf8_cont c \<longleftrightarrow> (128::nat) \<le> of_char c \<and> of_char c \<le> (191::nat)"

definition utf8_byte_in :: "nat \<Rightarrow> nat \<Rightarrow> char \<Rightarrow> bool" where
  "utf8_byte_in lo hi c \<longleftrightarrow> lo \<le> of_char c \<and> of_char c \<le> hi"

definition utf8_seq_len :: "char \<Rightarrow> string \<Rightarrow> nat option" where
  "utf8_seq_len c cs =
     (let b = (of_char c :: nat) in
      if b < 128 then Some 1
      else if b < 194 then None
      else if b < 224 then
        (case cs of d # _ \<Rightarrow> if utf8_cont d then Some 2 else None | _ \<Rightarrow> None)
      else if b < 240 then
        (case cs of
           d # e # _ \<Rightarrow>
             if (if b = 224 then utf8_byte_in 160 191 d else if b = 237 then utf8_byte_in 128 159 d
                 else utf8_cont d) \<and> utf8_cont e then Some 3 else None
         | _ \<Rightarrow> None)
      else if b < 245 then
        (case cs of
           d # e # f # _ \<Rightarrow>
             if (if b = 240 then utf8_byte_in 144 191 d else if b = 244 then utf8_byte_in 128 143 d
                 else utf8_cont d) \<and> utf8_cont e \<and> utf8_cont f then Some 4 else None
         | _ \<Rightarrow> None)
      else None)"

fun utf8_valid_len :: "string \<Rightarrow> nat" where
  "utf8_valid_len [] = 0"
| "utf8_valid_len (c # cs) =
     (case utf8_seq_len c cs of None \<Rightarrow> 0 | Some k \<Rightarrow> k + utf8_valid_len (drop (k - 1) cs))"

definition g_utf8_validate :: "string \<Rightarrow> bool" where
  "g_utf8_validate s \<longleftrightarrow> utf8_valid_len s = length s"

lemma utf8_seq_len_bounds: "utf8_seq_len c cs = Some k \<Longrightarrow> 1 \<le> k \<and> k - 1 \<le> length cs"
  by (auto simp: utf8_seq_len_def Let_def split: if_splits list.splits)

lemma g_utf8_validate_Nil [simp]: "g_utf8_validate []"
  by (simp add: g_utf8_validate_def)

lemma utf8_valid_len_le: "utf8_valid_len s \<le> length s"
proof (induction s rule: utf8_valid_len.induct)
  case (2 c cs)
  show ?case
  proof (cases "utf8_seq_len c cs")
    case (Some k)
    then show ?thesis using 2 utf8_seq_len_bounds [OF Some] by (simp; arith)
  qed simp
qed simp

text \<open>\<^verbatim>\<open>g_utf8_make_valid\<close>.\<close>

function utf8_make_valid :: "string \<Rightarrow> string" where
  "utf8_make_valid s =
     (let n = utf8_valid_len s in
      if n = length s then s
      else take n s @ [CHR 0xEF, CHR 0xBF, CHR 0xBD] @ utf8_make_valid (drop (Suc n) s))"
  by pat_completeness auto
termination
proof (relation "measure length")
  fix s :: string and n
  assume "n = utf8_valid_len s" and "n \<noteq> length s"
  then show "(drop (Suc n) s, s) \<in> measure length"
    using utf8_valid_len_le [of s] by simp
qed simp

lemma utf8_seq_len_ascii: "utf8_seq_len c cs = Some k \<Longrightarrow> (k = 1) = (of_char c < (128::nat))"
  by (auto simp: utf8_seq_len_def Let_def split: if_splits list.splits)

lemma utf8_seq_len_cont:
  "utf8_seq_len c cs = Some k \<Longrightarrow> x \<in> set (take (k - 1) cs) \<Longrightarrow> (128::nat) \<le> of_char x"
  by (auto simp: utf8_seq_len_def Let_def utf8_cont_def utf8_byte_in_def split: if_splits list.splits)

lemma utf8_seq_len_take:
  "utf8_seq_len c cs = Some k \<Longrightarrow> utf8_seq_len c (take (k - 1) cs @ r) = Some k"
  by (auto simp: utf8_seq_len_def Let_def split: if_splits list.splits)

lemma utf8_valid_len_ascii:
  "of_char c < (128::nat) \<Longrightarrow> utf8_valid_len (c # cs) = Suc (utf8_valid_len cs)"
  by (simp add: utf8_seq_len_def)

lemma g_utf8_validate_ascii_append:
  "\<forall>x \<in> set xs. of_char x < (128::nat) \<Longrightarrow> g_utf8_validate (xs @ ys) = g_utf8_validate ys"
  by (induction xs) (simp_all add: g_utf8_validate_def utf8_valid_len_ascii del: utf8_valid_len.simps(2))

lemma g_utf8_validate_Cons:
  assumes "g_utf8_validate (c # cs)"
  obtains k where "utf8_seq_len c cs = Some k" and "g_utf8_validate (drop (k - 1) cs)"
proof (cases "utf8_seq_len c cs")
  case None
  then show ?thesis using assms by (simp add: g_utf8_validate_def)
next
  case (Some k)
  then have "k + utf8_valid_len (drop (k - 1) cs) = Suc (length cs)"
    using assms by (simp add: g_utf8_validate_def)
  then have "g_utf8_validate (drop (k - 1) cs)"
    using utf8_seq_len_bounds [OF Some] utf8_valid_len_le [of "drop (k - 1) cs"]
    by (simp add: g_utf8_validate_def)
  then show ?thesis using Some that by blast
qed

lemma g_utf8_validate_seq:
  assumes "utf8_seq_len c cs = Some k" and "g_utf8_validate r"
  shows "g_utf8_validate (c # take (k - 1) cs @ r)"
proof -
  have "k - 1 \<le> length cs" using utf8_seq_len_bounds [OF assms(1)] by simp
  then show ?thesis using assms utf8_seq_len_take [OF assms(1), of r] utf8_seq_len_bounds [OF assms(1)]
    by (simp add: g_utf8_validate_def min_def)
qed

section \<open>The C interface\<close>

text \<open>
  Both getters start with \<^verbatim>\<open>g_return_val_if_fail (key_file != NULL, ...)\<close>: on a NULL key
  file they return \<^verbatim>\<open>NULL\<close> (respectively \<^verbatim>\<open>-1\<close>) and leave the error unset.
\<close>

text \<open>A value the getter cannot parse is reported with GLib's generic message: the integer
  getter names the key and the group, the string getter the key alone. The string getter
  first checks that the raw value is UTF-8.\<close>

definition kf_uninterpretable :: "string \<Rightarrow> string \<Rightarrow> gerror" where
  "kf_uninterpretable grp key =
     GError KEY_FILE_ERROR_INVALID_VALUE
       (''Key file contains key '' @ glib_quote key @ '' in group '' @ glib_quote grp @
        '' which has a value that cannot be interpreted.'')"

definition g_key_file_get_string ::
  "keyfile option \<Rightarrow> string \<Rightarrow> string \<Rightarrow> string option \<times> gerror option" where
  "g_key_file_get_string kf grp key =
     (case kf of
        None \<Rightarrow> (None, None)
      | Some f \<Rightarrow>
          (case kf_get_value f grp key of
             Inl e \<Rightarrow> (None, Some e)
           | Inr v \<Rightarrow>
               (if \<not> g_utf8_validate v
                then (None, Some (GError KEY_FILE_ERROR_UNKNOWN_ENCODING
                        (''Key file contains key '' @ glib_quote key @ '' with value '' @
                         glib_quote (utf8_make_valid v) @ '' which is not UTF-8'')))
                else case kf_unescape v of
                       Inl _ \<Rightarrow> (None, Some (GError KEY_FILE_ERROR_INVALID_VALUE
                                 (''Key file contains key '' @ glib_quote key @
                                  '' which has a value that cannot be interpreted.'')))
                     | Inr s \<Rightarrow> (Some s, None))))"

definition g_key_file_get_integer ::
  "keyfile option \<Rightarrow> string \<Rightarrow> string \<Rightarrow> gint \<times> gerror option" where
  "g_key_file_get_integer kf grp key =
     (case kf of
        None \<Rightarrow> (-1, None)
      | Some f \<Rightarrow>
          (case kf_get_value f grp key of
             Inl e \<Rightarrow> (0, Some e)
           | Inr v \<Rightarrow> (case kf_parse_integer v of
                         Inl _ \<Rightarrow> (0, Some (kf_uninterpretable grp key))
                       | Inr n \<Rightarrow> (n, None))))"

section \<open>Printing integers, and reading them back\<close>

fun nat_to_dec :: "nat \<Rightarrow> string" where
  "nat_to_dec n = (if n < 10 then [digit_char n] else nat_to_dec (n div 10) @ [digit_char (n mod 10)])"

declare nat_to_dec.simps [simp del]

definition int_to_dec :: "int \<Rightarrow> string" where
  "int_to_dec i = (if i < 0 then CHR ''-'' # nat_to_dec (nat (- i)) else nat_to_dec (nat i))"

lemma nat_of_digits_snoc: "nat_of_digits (ds @ [c]) = 10 * nat_of_digits ds + digit_val c"
  by (simp add: nat_of_digits_def)

lemma nat_to_dec_digits: "\<forall>c \<in> set (nat_to_dec m). is_digit c"
proof (induction m rule: nat_to_dec.induct)
  case (1 n)
  then show ?case by (subst nat_to_dec.simps) auto
qed

lemma nat_to_dec_ne [simp]: "nat_to_dec m \<noteq> []"
  by (subst nat_to_dec.simps) simp

lemma nat_of_digits_nat_to_dec: "nat_of_digits (nat_to_dec m) = m"
proof (induction m rule: nat_to_dec.induct)
  case (1 n)
  show ?case
  proof (cases "n < 10")
    case True
    then show ?thesis by (subst nat_to_dec.simps) (simp add: nat_of_digits_def)
  next
    case False
    with "1.IH" show ?thesis by (subst nat_to_dec.simps) (simp add: nat_of_digits_snoc)
  qed
qed

lemma is_digit_not_space: "is_digit c \<Longrightarrow> \<not> is_space c"
  by (auto simp: is_digit_def is_space_def)

lemma is_digit_not_sign: "is_digit c \<Longrightarrow> c \<noteq> CHR ''-'' \<and> c \<noteq> CHR ''+''"
  by (auto simp: is_digit_def)

lemma strtol10_digits:
  assumes "ds \<noteq> []" "\<forall>c \<in> set ds. is_digit c"
  shows "strtol10 ds = (int (nat_of_digits ds), [])"
    and "strtol10 (CHR ''-'' # ds) = (- int (nat_of_digits ds), [])"
proof -
  obtain c cs where ds: "ds = c # cs" using assms(1) by (cases ds) auto
  have c: "is_digit c" and cs: "\<forall>x \<in> set cs. is_digit x" using assms(2) ds by simp_all
  have tw: "takeWhile is_digit cs = cs" and dw: "dropWhile is_digit cs = []"
    using cs by (simp_all add: takeWhile_eq_all_conv dropWhile_eq_Nil_conv)
  show "strtol10 ds = (int (nat_of_digits ds), [])"
    using c dw is_digit_not_sign [OF c] is_digit_not_space [OF c]
    by (simp add: strtol10_def ds tw)
  show "strtol10 (CHR ''-'' # ds) = (- int (nat_of_digits ds), [])"
    using c dw by (simp add: strtol10_def is_space_def ds tw)
qed

lemma strtol10_int_to_dec: "strtol10 (int_to_dec n) = (n, [])"
proof (cases "n < 0")
  case True
  then show ?thesis
    using strtol10_digits(2) [OF nat_to_dec_ne nat_to_dec_digits]
    by (simp add: int_to_dec_def nat_of_digits_nat_to_dec)
next
  case False
  then show ?thesis
    using strtol10_digits(1) [OF nat_to_dec_ne nat_to_dec_digits]
    by (simp add: int_to_dec_def nat_of_digits_nat_to_dec)
qed

lemma int_to_dec_ne [simp]: "int_to_dec n \<noteq> []"
  by (simp add: int_to_dec_def)

lemma kf_parse_integer_int_to_dec:
  "in_gint_range n \<Longrightarrow> kf_parse_integer (int_to_dec n) = Inr n"
  by (simp add: kf_parse_integer_def strtol10_int_to_dec)

text \<open>A decimal number outside the range of \<^verbatim>\<open>gint\<close> is refused, not clamped.\<close>

lemma kf_parse_integer_out_of_range:
  "\<not> in_gint_range n \<Longrightarrow>
   kf_parse_integer (int_to_dec n) =
     Inl (GError KEY_FILE_ERROR_INVALID_VALUE (''Integer value '' @ glib_quote (int_to_dec n) @ '' out of range''))"
  by (simp add: kf_parse_integer_def strtol10_int_to_dec)

lemma kf_parse_integer_range: "kf_parse_integer v = Inr n \<Longrightarrow> in_gint_range n"
  by (auto simp: kf_parse_integer_def split: prod.splits if_splits)


section \<open>Properties of the lookups\<close>

lemma kf_get_value_Inr:
  "kf_get_value f grp key = Inr v \<longleftrightarrow> (\<exists>g. map_of f grp = Some g \<and> map_of g key = Some v)"
  by (auto simp: kf_get_value_def split: option.splits)

lemma kf_get_value_no_group:
  "map_of f grp = None \<Longrightarrow> \<exists>msg. kf_get_value f grp key = Inl (GError KEY_FILE_ERROR_GROUP_NOT_FOUND msg)"
  by (simp add: kf_get_value_def)

lemma g_key_file_get_string_NULL [simp]: "g_key_file_get_string None grp key = (None, None)"
  and g_key_file_get_integer_NULL [simp]: "g_key_file_get_integer None grp key = (-1, None)"
  by (simp_all add: g_key_file_get_string_def g_key_file_get_integer_def)

text \<open>On a key file that exists, the string getter keeps GLib's contract: it returns NULL
  exactly when it sets the error.\<close>

lemma g_key_file_get_string_contract:
  "fst (g_key_file_get_string (Some f) grp key) = None \<longleftrightarrow>
   snd (g_key_file_get_string (Some f) grp key) \<noteq> None"
  by (simp add: g_key_file_get_string_def split: sum.splits)

lemma g_key_file_get_integer_ok_range:
  "g_key_file_get_integer kf grp key = (n, None) \<Longrightarrow> in_gint_range n"
  by (auto simp: g_key_file_get_integer_def in_gint_range_def gint_min_def gint_max_def
           dest: kf_parse_integer_range split: option.splits sum.splits)

lemma g_key_file_get_integer_value:
  "kf_get_value f grp key = Inr v \<Longrightarrow>
   g_key_file_get_integer (Some f) grp key =
     (case kf_parse_integer v of Inl _ \<Rightarrow> (0, Some (kf_uninterpretable grp key)) | Inr n \<Rightarrow> (n, None))"
  by (simp add: g_key_file_get_integer_def)

lemma g_key_file_get_integer_absent:
  "kf_get_value f grp key = Inl e \<Longrightarrow> g_key_file_get_integer (Some f) grp key = (0, Some e)"
  and g_key_file_get_string_absent:
  "kf_get_value f grp key = Inl e \<Longrightarrow> g_key_file_get_string (Some f) grp key = (None, Some e)"
  by (simp_all add: g_key_file_get_integer_def g_key_file_get_string_def)

lemmas keyfile_getters = g_key_file_get_string_def g_key_file_get_integer_def kf_get_value_def

section \<open>Printing a key file, and reading it back\<close>

text \<open>
  \<open>kf_print\<close> writes a key file in the format \<^verbatim>\<open>g_key_file_load_from_file\<close> reads: a
  \<^verbatim>\<open>[group]\<close> line per group followed by its \<^verbatim>\<open>key=value\<close> lines. A key file is
  well-formed (\<open>kf_wf\<close>) when group names and keys are distinct and valid, no key starts
  or ends with white space or starts with \<^verbatim>\<open>#\<close>, and no value starts with white space;
  the parser reads such a file back exactly (\<open>kf_parse_print\<close>).
\<close>

definition kf_pair_line :: "string \<times> string \<Rightarrow> string" where
  "kf_pair_line kv = fst kv @ ''='' @ snd kv"

definition kf_group_line :: "string \<Rightarrow> string" where
  "kf_group_line g = ''['' @ g @ '']''"

definition kf_print :: "keyfile \<Rightarrow> string list" where
  "kf_print kf = concat (map (\<lambda>(g, ps). kf_group_line g # map kf_pair_line ps) kf)"

definition kf_pair_ok :: "string \<times> string \<Rightarrow> bool" where
  "kf_pair_ok kv \<longleftrightarrow>
     kf_key_name_ok (fst kv) \<and> \<not> is_space (hd (fst kv)) \<and> \<not> is_space (last (fst kv)) \<and>
     hd (fst kv) \<noteq> CHR ''#'' \<and> (snd kv = [] \<or> \<not> is_space (hd (snd kv)))"

definition kf_wf :: "keyfile \<Rightarrow> bool" where
  "kf_wf kf \<longleftrightarrow>
     distinct (map fst kf) \<and>
     (\<forall>(g, ps) \<in> set kf. kf_group_name_ok g \<and> distinct (map fst ps) \<and> (\<forall>kv \<in> set ps. kf_pair_ok kv))"

lemma dropWhile_space_nonspace: "\<not> is_space (hd s) \<Longrightarrow> dropWhile is_space s = s"
  by (cases s) simp_all

lemma kf_pair_line_parse:
  assumes "kf_pair_ok kv"
  shows "dropWhile is_space (kf_pair_line kv) = kf_pair_line kv"
    and "kf_pair_line kv \<noteq> [] \<and> hd (kf_pair_line kv) \<noteq> CHR ''#''"
    and "kf_line_group (kf_pair_line kv) = None"
    and "kf_line_pair (kf_pair_line kv) = Some kv"
proof -
  obtain k v where kv: "kv = (k, v)" by fastforce
  have k: "k \<noteq> []" "\<forall>c \<in> set k. c \<noteq> CHR ''='' \<and> c \<noteq> CHR ''['' \<and> c \<noteq> CHR '']''"
    "\<not> is_space (hd k)" "\<not> is_space (last k)" "hd k \<noteq> CHR ''#''"
    and v: "v = [] \<or> \<not> is_space (hd v)"
    using assms by (simp_all add: kf_pair_ok_def kf_key_name_ok_def kv)
  obtain c r where cr: "k = c # r" using k(1) by (cases k) auto
  have tw: "takeWhile (\<lambda>x. x \<noteq> CHR ''='') (k @ ''='' @ v) = k"
    and dw: "dropWhile (\<lambda>x. x \<noteq> CHR ''='') (k @ ''='' @ v) = ''='' @ v"
    using k(2) by (simp_all add: takeWhile_append2 dropWhile_append2)
  have rk: "rev (dropWhile is_space (rev k)) = k"
    using k(1,4) by (simp add: dropWhile_space_nonspace hd_rev)
  have dv: "dropWhile is_space v = v" using v by (cases v) simp_all
  show "dropWhile is_space (kf_pair_line kv) = kf_pair_line kv"
    using k(3) by (simp add: kf_pair_line_def kv cr)
  show "kf_pair_line kv \<noteq> [] \<and> hd (kf_pair_line kv) \<noteq> CHR ''#''"
    using k(5) by (simp add: kf_pair_line_def kv cr)
  show "kf_line_group (kf_pair_line kv) = None"
    using k(2) by (simp add: kf_pair_line_def kf_line_group_def kv cr)
  show "kf_line_pair (kf_pair_line kv) = Some kv"
    using k(2) tw dw rk dv by (simp add: kf_pair_line_def kf_line_pair_def kv cr)
qed

lemma kf_group_line_parse:
  assumes "kf_group_name_ok g"
  shows "dropWhile is_space (kf_group_line g) = kf_group_line g"
    and "kf_group_line g \<noteq> [] \<and> hd (kf_group_line g) \<noteq> CHR ''#''"
    and "kf_line_group (kf_group_line g) = Some g"
proof -
  have g: "\<forall>c \<in> set g. c \<noteq> CHR '']''" using assms by (simp add: kf_group_name_ok_def)
  show "dropWhile is_space (kf_group_line g) = kf_group_line g"
    by (simp add: kf_group_line_def is_space_def)
  show "kf_group_line g \<noteq> [] \<and> hd (kf_group_line g) \<noteq> CHR ''#''" by (simp add: kf_group_line_def)
  have "takeWhile (\<lambda>x. x \<noteq> CHR '']'') (g @ '']'') = g"
    and "dropWhile (\<lambda>x. x \<noteq> CHR '']'') (g @ '']'') = '']''"
    using g by (simp_all add: takeWhile_append2 dropWhile_append2)
  then show "kf_line_group (kf_group_line g) = Some g"
    by (simp add: kf_group_line_def kf_line_group_def)
qed

lemma alist_update_absent: "k \<notin> set (map fst qs) \<Longrightarrow> AList.update k v qs = qs @ [(k, v)]"
  by (induction qs) auto

lemma alist_map_entry_last:
  "g \<notin> set (map fst pre) \<Longrightarrow> AList.map_entry g f (pre @ [(g, qs)]) = pre @ [(g, f qs)]"
  by (induction pre) auto

lemma kf_parse_pairs:
  assumes "g \<notin> set (map fst pre)" and "distinct (map fst (qs @ ps))" and "\<forall>kv \<in> set ps. kf_pair_ok kv"
  shows "kf_parse_lines (Some g) (map kf_pair_line ps @ rest) (pre @ [(g, qs)]) =
         kf_parse_lines (Some g) rest (pre @ [(g, qs @ ps)])"
  using assms(2,3)
proof (induction ps arbitrary: qs)
  case Nil
  then show ?case by simp
next
  case (Cons kv ps)
  have ok: "kf_pair_ok kv" using Cons.prems(2) by simp
  have key: "kf_key_name_ok (fst kv)" using ok by (simp add: kf_pair_ok_def)
  have nin: "fst kv \<notin> set (map fst qs)" using Cons.prems(1) by simp
  have "kf_add_pair g (fst kv) (snd kv) (pre @ [(g, qs)]) = pre @ [(g, qs @ [kv])]"
    using assms(1) nin by (simp add: kf_add_pair_def alist_map_entry_last alist_update_absent)
  moreover have "kf_parse_lines (Some g) (map kf_pair_line ps @ rest) (pre @ [(g, qs @ [kv])]) =
                 kf_parse_lines (Some g) rest (pre @ [(g, (qs @ [kv]) @ ps)])"
    using Cons.IH [of "qs @ [kv]"] Cons.prems by simp
  ultimately show ?case
    using kf_pair_line_parse [OF ok] key by (simp add: Let_def prod.case_eq_if)
qed

lemma kf_parse_groups:
  assumes "distinct (map fst (pre @ gs))"
    and "\<forall>(g, ps) \<in> set gs. kf_group_name_ok g \<and> distinct (map fst ps) \<and> (\<forall>kv \<in> set ps. kf_pair_ok kv)"
  shows "kf_parse_lines cur (kf_print gs) pre = Inr (pre @ gs)"
  using assms
proof (induction gs arbitrary: cur pre)
  case Nil
  then show ?case by (simp add: kf_print_def)
next
  case (Cons gp gs)
  obtain g ps where gp: "gp = (g, ps)" by fastforce
  have g: "kf_group_name_ok g" and dps: "distinct (map fst ps)" and ps: "\<forall>kv \<in> set ps. kf_pair_ok kv"
    using Cons.prems(2) gp by auto
  have ng: "g \<notin> set (map fst pre)" using Cons.prems(1) gp by auto
  have add: "kf_add_group g pre = pre @ [(g, [])]"
    using ng by (simp add: kf_add_group_def map_of_eq_None_iff)
  have pairs: "kf_parse_lines (Some g) (map kf_pair_line ps @ kf_print gs) (pre @ [(g, [])]) =
               kf_parse_lines (Some g) (kf_print gs) (pre @ [(g, ps)])"
    using kf_parse_pairs [OF ng _ ps, of "[]"] dps by simp
  have rest: "kf_parse_lines (Some g) (kf_print gs) (pre @ [(g, ps)]) = Inr ((pre @ [(g, ps)]) @ gs)"
    using Cons.IH [of "pre @ [(g, ps)]"] Cons.prems gp by simp
  have "kf_print (gp # gs) = kf_group_line g # map kf_pair_line ps @ kf_print gs"
    by (simp add: kf_print_def gp)
  then show ?case
    using kf_group_line_parse [OF g] g add pairs rest gp by (simp add: Let_def)
qed

lemma kf_parse_print: "kf_wf kf \<Longrightarrow> kf_parse_lines None (kf_print kf) [] = Inr kf"
  using kf_parse_groups [of "[]" kf None] by (simp add: kf_wf_def)

section \<open>Escaping a string value, and reading it back\<close>

text \<open>
  The escaping GLib applies when it writes a string value
  (\<^verbatim>\<open>g_key_file_set_string\<close>, through \<^verbatim>\<open>g_key_file_parse_string_as_value\<close>): leading
  spaces become \<^verbatim>\<open>\s\<close>, newline, tab, carriage return and backslash their escapes, and
  every other character stands for itself. It is the writer side of the string getter
  and is used to state which values a configuration can carry.
\<close>

definition kf_escape_one :: "char \<Rightarrow> string" where
  "kf_escape_one c =
     (if c = CHR 0x0A then [CHR 0x5C, CHR ''n'']
      else if c = CHR 0x09 then [CHR 0x5C, CHR ''t'']
      else if c = CHR 0x0D then [CHR 0x5C, CHR ''r'']
      else if c = CHR 0x5C then [CHR 0x5C, CHR 0x5C]
      else [c])"

fun kf_escape_from :: "bool \<Rightarrow> string \<Rightarrow> string" where
  "kf_escape_from lead [] = []"
| "kf_escape_from lead (c # cs) =
     (if lead \<and> c = CHR '' '' then [CHR 0x5C, CHR ''s''] @ kf_escape_from True cs
      else kf_escape_one c @ kf_escape_from False cs)"

definition kf_escape :: "string \<Rightarrow> string" where
  "kf_escape s = kf_escape_from True s"

lemma kf_unescape_plain:
  "c \<noteq> CHR 0x5C \<Longrightarrow> kf_unescape (c # r) = map_sum id (Cons c) (kf_unescape r)"
  by (cases r) simp_all

lemma kf_unescape_escape_one:
  "kf_unescape (kf_escape_one c @ r) = map_sum id (Cons c) (kf_unescape r)"
  by (simp add: kf_escape_one_def kf_escape_char_def kf_unescape_plain)

lemma kf_unescape_escape_from: "kf_unescape (kf_escape_from lead s) = Inr s"
proof (induction s arbitrary: lead)
  case Nil
  then show ?case by simp
next
  case (Cons c cs)
  then show ?case by (simp add: kf_escape_char_def kf_unescape_escape_one)
qed

lemma kf_unescape_escape: "kf_unescape (kf_escape s) = Inr s"
  by (simp add: kf_escape_def kf_unescape_escape_from)

lemma g_utf8_validate_ascii_Cons:
  "of_char c < (128::nat) \<Longrightarrow> g_utf8_validate (c # s) = g_utf8_validate s"
  using g_utf8_validate_ascii_append [of "[c]" s] by simp

lemma kf_escape_one_ascii: "of_char c < (128::nat) \<Longrightarrow> \<forall>x \<in> set (kf_escape_one c). of_char x < (128::nat)"
  by (simp add: kf_escape_one_def)

lemma kf_escape_from_high:
  "\<forall>x \<in> set xs. (128::nat) \<le> of_char x \<Longrightarrow>
   kf_escape_from lead (xs @ ys) = xs @ kf_escape_from (lead \<and> xs = []) ys"
proof (induction xs arbitrary: lead)
  case (Cons x xs)
  have "x \<noteq> CHR '' ''" and "kf_escape_one x = [x]"
    using Cons.prems by (auto simp: kf_escape_one_def)
  then show ?case using Cons by simp
qed simp

lemma kf_escape_from_utf8:
  "g_utf8_validate s \<Longrightarrow> g_utf8_validate (kf_escape_from lead s)"
proof (induction s arbitrary: lead rule: utf8_valid_len.induct)
  case 1
  then show ?case by simp
next
  case (2 c cs)
  obtain k where k: "utf8_seq_len c cs = Some k" and r: "g_utf8_validate (drop (k - 1) cs)"
    using g_utf8_validate_Cons [OF "2.prems"] by blast
  have ih: "g_utf8_validate (kf_escape_from l (drop (k - 1) cs))" for l
    using "2.IH" [OF k r] .
  show ?case
  proof (cases "k = 1")
    case True
    then have a: "of_char c < (128::nat)" using utf8_seq_len_ascii [OF k] by simp
    have "g_utf8_validate (kf_escape_from l cs)" for l using ih True by simp
    then show ?thesis
      using a kf_escape_one_ascii [OF a]
      by (simp add: g_utf8_validate_ascii_append g_utf8_validate_ascii_Cons del: g_utf8_validate_def)
  next
    case False
    then have hi: "(128::nat) \<le> of_char c" using utf8_seq_len_ascii [OF k] by simp
    have c: "c \<noteq> CHR '' ''" "kf_escape_one c = [c]" using hi by (auto simp: kf_escape_one_def)
    have t: "\<forall>x \<in> set (take (k - 1) cs). (128::nat) \<le> of_char x" using utf8_seq_len_cont [OF k] by blast
    have "kf_escape_from lead (c # cs) = c # take (k - 1) cs @ kf_escape_from False (drop (k - 1) cs)"
      using c kf_escape_from_high [OF t, of False "drop (k - 1) cs"] by simp
    then show ?thesis using g_utf8_validate_seq [OF k ih] by simp
  qed
qed

text \<open>A value GLib wrote with \<^verbatim>\<open>g_key_file_set_string\<close> from a UTF-8 string is read back
  unchanged.\<close>

lemma g_key_file_get_string_escaped:
  "kf_get_value kf grp key = Inr (kf_escape s) \<Longrightarrow> g_utf8_validate s \<Longrightarrow>
   g_key_file_get_string (Some kf) grp key = (Some s, None)"
  by (simp add: g_key_file_get_string_def kf_unescape_escape_from kf_escape_def kf_escape_from_utf8
      del: g_utf8_validate_def)

end
