(* ===== verification/Json.thy ===== *)
theory Json
  imports Prelude
begin

text \<open>
  The value tree (spec 4.3) and json-glib's \<^verbatim>\<open>JsonBuilder\<close>, which
  \<^verbatim>\<open>configure_http_server\<close> drives to build the tree the HTTP server exposes. The builder
  is a stack machine: a stack of open containers (an object with its pending member name,
  or an array) and the finished root. Each builder call checks its precondition with
  \<^verbatim>\<open>g_return_val_if_fail\<close>; a call that fails it changes nothing. The strict run
  \<open>jb_exec\<close> instead stops at the first failing call, so that "every call of a sequence is
  valid" can be stated. The library is not under \<^verbatim>\<open>src/\<close>; the command sequence
  \<open>value_root_cmds\<close> is the one of \<^verbatim>\<open>main.c\<close>.
\<close>

section \<open>Values\<close>

text \<open>A C floating literal, kept as written: \<open>FloatLit m e\<close> stands for \<open>m / 10^e\<close>.\<close>

datatype float_lit = FloatLit int nat

datatype json =
    JInt int
  | JDouble float_lit
  | JString string
  | JNull
  | JArray "json list"
  | JObject "(string \<times> json) list"

text \<open>A tree the builder can reproduce: the member names of every object are distinct.\<close>

fun json_wf :: "json \<Rightarrow> bool" where
  "json_wf (JArray vs) = (\<forall>v \<in> set vs. json_wf v)"
| "json_wf (JObject ms) = (distinct (map fst ms) \<and> (\<forall>m \<in> set ms. json_wf (snd m)))"
| "json_wf _ = True"

section \<open>The builder\<close>

datatype jframe = FObject "string option" "(string \<times> json) list" | FArray "json list"

record jbuilder =
  jb_stack :: "jframe list"
  jb_root :: "json option"

definition json_builder_new :: jbuilder where
  "json_builder_new = \<lparr>jb_stack = [], jb_root = None\<rparr>"

text \<open>\<^verbatim>\<open>json_builder_is_valid_add_mode\<close>: a value may be added inside an array, after a
  member name, or at the top level while no root has been built.\<close>

fun jb_add_mode :: "jbuilder \<Rightarrow> bool" where
  "jb_add_mode b =
     (case jb_stack b of
        [] \<Rightarrow> jb_root b = None
      | FObject k _ # _ \<Rightarrow> k \<noteq> None
      | FArray _ # _ \<Rightarrow> True)"

text \<open>Where a finished value goes: the root, the pending member, or the end of the array.
  \<^verbatim>\<open>json_object_set_member\<close> replaces a member of the same name in place.\<close>

fun jb_attach :: "json \<Rightarrow> jbuilder \<Rightarrow> jbuilder" where
  "jb_attach v b =
     (case jb_stack b of
        [] \<Rightarrow> b\<lparr>jb_root := Some v\<rparr>
      | FObject (Some k) ms # st \<Rightarrow> b\<lparr>jb_stack := FObject None (AList.update k v ms) # st\<rparr>
      | FObject None ms # st \<Rightarrow> b
      | FArray vs # st \<Rightarrow> b\<lparr>jb_stack := FArray (vs @ [v]) # st\<rparr>)"

datatype jcmd =
    BeginObject | EndObject | BeginArray | EndArray | SetMemberName string
  | AddIntValue int | AddDoubleValue float_lit | AddStringValue string | AddNullValue

fun jb_step :: "jcmd \<Rightarrow> jbuilder \<Rightarrow> jbuilder option" where
  "jb_step BeginObject b =
     (if jb_add_mode b then Some (b\<lparr>jb_stack := FObject None [] # jb_stack b\<rparr>) else None)"
| "jb_step BeginArray b =
     (if jb_add_mode b then Some (b\<lparr>jb_stack := FArray [] # jb_stack b\<rparr>) else None)"
| "jb_step EndObject b =
     (case jb_stack b of
        FObject None ms # st \<Rightarrow> Some (jb_attach (JObject ms) (b\<lparr>jb_stack := st\<rparr>))
      | _ \<Rightarrow> None)"
| "jb_step EndArray b =
     (case jb_stack b of
        FArray vs # st \<Rightarrow> Some (jb_attach (JArray vs) (b\<lparr>jb_stack := st\<rparr>))
      | _ \<Rightarrow> None)"
| "jb_step (SetMemberName k) b =
     (case jb_stack b of
        FObject None ms # st \<Rightarrow> Some (b\<lparr>jb_stack := FObject (Some k) ms # st\<rparr>)
      | _ \<Rightarrow> None)"
| "jb_step (AddIntValue n) b = (if jb_add_mode b then Some (jb_attach (JInt n) b) else None)"
| "jb_step (AddDoubleValue d) b = (if jb_add_mode b then Some (jb_attach (JDouble d) b) else None)"
| "jb_step (AddStringValue s) b = (if jb_add_mode b then Some (jb_attach (JString s) b) else None)"
| "jb_step AddNullValue b = (if jb_add_mode b then Some (jb_attach JNull b) else None)"

text \<open>The C call: a failed precondition leaves the builder as it was.\<close>

definition jb_call :: "jcmd \<Rightarrow> jbuilder \<Rightarrow> jbuilder" where
  "jb_call c b = (case jb_step c b of None \<Rightarrow> b | Some b' \<Rightarrow> b')"

fun jb_run :: "jcmd list \<Rightarrow> jbuilder \<Rightarrow> jbuilder" where
  "jb_run [] b = b"
| "jb_run (c # cs) b = jb_run cs (jb_call c b)"

fun jb_exec :: "jcmd list \<Rightarrow> jbuilder \<Rightarrow> jbuilder option" where
  "jb_exec [] b = Some b"
| "jb_exec (c # cs) b = (case jb_step c b of None \<Rightarrow> None | Some b' \<Rightarrow> jb_exec cs b')"

text \<open>\<^verbatim>\<open>json_builder_get_root\<close>: the root once the outermost container is closed.\<close>

definition json_builder_get_root :: "jbuilder \<Rightarrow> json option" where
  "json_builder_get_root b = jb_root b"

section \<open>The tree of main.c\<close>

text \<open>\<^verbatim>\<open>configure_http_server\<close>, the calls between \<^verbatim>\<open>json_builder_new\<close> and
  \<^verbatim>\<open>json_builder_get_root\<close>.\<close>

definition value_root_cmds :: "jcmd list" where
  "value_root_cmds =
     [BeginObject,
      SetMemberName ''foo'', AddIntValue 78,
      SetMemberName ''bar'', BeginArray,
        AddDoubleValue (FloatLit 31415 4), AddDoubleValue (FloatLit (-141) 2),
      EndArray,
      EndObject]"

section \<open>Emitting a tree as builder calls\<close>

fun jemit :: "json \<Rightarrow> jcmd list" where
  "jemit (JInt n) = [AddIntValue n]"
| "jemit (JDouble d) = [AddDoubleValue d]"
| "jemit (JString s) = [AddStringValue s]"
| "jemit JNull = [AddNullValue]"
| "jemit (JArray vs) = BeginArray # concat (map jemit vs) @ [EndArray]"
| "jemit (JObject ms) =
     BeginObject # concat (map (\<lambda>m. SetMemberName (fst m) # jemit (snd m)) ms) @ [EndObject]"

section \<open>Emitting and building back\<close>

lemma jb_stack_idem [simp]: "b\<lparr>jb_stack := jb_stack b\<rparr> = b"
  by (cases b) simp

lemma jb_exec_append:
  "jb_exec (xs @ ys) b = (case jb_exec xs b of None \<Rightarrow> None | Some b' \<Rightarrow> jb_exec ys b')"
  by (induction xs arbitrary: b) (auto split: option.splits)

lemma jb_exec_run: "jb_exec cs b = Some b' \<Longrightarrow> jb_run cs b = b'"
  by (induction cs arbitrary: b) (auto simp: jb_call_def split: option.splits)

lemma update_fresh: "k \<notin> set (map fst ms) \<Longrightarrow> AList.update k v ms = ms @ [(k, v)]"
  by (induction ms) auto

lemma jb_exec_elems:
  assumes "\<forall>v \<in> set vs. \<forall>b. jb_add_mode b \<longrightarrow> jb_exec (jemit v) b = Some (jb_attach v b)"
  shows "jb_exec (concat (map jemit vs)) (b\<lparr>jb_stack := FArray acc # st\<rparr>) =
         Some (b\<lparr>jb_stack := FArray (acc @ vs) # st\<rparr>)"
  using assms
proof (induction vs arbitrary: acc)
  case Nil
  then show ?case by simp
next
  case (Cons v vs)
  have "jb_exec (jemit v) (b\<lparr>jb_stack := FArray acc # st\<rparr>) = Some (b\<lparr>jb_stack := FArray (acc @ [v]) # st\<rparr>)"
    using Cons.prems by simp
  with Cons show ?case by (simp add: jb_exec_append)
qed

lemma jb_exec_members:
  assumes "\<forall>m \<in> set ms. \<forall>b. jb_add_mode b \<longrightarrow> jb_exec (jemit (snd m)) b = Some (jb_attach (snd m) b)"
    and "distinct (map fst (acc @ ms))"
  shows "jb_exec (concat (map (\<lambda>m. SetMemberName (fst m) # jemit (snd m)) ms))
           (b\<lparr>jb_stack := FObject None acc # st\<rparr>) =
         Some (b\<lparr>jb_stack := FObject None (acc @ ms) # st\<rparr>)"
  using assms
proof (induction ms arbitrary: acc)
  case Nil
  then show ?case by simp
next
  case (Cons m ms)
  obtain k v where m: "m = (k, v)" by (cases m)
  have fresh: "k \<notin> set (map fst acc)" using Cons.prems(2) m by simp
  have "jb_exec (jemit v) (b\<lparr>jb_stack := FObject (Some k) acc # st\<rparr>) =
        Some (b\<lparr>jb_stack := FObject None (acc @ [(k, v)]) # st\<rparr>)"
    using Cons.prems(1) m fresh by (simp add: update_fresh)
  moreover have "distinct (map fst ((acc @ [(k, v)]) @ ms))" using Cons.prems(2) m by simp
  ultimately show ?case using Cons.IH Cons.prems(1) m by (simp add: jb_exec_append)
qed

lemma jb_exec_jemit:
  "json_wf t \<Longrightarrow> jb_add_mode b \<Longrightarrow> jb_exec (jemit t) b = Some (jb_attach t b)"
proof (induction t arbitrary: b)
  case (JArray vs)
  then have "jb_exec (concat (map jemit vs)) (b\<lparr>jb_stack := FArray [] # jb_stack b\<rparr>) =
             Some (b\<lparr>jb_stack := FArray vs # jb_stack b\<rparr>)"
    using jb_exec_elems [where vs = vs and b = b and acc = "[]" and st = "jb_stack b"] by simp
  with JArray.prems show ?case by (simp add: jb_exec_append split: list.splits jframe.splits option.splits)
next
  case (JObject ms)
  then have "jb_exec (concat (map (\<lambda>m. SetMemberName (fst m) # jemit (snd m)) ms))
               (b\<lparr>jb_stack := FObject None [] # jb_stack b\<rparr>) =
             Some (b\<lparr>jb_stack := FObject None ms # jb_stack b\<rparr>)"
    using jb_exec_members [where ms = ms and b = b and acc = "[]" and st = "jb_stack b"] by fastforce
  with JObject.prems show ?case by (simp add: jb_exec_append split: list.splits jframe.splits option.splits)
qed simp_all

theorem json_builder_roundtrip:
  "json_wf t \<Longrightarrow> json_builder_get_root (jb_run (jemit t) json_builder_new) = Some t"
  using jb_exec_jemit [of t json_builder_new]
  by (simp add: jb_exec_run json_builder_new_def json_builder_get_root_def)

section \<open>The builder invariant\<close>

text \<open>A root exists only when no container is open.\<close>

definition jb_inv :: "jbuilder \<Rightarrow> bool" where
  "jb_inv b \<longleftrightarrow> (jb_root b \<noteq> None \<longrightarrow> jb_stack b = [])"

lemma jb_inv_new [simp]: "jb_inv json_builder_new"
  by (simp add: jb_inv_def json_builder_new_def)

lemma jb_attach_inv:
  "jb_inv b \<Longrightarrow> jb_inv (jb_attach v b)"
  by (auto simp: jb_inv_def split: list.splits jframe.splits option.splits)

lemma jb_attach_pop_inv:
  "jb_inv b \<Longrightarrow> jb_stack b = f # st \<Longrightarrow> jb_inv (jb_attach v (b\<lparr>jb_stack := st\<rparr>))"
  by (auto simp: jb_inv_def split: list.splits jframe.splits option.splits)

lemma jb_step_inv:
  assumes "jb_inv b" and "jb_step c b = Some b'"
  shows "jb_inv b'"
  using assms
  by (cases c)
     (auto simp: jb_inv_def jb_attach_inv [unfolded jb_inv_def] jb_attach_pop_inv [unfolded jb_inv_def]
           split: if_splits list.splits jframe.splits option.splits)

lemma jb_call_inv: "jb_inv b \<Longrightarrow> jb_inv (jb_call c b)"
  by (auto simp: jb_call_def intro: jb_step_inv split: option.splits)

lemma jb_run_inv: "jb_inv b \<Longrightarrow> jb_inv (jb_run cs b)"
  by (induction cs arbitrary: b) (simp_all add: jb_call_inv)

text \<open>Once the root is built, every further builder call is refused: the tree is final.\<close>

lemma jb_root_final:
  "jb_inv b \<Longrightarrow> jb_root b \<noteq> None \<Longrightarrow> jb_step c b = None"
  by (cases c) (auto simp: jb_inv_def)

text \<open>While a container is open there is no root to hand to the server.\<close>

lemma jb_unclosed_no_root:
  "jb_inv b \<Longrightarrow> jb_stack b \<noteq> [] \<Longrightarrow> json_builder_get_root b = None"
  by (auto simp: jb_inv_def json_builder_get_root_def)

end
