(* ===== verification/HttpServer.thy ===== *)
theory HttpServer
  imports Json
begin

text \<open>
  The HTTP server object (\<^verbatim>\<open>httpd.h\<close>, not under \<^verbatim>\<open>src/\<close>) at the interface the spec
  gives it (spec 6): it is created with its built-in defaults, its properties are set by
  name through \<^verbatim>\<open>g_object_set\<close>, and it is started. A property that was never set
  holds \<open>None\<close>, standing for the server's own default, which the sources do not show. A
  property name the object does not have, or a value of the wrong type, leaves the object
  unchanged (GLib only prints a warning).
\<close>

record http_server =
  hs_port :: "guint option"
  hs_user :: "string option"
  hs_password :: "string option"
  hs_root :: "string option"
  hs_value_root :: "json option option"
  hs_listening :: bool

definition http_server_new :: http_server where
  "http_server_new =
     \<lparr>hs_port = None, hs_user = None, hs_password = None, hs_root = None,
      hs_value_root = None, hs_listening = False\<rparr>"

text \<open>The values \<^verbatim>\<open>g_object_set\<close> passes: a \<^verbatim>\<open>guint\<close>, a string, or a (possibly NULL)
  \<^verbatim>\<open>JsonNode\<close>.\<close>

datatype gvalue = GUInt guint | GString string | GJsonNode "json option"

fun http_server_set_property :: "string \<Rightarrow> gvalue \<Rightarrow> http_server \<Rightarrow> http_server" where
  "http_server_set_property p (GUInt n) s =
     (if p = ''http-port'' then s\<lparr>hs_port := Some n\<rparr> else s)"
| "http_server_set_property p (GString v) s =
     (if p = ''user'' then s\<lparr>hs_user := Some v\<rparr>
      else if p = ''password'' then s\<lparr>hs_password := Some v\<rparr>
      else if p = ''http-root'' then s\<lparr>hs_root := Some v\<rparr>
      else s)"
| "http_server_set_property p (GJsonNode j) s =
     (if p = ''value-root'' then s\<lparr>hs_value_root := Some j\<rparr> else s)"

text \<open>Setting a property never touches another one, and never starts the server.\<close>

lemma http_server_set_property_listening [simp]:
  "hs_listening (http_server_set_property p v s) = hs_listening s"
  by (cases v) simp_all

lemma http_server_set_property_other:
  "p \<notin> {''http-port'', ''user'', ''password'', ''http-root'', ''value-root''} \<Longrightarrow>
   http_server_set_property p v s = s"
  by (cases v) simp_all

end
