(* ===== verification/RunLoop.thy ===== *)
theory RunLoop
  imports Prelude
begin

text \<open>
  The run loop (spec 5): GLib's \<^verbatim>\<open>GMainLoop\<close> with the SIGINT source that
  \<^verbatim>\<open>main\<close> installs through \<^verbatim>\<open>g_unix_signal_add (SIGINT, sigint_handler, loop)\<close>.
  The loop is single-threaded: it takes the events delivered to the process one at a time
  and dispatches each while it is running. \<^verbatim>\<open>sigint_handler\<close> only asks the loop to quit
  and keeps its source installed (it returns \<^verbatim>\<open>TRUE\<close>). Events of the receiver and the
  HTTP server are dispatched to those subsystems, which are not modelled; they do not touch
  the loop. A loop that runs out of events blocks: \<^verbatim>\<open>g_main_loop_run\<close> does not return,
  which is the value \<open>None\<close>.
\<close>

datatype event = SIGINT | IO_EVENT

record gmainloop =
  is_running :: bool

definition g_main_loop_new :: gmainloop where
  "g_main_loop_new = \<lparr>is_running = False\<rparr>"

definition g_main_loop_quit :: "gmainloop \<Rightarrow> gmainloop" where
  "g_main_loop_quit l = l\<lparr>is_running := False\<rparr>"

text \<open>\<^verbatim>\<open>sigint_handler\<close>: quit the loop, keep the source (\<^verbatim>\<open>TRUE\<close>).\<close>

definition sigint_handler :: "gmainloop \<Rightarrow> gmainloop \<times> bool" where
  "sigint_handler l = (g_main_loop_quit l, True)"

fun loop_dispatch :: "event \<Rightarrow> gmainloop \<Rightarrow> gmainloop" where
  "loop_dispatch SIGINT l = fst (sigint_handler l)"
| "loop_dispatch IO_EVENT l = l"

text \<open>\<^verbatim>\<open>while (loop->is_running) g_main_context_iteration (context, TRUE)\<close>.\<close>

fun loop_iterate :: "gmainloop \<Rightarrow> event list \<Rightarrow> (gmainloop \<times> event list) option" where
  "loop_iterate l [] = (if is_running l then None else Some (l, []))"
| "loop_iterate l (e # es) =
     (if is_running l then loop_iterate (loop_dispatch e l) es else Some (l, e # es))"

definition g_main_loop_run :: "gmainloop \<Rightarrow> event list \<Rightarrow> (gmainloop \<times> event list) option" where
  "g_main_loop_run l es = loop_iterate (l\<lparr>is_running := True\<rparr>) es"

section \<open>Behaviour of the loop\<close>

lemma loop_iterate_stopped [simp]: "\<not> is_running l \<Longrightarrow> loop_iterate l es = Some (l, es)"
  by (cases es) simp_all

text \<open>A running loop dispatches events up to and including the first SIGINT, then
  returns; the events after it stay undispatched. Without a SIGINT it never returns.\<close>

lemma loop_iterate_running:
  "is_running l \<Longrightarrow>
   loop_iterate l es =
     (if SIGINT \<in> set es
      then Some (l\<lparr>is_running := False\<rparr>, tl (dropWhile (\<lambda>e. e \<noteq> SIGINT) es))
      else None)"
proof (induction es arbitrary: l)
  case Nil
  then show ?case by simp
next
  case (Cons e es)
  show ?case
  proof (cases e)
    case SIGINT
    then show ?thesis
      using Cons.prems by (simp add: sigint_handler_def g_main_loop_quit_def)
  next
    case IO_EVENT
    then show ?thesis using Cons by simp
  qed
qed

lemma g_main_loop_run_eq:
  "g_main_loop_run l es =
     (if SIGINT \<in> set es
      then Some (l\<lparr>is_running := False\<rparr>, tl (dropWhile (\<lambda>e. e \<noteq> SIGINT) es))
      else None)"
  by (simp add: g_main_loop_run_def loop_iterate_running)

end
