(* ===== verification/Lifecycle.thy ===== *)
theory Lifecycle
  imports Prelude
begin

text \<open>
  The abstract specification of the service lifecycle (spec 4.4): the states of the
  startup and shutdown sequence and the transitions the spec allows, as an inductive
  step relation. Fatal failures of the first three steps lead from the state reached so
  far directly to \<open>Terminated\<close>; the failure to start the HTTP server leads to the
  degraded state, from which the service still runs. The application theory records the
  states its run passes through and is shown to follow this machine.
\<close>

datatype phase =
    Init | OptionsParsed | ConfigLoaded | DeviceAcquired | ServerConfigured
  | ServerStarted | ServerDegraded | Running | ShuttingDown | Terminated

inductive lc_step :: "phase \<Rightarrow> phase \<Rightarrow> bool" where
  parse_ok: "lc_step Init OptionsParsed"
| parse_fail: "lc_step Init Terminated"
| load_ok: "lc_step OptionsParsed ConfigLoaded"
| load_fail: "lc_step OptionsParsed Terminated"
| device_ok: "lc_step ConfigLoaded DeviceAcquired"
| device_fail: "lc_step ConfigLoaded Terminated"
| configure: "lc_step DeviceAcquired ServerConfigured"
| start_ok: "lc_step ServerConfigured ServerStarted"
| start_fail: "lc_step ServerConfigured ServerDegraded"
| run_started: "lc_step ServerStarted Running"
| run_degraded: "lc_step ServerDegraded Running"
| interrupt: "lc_step Running ShuttingDown"
| teardown: "lc_step ShuttingDown Terminated"

inductive_cases lc_step_from_Terminated: "lc_step Terminated q"
inductive_cases lc_step_to_Running: "lc_step p Running"

lemmas lc_step_iff = lc_step.simps

text \<open>A run is a sequence of states, each a step from the one before.\<close>

fun lc_trace :: "phase list \<Rightarrow> bool" where
  "lc_trace (p # q # ps) = (lc_step p q \<and> lc_trace (q # ps))"
| "lc_trace _ = True"

inductive lc_reach :: "phase \<Rightarrow> phase \<Rightarrow> bool" where
  refl: "lc_reach p p"
| step: "lc_step p q \<Longrightarrow> lc_reach q r \<Longrightarrow> lc_reach p r"

lemma lc_terminated_final: "\<not> lc_step Terminated q"
  by (auto elim: lc_step_from_Terminated)

lemma lc_running_from: "lc_step p Running \<longleftrightarrow> p = ServerStarted \<or> p = ServerDegraded"
  by (auto elim: lc_step_to_Running intro: lc_step.intros)

text \<open>Every state of the specification can still terminate.\<close>

lemma lc_reach_terminated: "lc_reach p Terminated"
  by (cases p) (meson lc_reach.intros lc_step.intros)+

lemma lc_trace_append:
  "lc_trace (ps @ [p, q]) \<longleftrightarrow> lc_trace (ps @ [p]) \<and> lc_step p q"
  by (induction ps rule: lc_trace.induct) auto

lemma lc_trace_snoc:
  assumes "lc_trace ps" and "ps \<noteq> []" and "lc_step (last ps) q"
  shows "lc_trace (ps @ [q])"
proof -
  obtain qs p where ps: "ps = qs @ [p]" using assms(2) by (cases ps rule: rev_cases) auto
  with assms show ?thesis by (simp add: lc_trace_append)
qed

end
