(* ===== verification/Options.thy ===== *)
theory Options
  imports Prelude
begin

text \<open>
  The command line: the option table \<^verbatim>\<open>app_options\<close> of \<^verbatim>\<open>main.c\<close> (lines 101-105)
  and GLib's \<^verbatim>\<open>g_option_context_parse\<close> for the entries that table uses. Arguments are
  read from left to right. A long option is \<^verbatim>\<open>--name value\<close> or \<^verbatim>\<open>--name=value\<close>; a
  short option is \<^verbatim>\<open>-c value\<close>; a later occurrence replaces an earlier one. \<^verbatim>\<open>--\<close> ends
  option parsing. The help options of the main group, \<^verbatim>\<open>--help\<close>, \<^verbatim>\<open>--help-all\<close>,
  \<^verbatim>\<open>-h\<close> and \<^verbatim>\<open>-?\<close>, print the help text and call \<^verbatim>\<open>exit (0)\<close> inside the parser. An
  option that names no entry is the error \<^verbatim>\<open>G_OPTION_ERROR_UNKNOWN_OPTION\<close>; an option
  whose value is missing is \<^verbatim>\<open>G_OPTION_ERROR_BAD_VALUE\<close>. Grouped short options
  (\<^verbatim>\<open>-xc\<close>) are refused as unknown. Other argument words are left to the program.
  The parser keeps the values of the entries in an association list from the long name
  to the value; on an error nothing is stored (GLib reverts its changes).
\<close>

datatype goption_arg = G_OPTION_ARG_FILENAME

record option_entry =
  long_name :: string
  short_name :: char
  opt_flags :: nat
  opt_arg :: goption_arg
  opt_description :: string
  arg_description :: string

text \<open>\<^verbatim>\<open>app_options\<close>: the \<^verbatim>\<open>{NULL}\<close> terminator is the end of the list.\<close>

definition app_options :: "option_entry list" where
  "app_options =
     [\<lparr>long_name = ''config-file'', short_name = CHR ''c'', opt_flags = 0,
       opt_arg = G_OPTION_ARG_FILENAME, opt_description = ''Configuration file'',
       arg_description = ''FILE''\<rparr>]"

datatype opt_result = OptOk "(string \<times> string) list" | OptErr gerror | OptHelp

definition is_help_arg :: "string \<Rightarrow> bool" where
  "is_help_arg a \<longleftrightarrow> a \<in> {''--help'', ''--help-all'', ''-h'', ''-?''}"

definition opt_unknown :: "string \<Rightarrow> gerror" where
  "opt_unknown a = GError OPTION_ERROR_UNKNOWN_OPTION (''Unknown option '' @ a)"

definition opt_missing :: "string \<Rightarrow> gerror" where
  "opt_missing a = GError OPTION_ERROR_BAD_VALUE (''Missing argument for '' @ a)"

fun goption_parse :: "option_entry list \<Rightarrow> string list \<Rightarrow> (string \<times> string) list \<Rightarrow> opt_result" where
  "goption_parse es [] vals = OptOk vals"
| "goption_parse es (a # rest) vals =
     (if a = ''--'' then OptOk vals
      else if is_help_arg a then OptHelp
      else if take 2 a = ''--'' then
        (let body = drop 2 a; name = takeWhile (\<lambda>c. c \<noteq> CHR ''='') body in
         case find (\<lambda>e. long_name e = name) es of
           None \<Rightarrow> OptErr (opt_unknown a)
         | Some e \<Rightarrow>
             (if CHR ''='' \<in> set body
              then goption_parse es rest (AList.update name (tl (dropWhile (\<lambda>c. c \<noteq> CHR ''='') body)) vals)
              else (case rest of
                      [] \<Rightarrow> OptErr (opt_missing a)
                    | v # rest' \<Rightarrow> goption_parse es rest' (AList.update name v vals))))
      else if take 1 a = ''-'' \<and> 2 \<le> length a then
        (case find (\<lambda>e. a = [CHR ''-'', short_name e]) es of
           None \<Rightarrow> OptErr (opt_unknown a)
         | Some e \<Rightarrow>
             (case rest of
                [] \<Rightarrow> OptErr (opt_missing a)
              | v # rest' \<Rightarrow> goption_parse es rest' (AList.update (long_name e) v vals)))
      else goption_parse es rest vals)"

text \<open>\<^verbatim>\<open>g_option_context_parse\<close> on the arguments after the program name.\<close>

definition g_option_context_parse :: "option_entry list \<Rightarrow> string list \<Rightarrow> opt_result" where
  "g_option_context_parse es argv = goption_parse es argv []"

section \<open>Properties of the parser\<close>

lemma parse_help: "is_help_arg a \<Longrightarrow> g_option_context_parse es (a # args) = OptHelp"
  unfolding g_option_context_parse_def is_help_arg_def by (elim insertE emptyE) (simp_all add: is_help_arg_def)

lemma parse_missing:
  "a \<in> {''--config-file'', ''-c''} \<Longrightarrow> g_option_context_parse app_options [a] = OptErr (opt_missing a)"
  unfolding g_option_context_parse_def by (elim insertE emptyE) (simp_all add: app_options_def is_help_arg_def)

text \<open>Repeated occurrences of the option: each is parsed in turn and replaces the value of
  the one before.\<close>

lemma parse_config_pairs:
  "\<forall>sp \<in> set sps. sp \<in> {''--config-file'', ''-c''} \<Longrightarrow> length sps = length fs \<Longrightarrow>
   goption_parse app_options (concat (map (\<lambda>(sp, f). [sp, f]) (zip sps fs)) @ rest) vals =
   goption_parse app_options rest (fold (AList.update ''config-file'') fs vals)"
proof (induction fs arbitrary: sps vals)
  case Nil
  then show ?case by simp
next
  case (Cons f fs)
  then obtain sp sps' where sps: "sps = sp # sps'" by (cases sps) auto
  have "sp \<in> {''--config-file'', ''-c''}" using Cons.prems sps by simp
  then have "goption_parse app_options (sp # f # concat (map (\<lambda>(sp, f). [sp, f]) (zip sps' fs)) @ rest) vals =
             goption_parse app_options (concat (map (\<lambda>(sp, f). [sp, f]) (zip sps' fs)) @ rest)
               (AList.update ''config-file'' f vals)"
    by (elim insertE emptyE) (simp_all add: app_options_def is_help_arg_def Let_def)
  then show ?case using Cons.IH [of sps'] Cons.prems sps by simp
qed

lemma map_of_fold_update: "fs \<noteq> [] \<Longrightarrow> map_of (fold (AList.update k) fs vals) k = Some (last fs)"
  by (induction fs rule: rev_induct) simp_all

text \<open>C18. The three spellings of the option, \<^verbatim>\<open>--config-file FILE\<close>,
  \<^verbatim>\<open>--config-file=FILE\<close> and \<^verbatim>\<open>-c FILE\<close>, are equivalent wherever they occur first;
  the value is taken verbatim, even when it looks like an option.\<close>

theorem options_spellings:
  "goption_parse app_options (''--config-file'' # f # rest) vals =
     goption_parse app_options ((''--config-file='' @ f) # rest) vals \<and>
   goption_parse app_options (''-c'' # f # rest) vals =
     goption_parse app_options ((''--config-file='' @ f) # rest) vals"
  by (simp add: app_options_def is_help_arg_def takeWhile_append2 dropWhile_append2 Let_def)

end
