(* ===== verification/App.thy ===== *)
theory App
  imports KeyFile HttpServer RunLoop Lifecycle Options
begin

text \<open>
  The application, \<^verbatim>\<open>src/src/main.c\<close>: the \<^verbatim>\<open>AppContext\<close> (ServiceContext of the
  spec), \<^verbatim>\<open>app_cleanup\<close>, the property injector \<^verbatim>\<open>configure_string_property\<close>,
  \<^verbatim>\<open>configure_http_server\<close> and \<^verbatim>\<open>main\<close>, the lifecycle sequencer. The state of a
  run is a world: the object heap, the global \<^verbatim>\<open>app_ctxt\<close>, the lines written to
  standard error, and a ghost record of the lifecycle states passed. The collaborators
  (the command line, the file system, the DMX receiver, the HTTP server start, the delivered
  signals) are an environment the run reads. \<^verbatim>\<open>main\<close> is split at its blocks: each stage
  either finishes the run (an exit status, an exit inside a library, or a fault) or hands
  the world to the next.
\<close>

section \<open>Objects, context, world\<close>

datatype obj =
    OString string
  | OKeyFile keyfile
  | OOptionContext
  | ODmxRecv string
  | OHttpServer http_server
  | OJsonBuilder jbuilder
  | OMainLoop gmainloop
  | OGError gerror
  | OJsonNode json

text \<open>\<^verbatim>\<open>struct AppContext\<close>; the pointers are addresses of the heap, NULL is \<open>None\<close>.\<close>

record app_context =
  config_filename :: "addr option"
  config_file :: "addr option"
  dmx_device :: "addr option"
  dmx_speed :: int
  dmx_recv :: "addr option"
  http_server :: "addr option"

definition app_ctxt_init :: app_context where
  "app_ctxt_init =
     \<lparr>config_filename = None, config_file = None, dmx_device = None, dmx_speed = 250000,
      dmx_recv = None, http_server = None\<rparr>"

text \<open>\<^verbatim>\<open>app_init\<close> (lines 36-39) has an empty body.\<close>

definition app_init :: "app_context \<Rightarrow> app_context" where
  "app_init c = c"

record world =
  heap :: "obj heap"
  app :: app_context
  stderr :: "string list"
  phases :: "phase list"

definition world_init :: world where
  "world_init = \<lparr>heap = heap_empty, app = app_ctxt_init, stderr = [], phases = [Init]\<rparr>"

text \<open>The environment of a run: the command-line arguments after the program name, which
  \<^verbatim>\<open>g_option_context_parse\<close> reads (theory Options), the file system, the result
  of \<^verbatim>\<open>dmx_recv_new\<close> for a device name and of \<^verbatim>\<open>http_server_start\<close> for a configured
  server (\<open>None\<close>: success), and the events delivered to the main loop.\<close>

record env =
  env_argv :: "string list"
  env_files :: filesystem
  env_dmx :: "string \<Rightarrow> gerror option"
  env_http :: "http_server \<Rightarrow> gerror option"
  env_events :: "event list"

text \<open>How a run ends: \<^verbatim>\<open>main\<close> returns a status, a library function calls \<^verbatim>\<open>exit\<close>
  (the help options of the parser), or the run hits a fault.\<close>

datatype outcome = Exit int | Halt int | Crash fault

definition EXIT_SUCCESS :: int where "EXIT_SUCCESS = 0"
definition EXIT_FAILURE :: int where "EXIT_FAILURE = 1"

section \<open>World operations\<close>

definition w_alloc :: "obj \<Rightarrow> world \<Rightarrow> addr \<times> world" where
  "w_alloc x w = (let (a, h) = heap_alloc x (heap w) in (a, w\<lparr>heap := h\<rparr>))"

definition w_heap :: "world \<Rightarrow> (obj heap \<Rightarrow> fault + obj heap) \<Rightarrow> fault + world" where
  "w_heap w f = bindE (f (heap w)) (\<lambda>h. Inr (w\<lparr>heap := h\<rparr>))"

definition g_printerr :: "string \<Rightarrow> world \<Rightarrow> world" where
  "g_printerr s w = w\<lparr>stderr := stderr w @ [s]\<rparr>"

definition enter :: "phase \<Rightarrow> world \<Rightarrow> world" where
  "enter p w = w\<lparr>phases := phases w @ [p]\<rparr>"

definition set_app :: "(app_context \<Rightarrow> app_context) \<Rightarrow> world \<Rightarrow> world" where
  "set_app f w = w\<lparr>app := f (app w)\<rparr>"

text \<open>\<^verbatim>\<open>err->message\<close>: reading the message of an unset error dereferences NULL.\<close>

definition err_message :: "gerror option \<Rightarrow> fault + string" where
  "err_message err = (case err of None \<Rightarrow> Inl Null_deref | Some e \<Rightarrow> Inr (gerror_message e))"

definition deref_string :: "world \<Rightarrow> addr option \<Rightarrow> fault + string" where
  "deref_string w p =
     (case p of
        None \<Rightarrow> Inl Null_deref
      | Some a \<Rightarrow> (case objs (heap w) a of Some (OString s) \<Rightarrow> Inr s | _ \<Rightarrow> Inl (Use_after_free a)))"

text \<open>The key file a \<^verbatim>\<open>GKeyFile *\<close> points to; NULL stays NULL.\<close>

definition deref_keyfile :: "world \<Rightarrow> addr option \<Rightarrow> fault + keyfile option" where
  "deref_keyfile w p =
     (case p of
        None \<Rightarrow> Inr None
      | Some a \<Rightarrow> (case objs (heap w) a of Some (OKeyFile kf) \<Rightarrow> Inr (Some kf) | _ \<Rightarrow> Inl (Use_after_free a)))"

text \<open>\<^verbatim>\<open>g_object_set (obj, property, value, NULL)\<close> on the HTTP server; on NULL it returns
  at its \<^verbatim>\<open>g_return_if_fail\<close>.\<close>

definition g_object_set :: "addr option \<Rightarrow> string \<Rightarrow> gvalue \<Rightarrow> world \<Rightarrow> fault + world" where
  "g_object_set p prop v w =
     (case p of
        None \<Rightarrow> Inr w
      | Some a \<Rightarrow>
          (case objs (heap w) a of
             Some (OHttpServer s) \<Rightarrow> w_heap w (heap_write a (OHttpServer (http_server_set_property prop v s)))
           | _ \<Rightarrow> Inl (Use_after_free a)))"

section \<open>Teardown: app_cleanup\<close>

definition app_cleanup :: "world \<Rightarrow> fault + world" where
  "app_cleanup w =
     bindE (g_clear_object (dmx_recv (app w)) (heap w)) (\<lambda>(r, h1).
     bindE (g_clear_object (http_server (app w)) h1) (\<lambda>(s, h2).
     bindE (g_free (config_filename (app w)) h2) (\<lambda>h3.
     bindE (if config_filename (app w) \<noteq> None then g_key_file_unref (config_file (app w)) h3
            else Inr h3) (\<lambda>h4.
     bindE (g_free (dmx_device (app w)) h4) (\<lambda>h5.
     Inr (w\<lparr>heap := h5, app := (app w)\<lparr>dmx_recv := r, http_server := s\<rparr>\<rparr>))))))"

section \<open>Property injection and server configuration\<close>

text \<open>\<^verbatim>\<open>configure_string_property\<close>: the string \<^verbatim>\<open>g_key_file_get_string\<close> returns is
  newly allocated; it is handed to \<^verbatim>\<open>g_object_set\<close>, which copies it, and never freed.\<close>

definition configure_string_property ::
  "addr option \<Rightarrow> string \<Rightarrow> keyfile option \<Rightarrow> string \<Rightarrow> string \<Rightarrow> world \<Rightarrow> fault + world" where
  "configure_string_property obj prop config grp key w =
     (case fst (g_key_file_get_string config grp key) of
        Some str \<Rightarrow> (let (a, w1) = w_alloc (OString str) w in g_object_set obj prop (GString str) w1)
      | None \<Rightarrow> Inr w)"

text \<open>The value tree: a builder is created, driven through the calls of
  \<open>value_root_cmds\<close>, its root handed to the server, and the builder released
  (\<^verbatim>\<open>configure_http_server\<close>, from \<^verbatim>\<open>json_builder_new\<close> to \<^verbatim>\<open>g_object_unref\<close>).
  \<^verbatim>\<open>json_builder_get_root\<close> returns a new node the caller owns (transfer full);
  \<^verbatim>\<open>g_object_set\<close> takes its own reference for the property, and \<^verbatim>\<open>main.c\<close> never
  releases the node it got, so it stays allocated.\<close>

definition set_value_root :: "addr option \<Rightarrow> world \<Rightarrow> fault + world" where
  "set_value_root srv w =
     (let (b, w1) = w_alloc (OJsonBuilder json_builder_new) w;
          jb = jb_run value_root_cmds json_builder_new
      in
      bindE (w_heap w1 (heap_write b (OJsonBuilder jb))) (\<lambda>w2.
      let root = json_builder_get_root jb;
          w3 = (case root of None \<Rightarrow> w2 | Some j \<Rightarrow> snd (w_alloc (OJsonNode j) w2))
      in
      bindE (g_object_set srv ''value-root'' (GJsonNode root) w3) (\<lambda>w4.
      w_heap w4 (g_object_unref b))))"

text \<open>\<^verbatim>\<open>configure_http_server\<close>: the port is read as a \<^verbatim>\<open>gint\<close> and stored in a
  \<^verbatim>\<open>guint\<close>, i.e. reduced modulo \<open>2^32\<close>. The source reads the key file through the
  global \<^verbatim>\<open>app_ctxt\<close> rather than its argument; both are the same context.\<close>

definition configure_http_server :: "world \<Rightarrow> fault + world" where
  "configure_http_server w =
     bindE (deref_keyfile w (config_file (app w))) (\<lambda>cfg.
     let srv = http_server (app w);
         (port, err) = g_key_file_get_integer cfg ''HTTP'' ''Port''
     in
     bindE (if err = None then g_object_set srv ''http-port'' (GUInt (word_of_int port)) w
            else Inr w) (\<lambda>w1.
     bindE (configure_string_property srv ''user'' cfg ''HTTP'' ''User'' w1) (\<lambda>w2.
     bindE (configure_string_property srv ''password'' cfg ''HTTP'' ''Password'' w2) (\<lambda>w3.
     bindE (configure_string_property srv ''http-root'' cfg ''HTTP'' ''Root'' w3) (\<lambda>w4.
     set_value_root srv w4)))))"

section \<open>main\<close>

type_synonym result = "outcome \<times> world"
type_synonym stage = "(result) + world"

definition on_fault :: "world \<Rightarrow> fault + 'a \<Rightarrow> ('a \<Rightarrow> result + 'b) \<Rightarrow> result + 'b" where
  "on_fault w m k = (case m of Inl f \<Rightarrow> Inl (Crash f, w) | Inr x \<Rightarrow> k x)"

text \<open>A fatal startup failure: print the diagnostic (reading \<^verbatim>\<open>err->message\<close>), run
  \<^verbatim>\<open>app_cleanup\<close>, return \<^verbatim>\<open>EXIT_FAILURE\<close>. The \<^verbatim>\<open>GError\<close> the failing call set is
  a heap object (GLib allocates it in \<^verbatim>\<open>g_set_error\<close>, just before the block runs); the
  block never calls \<^verbatim>\<open>g_error_free\<close>, so it stays allocated.\<close>

definition fail_exit :: "string \<Rightarrow> gerror option \<Rightarrow> world \<Rightarrow> result" where
  "fail_exit prefix err w =
     (let w0 = (case err of None \<Rightarrow> w | Some e \<Rightarrow> snd (w_alloc (OGError e) w)) in
      case err_message err of
        Inl f \<Rightarrow> (Crash f, w0)
      | Inr msg \<Rightarrow>
          (let w1 = g_printerr (prefix @ msg) w0 in
           case app_cleanup w1 of
             Inl f \<Rightarrow> (Crash f, w1)
           | Inr w2 \<Rightarrow> (Exit EXIT_FAILURE, enter Terminated w2)))"

text \<open>\<^verbatim>\<open>app_init\<close>, \<^verbatim>\<open>g_option_context_new\<close>, \<^verbatim>\<open>g_option_context_parse\<close> with the
  entries \<^verbatim>\<open>app_options\<close>, whose only entry stores its value in
  \<^verbatim>\<open>app_ctxt.config_filename\<close>, and \<^verbatim>\<open>g_option_context_free\<close>. On a parse error the
  option context is not freed.\<close>

definition main_parse_options :: "env \<Rightarrow> world \<Rightarrow> stage" where
  "main_parse_options e w =
     (let (oc, w1) = w_alloc OOptionContext (set_app app_init w) in
      case g_option_context_parse app_options (env_argv e) of
        OptErr err \<Rightarrow> Inl (fail_exit ''Failed to parse options: '' (Some err) w1)
      | OptHelp \<Rightarrow> Inl (Halt EXIT_SUCCESS, w1)
      | OptOk vals \<Rightarrow>
          (let w2 = (case map_of vals ''config-file'' of
                       None \<Rightarrow> w1
                     | Some f \<Rightarrow> (let (a, w') = w_alloc (OString f) w1 in
                                  set_app (\<lambda>c. c\<lparr>config_filename := Some a\<rparr>) w'))
           in on_fault w2 (w_heap w2 (heap_release oc)) (\<lambda>w3. Inr (enter OptionsParsed w3))))"

definition main_load_config :: "env \<Rightarrow> world \<Rightarrow> stage" where
  "main_load_config e w =
     (case config_filename (app w) of
        None \<Rightarrow> Inr (enter ConfigLoaded w)
      | Some fa \<Rightarrow>
          (let (ka, w1) = w_alloc (OKeyFile []) w;
               w2 = set_app (\<lambda>c. c\<lparr>config_file := Some ka\<rparr>) w1
           in on_fault w2 (deref_string w2 (Some fa)) (\<lambda>path.
              case g_key_file_load_from_file (env_files e) path of
                Inl err \<Rightarrow> Inl (fail_exit ''Failed to read configuration file: '' (Some err) w2)
              | Inr kf \<Rightarrow> on_fault w2 (w_heap w2 (heap_write ka (OKeyFile kf)))
                            (\<lambda>w3. Inr (enter ConfigLoaded w3)))))"

definition main_read_device :: "world \<Rightarrow> stage" where
  "main_read_device w =
     on_fault w (deref_keyfile w (config_file (app w))) (\<lambda>cfg.
     case g_key_file_get_string cfg ''DMXPort'' ''Device'' of
       (None, err) \<Rightarrow> Inl (fail_exit ''No device: '' err w)
     | (Some dev, _) \<Rightarrow>
         (let (a, w1) = w_alloc (OString dev) w in
          Inr (set_app (\<lambda>c. c\<lparr>dmx_device := Some a\<rparr>) w1)))"

definition main_read_speed :: "world \<Rightarrow> stage" where
  "main_read_speed w =
     on_fault w (deref_keyfile w (config_file (app w))) (\<lambda>cfg.
     let (n, err) = g_key_file_get_integer cfg ''DMXPort'' ''Speed'';
         w1 = set_app (\<lambda>c. c\<lparr>dmx_speed := n\<rparr>) w
     in Inr (if err \<noteq> None then set_app (\<lambda>c. c\<lparr>dmx_speed := 250000\<rparr>) w1 else w1))"

text \<open>\<^verbatim>\<open>dmx_recv_new (app_ctxt.dmx_device, &err)\<close>: the receiver is opened with the
  device name alone.\<close>

definition main_acquire_dmx :: "env \<Rightarrow> world \<Rightarrow> stage" where
  "main_acquire_dmx e w =
     on_fault w (deref_string w (dmx_device (app w))) (\<lambda>dev.
     case env_dmx e dev of
       Some err \<Rightarrow> Inl (fail_exit ''Failed setup DMX port: '' (Some err) w)
     | None \<Rightarrow>
         (let (a, w1) = w_alloc (ODmxRecv dev) w in
          Inr (enter DeviceAcquired (set_app (\<lambda>c. c\<lparr>dmx_recv := Some a\<rparr>) w1))))"

definition main_setup_http :: "world \<Rightarrow> stage" where
  "main_setup_http w =
     (let (a, w1) = w_alloc (OHttpServer http_server_new) w;
          w2 = set_app (\<lambda>c. c\<lparr>http_server := Some a\<rparr>) w1
      in on_fault w2 (configure_http_server w2) (\<lambda>w3. Inr (enter ServerConfigured w3)))"

text \<open>A failed start is logged, the server handle is released, and the run goes on.\<close>

definition main_start_http :: "env \<Rightarrow> world \<Rightarrow> stage" where
  "main_start_http e w =
     (case http_server (app w) of
        None \<Rightarrow> Inl (Crash Null_deref, w)
      | Some a \<Rightarrow>
          (case objs (heap w) a of
             Some (OHttpServer s) \<Rightarrow>
               (case env_http e s of
                  Some err \<Rightarrow>
                    (let w1 = g_printerr (''Failed to setup HTTP server: '' @ gerror_message err) w in
                     on_fault w1 (g_clear_object (Some a) (heap w1)) (\<lambda>(p, h).
                     Inr (enter ServerDegraded (set_app (\<lambda>c. c\<lparr>http_server := p\<rparr>) (w1\<lparr>heap := h\<rparr>)))))
                | None \<Rightarrow>
                    on_fault w (w_heap w (heap_write a (OHttpServer (s\<lparr>hs_listening := True\<rparr>))))
                      (\<lambda>w1. Inr (enter ServerStarted w1)))
           | _ \<Rightarrow> Inl (Crash (Use_after_free a), w)))"

text \<open>The main loop: \<^verbatim>\<open>g_main_loop_run\<close> returns after the first SIGINT, or never.\<close>

definition main_run_loop :: "env \<Rightarrow> world \<Rightarrow> result option" where
  "main_run_loop e w =
     (let (la, w1) = w_alloc (OMainLoop g_main_loop_new) w;
          w2 = enter Running w1
      in case g_main_loop_run g_main_loop_new (env_events e) of
           None \<Rightarrow> None
         | Some (l, rest) \<Rightarrow>
             Some (case bindE (w_heap w2 (heap_write la (OMainLoop l))) (\<lambda>w3.
                          w_heap (enter ShuttingDown w3) (g_object_unref la)) of
                     Inl f \<Rightarrow> (Crash f, w2)
                   | Inr w4 \<Rightarrow>
                       (case app_cleanup w4 of
                          Inl f \<Rightarrow> (Crash f, w4)
                        | Inr w5 \<Rightarrow> (Exit EXIT_SUCCESS, enter Terminated w5))))"

text \<open>The startup sequence of \<^verbatim>\<open>main\<close>, up to the creation of the main loop.\<close>

definition main_startup :: "env \<Rightarrow> stage" where
  "main_startup e =
     bindE (main_parse_options e world_init) (\<lambda>w1.
     bindE (main_load_config e w1) (\<lambda>w2.
     bindE (main_read_device w2) (\<lambda>w3.
     bindE (main_read_speed w3) (\<lambda>w4.
     bindE (main_acquire_dmx e w4) (\<lambda>w5.
     bindE (main_setup_http w5) (\<lambda>w6.
     main_start_http e w6))))))"

definition main :: "env \<Rightarrow> result option" where
  "main e = (case main_startup e of Inl r \<Rightarrow> Some r | Inr w \<Rightarrow> main_run_loop e w)"

section \<open>Ownership of the handles\<close>

text \<open>
  The handles of the service are the key file, the receiver, the HTTP server, and the
  transient builder and main loop; strings, the option context, errors and JSON nodes are
  not handles (the program leaks some of them, which the leak lemmas count). \<open>owned\<close> is the invariant of the context between the
  blocks of \<^verbatim>\<open>main\<close>: every pointer of the context points to a live object of its kind,
  the pointers are distinct, a key file is held only when a file name is, and every live
  handle is held by the context. \<open>released\<close> is the state the spec asks for at exit: no
  handle is live, and the two strings the context owns are freed.
\<close>

fun ctx_handle :: "obj \<Rightarrow> bool" where
  "ctx_handle (OString _) = False"
| "ctx_handle OOptionContext = False"
| "ctx_handle (OGError _) = False"
| "ctx_handle (OJsonNode _) = False"
| "ctx_handle _ = True"

fun is_string :: "obj \<Rightarrow> bool" where "is_string (OString _) = True" | "is_string _ = False"
fun is_keyfile :: "obj \<Rightarrow> bool" where "is_keyfile (OKeyFile _) = True" | "is_keyfile _ = False"
fun is_recv :: "obj \<Rightarrow> bool" where "is_recv (ODmxRecv _) = True" | "is_recv _ = False"
fun is_server :: "obj \<Rightarrow> bool" where "is_server (OHttpServer _) = True" | "is_server _ = False"

definition points_to :: "obj heap \<Rightarrow> addr option \<Rightarrow> (obj \<Rightarrow> bool) \<Rightarrow> bool" where
  "points_to h p P \<longleftrightarrow> (case p of None \<Rightarrow> True | Some a \<Rightarrow> (case objs h a of None \<Rightarrow> False | Some x \<Rightarrow> P x))"

fun somes :: "'a option list \<Rightarrow> 'a list" where
  "somes [] = []"
| "somes (None # ps) = somes ps"
| "somes (Some a # ps) = a # somes ps"

text \<open>The pointers of the context with the kind of object each points to, in the order
  \<^verbatim>\<open>app_cleanup\<close> releases them.\<close>

definition ptr_kinds :: "app_context \<Rightarrow> (addr option \<times> (obj \<Rightarrow> bool)) list" where
  "ptr_kinds c =
     [(dmx_recv c, is_recv), (http_server c, is_server), (config_filename c, is_string),
      (config_file c, is_keyfile), (dmx_device c, is_string)]"

definition app_ptrs :: "app_context \<Rightarrow> addr option list" where
  "app_ptrs c = map fst (ptr_kinds c)"

definition owned :: "world \<Rightarrow> bool" where
  "owned w \<longleftrightarrow>
     heap_wf (heap w) \<and>
     (\<forall>pk \<in> set (ptr_kinds (app w)). points_to (heap w) (fst pk) (snd pk)) \<and>
     distinct (somes (app_ptrs (app w))) \<and>
     (config_file (app w) \<noteq> None \<longrightarrow> config_filename (app w) \<noteq> None) \<and>
     (\<forall>a x. objs (heap w) a = Some x \<longrightarrow> ctx_handle x \<longrightarrow> Some a \<in> set (app_ptrs (app w)))"

definition released :: "world \<Rightarrow> bool" where
  "released w \<longleftrightarrow>
     (\<forall>a x. objs (heap w) a = Some x \<longrightarrow> \<not> ctx_handle x) \<and>
     (\<forall>a. config_filename (app w) = Some a \<longrightarrow> \<not> live (heap w) a) \<and>
     (\<forall>a. dmx_device (app w) = Some a \<longrightarrow> \<not> live (heap w) a)"

fun release_all :: "addr option list \<Rightarrow> obj heap \<Rightarrow> fault + obj heap" where
  "release_all [] h = Inr h"
| "release_all (p # ps) h = bindE (g_free p h) (release_all ps)"

section \<open>The lifecycle of a run\<close>

text \<open>
  \<open>good p w\<close>: between two blocks of \<^verbatim>\<open>main\<close>, the context owns its handles and the
  states passed form a run of the specified lifecycle from \<open>Init\<close> to \<open>p\<close>, not yet
  shutting down. \<open>finished_ok\<close> is what a finished run must satisfy: its states form a
  run of the lifecycle from \<open>Init\<close>; if it exited, it ended in \<open>Terminated\<close> with every
  handle released, and it exited with success exactly when it went through shutdown; if a
  library ended the process, it was the help option, with status 0, before any state was
  left; and the only fault it may end in is the one of the device lookup on a NULL key
  file (\<^verbatim>\<open>err->message\<close> with \<^verbatim>\<open>err\<close> unset, reached in \<open>ConfigLoaded\<close> without a
  configuration file). Every other fault, a double free or a dangling pointer in the
  teardown included, is excluded.
\<close>

text \<open>Which pointers of the context are still NULL in each state: a block only ever
  stores into a pointer that is NULL.\<close>

fun fresh_fields :: "phase \<Rightarrow> app_context \<Rightarrow> bool" where
  "fresh_fields Init c \<longleftrightarrow>
     config_filename c = None \<and> config_file c = None \<and> dmx_device c = None \<and>
     dmx_recv c = None \<and> http_server c = None"
| "fresh_fields OptionsParsed c \<longleftrightarrow>
     config_file c = None \<and> dmx_device c = None \<and> dmx_recv c = None \<and> http_server c = None"
| "fresh_fields ConfigLoaded c \<longleftrightarrow> dmx_device c = None \<and> dmx_recv c = None \<and> http_server c = None"
| "fresh_fields DeviceAcquired c \<longleftrightarrow> http_server c = None"
| "fresh_fields _ c \<longleftrightarrow> True"

definition run_ok :: "phase \<Rightarrow> world \<Rightarrow> bool" where
  "run_ok p w \<longleftrightarrow>
     owned w \<and> lc_trace (phases w) \<and> phases w \<noteq> [] \<and> hd (phases w) = Init \<and>
     last (phases w) = p \<and> ShuttingDown \<notin> set (phases w)"

definition good :: "phase \<Rightarrow> world \<Rightarrow> bool" where
  "good p w \<longleftrightarrow> run_ok p w \<and> fresh_fields p (app w)"

text \<open>Between reading the device name and opening the receiver.\<close>

definition device_named :: "world \<Rightarrow> bool" where
  "device_named w \<longleftrightarrow> run_ok ConfigLoaded w \<and> dmx_recv (app w) = None \<and> http_server (app w) = None \<and>
     dmx_device (app w) \<noteq> None \<and> config_file (app w) \<noteq> None"

definition finished_ok :: "result \<Rightarrow> bool" where
  "finished_ok r \<longleftrightarrow>
     lc_trace (phases (snd r)) \<and> phases (snd r) \<noteq> [] \<and> hd (phases (snd r)) = Init \<and>
     (\<forall>c. fst r = Exit c \<longrightarrow>
        released (snd r) \<and> last (phases (snd r)) = Terminated \<and>
        (c = EXIT_SUCCESS \<longleftrightarrow> ShuttingDown \<in> set (phases (snd r)))) \<and>
     (\<forall>c. fst r = Halt c \<longrightarrow> c = EXIT_SUCCESS \<and> phases (snd r) = [Init]) \<and>
     (\<forall>f. fst r = Crash f \<longrightarrow>
        f = Null_deref \<and> config_file (app (snd r)) = None \<and> last (phases (snd r)) = ConfigLoaded)"

definition stage_spec :: "(world \<Rightarrow> bool) \<Rightarrow> stage \<Rightarrow> bool" where
  "stage_spec Q r \<longleftrightarrow> (case r of Inl res \<Rightarrow> finished_ok res | Inr w \<Rightarrow> Q w)"

section \<open>Properties of the blocks of main\<close>

text \<open>C3. \<^verbatim>\<open>app_cleanup\<close> is not idempotent: it frees \<^verbatim>\<open>config_filename\<close> and
  \<^verbatim>\<open>dmx_device\<close> but leaves both pointers set, so a second call on the context it leaves
  behind frees the file name again.\<close>

theorem app_cleanup_twice:
  assumes c: "app_cleanup w = Inr w'" and a: "config_filename (app w) = Some a"
  shows "app_cleanup w' = Inl (Double_free a)"
proof -
  from c a obtain r s h1 h2 h3 h4 h5 where
      s1: "g_clear_object (dmx_recv (app w)) (heap w) = Inr (r, h1)"
    and s2: "g_clear_object (http_server (app w)) h1 = Inr (s, h2)"
    and s3: "heap_release a h2 = Inr h3"
    and s4: "g_key_file_unref (config_file (app w)) h3 = Inr h4"
    and s5: "g_free (dmx_device (app w)) h4 = Inr h5"
    and w': "w' = w\<lparr>heap := h5, app := (app w)\<lparr>dmx_recv := r, http_server := s\<rparr>\<rparr>"
    by (auto simp: app_cleanup_def bindE_eq_Inr_iff g_free_Some split: prod.splits)
  have rs: "r = None" "s = None"
    using g_clear_object_dom [OF s1] g_clear_object_dom [OF s2] by simp_all
  have "dom (objs h5) \<subseteq> dom (objs h3)"
    using g_key_file_unref_dom [OF s4] g_free_dom [OF s5] by blast
  then have "\<not> live h5 a" using heap_release_dom [OF s3] by (auto simp: live_def)
  then show ?thesis by (simp add: app_cleanup_def w' rs a g_free_Some heap_release_dead)
qed

text \<open>C2. When the command line parses and gives no \<^verbatim>\<open>--config-file\<close>,
  \<^verbatim>\<open>config_file\<close> stays NULL; the device lookup
  on the NULL key file returns NULL without setting \<^verbatim>\<open>err\<close>, and the diagnostic
  \<^verbatim>\<open>err->message\<close> dereferences NULL before anything is printed.\<close>

theorem main_no_config_crash:
  assumes "g_option_context_parse app_options (env_argv e) = OptOk vals"
    and "map_of vals ''config-file'' = None"
  shows "\<exists>w. main e = Some (Crash Null_deref, w) \<and> phases w = [Init, OptionsParsed, ConfigLoaded] \<and>
           stderr w = []"
  using assms
  by (simp add: main_def main_startup_def main_parse_options_def main_load_config_def main_read_device_def
      world_init_def app_ctxt_init_def app_init_def set_app_def w_alloc_def heap_alloc_def heap_empty_def
      w_heap_def heap_release_def on_fault_def enter_def deref_keyfile_def fail_exit_def err_message_def)

end
