(* ===== verification/Ownership.thy ===== *)
theory Ownership
  imports App "HOL-Library.Multiset"
begin

text \<open>
  The ownership invariant \<open>owned\<close> of \<^verbatim>\<open>app_ctxt\<close> (theory App) and the lemmas that
  carry it through the operations of \<^verbatim>\<open>main.c\<close>: allocating an object that is not a
  handle, storing a fresh handle into a NULL pointer of the context
  (\<open>owned_assign\<close>), clearing a pointer after releasing its object (\<open>owned_clear\<close>,
  in theory Stages), overwriting an object with one of the same kind, and the property
  setters of \<^verbatim>\<open>configure_http_server\<close>. The last section shows that
  \<^verbatim>\<open>app_cleanup\<close> on a context satisfying the invariant releases every handle and the two
  strings the context owns (\<open>app_cleanup_released\<close>).
\<close>

text \<open>The kind of an object: a write keeps the invariant when it keeps the kind.\<close>

fun obj_kind :: "obj \<Rightarrow> nat" where
  "obj_kind (OString _) = 0"
| "obj_kind (OKeyFile _) = 1"
| "obj_kind OOptionContext = 2"
| "obj_kind (ODmxRecv _) = 3"
| "obj_kind (OHttpServer _) = 4"
| "obj_kind (OJsonBuilder _) = 5"
| "obj_kind (OMainLoop _) = 6"
| "obj_kind (OGError _) = 7"
| "obj_kind (OJsonNode _) = 8"

text \<open>The teardown of the specification (section 3): the handles released in the reverse
  order of their acquisition, the server first and the file name last.\<close>

definition teardown_reverse :: "world \<Rightarrow> fault + world" where
  "teardown_reverse w =
     bindE (release_all [http_server (app w), dmx_recv (app w), dmx_device (app w),
                         config_file (app w), config_filename (app w)] (heap w))
       (\<lambda>h. Inr (w\<lparr>heap := h, app := (app w)\<lparr>dmx_recv := None, http_server := None\<rparr>\<rparr>))"

section \<open>Allocation and the context pointers\<close>

lemma heap_wf_next_free: "heap_wf h \<Longrightarrow> objs h (next_addr h) = None"
  by (auto simp: heap_wf_def)

lemma heap_wf_above: "heap_wf h \<Longrightarrow> next_addr h \<le> b \<Longrightarrow> objs h b = None"
proof (rule ccontr)
  assume h: "heap_wf h" and b: "next_addr h \<le> b" and "objs h b \<noteq> None"
  then have "b \<in> dom (objs h)" by blast
  then have "b < next_addr h" using h unfolding heap_wf_def by blast
  then show False using b by simp
qed

lemma points_to_fresh: "heap_wf h \<Longrightarrow> points_to h p P \<Longrightarrow> p \<noteq> Some (next_addr h)"
  by (auto simp: points_to_def heap_wf_next_free)

lemma points_to_alloc:
  "heap_wf h \<Longrightarrow> points_to h p P \<Longrightarrow> points_to (snd (heap_alloc x h)) p P"
  by (auto simp: points_to_def heap_alloc_def heap_wf_next_free split: option.splits)

lemma points_to_alloc_new [simp]:
  "points_to (snd (heap_alloc x h)) (Some (next_addr h)) P \<longleftrightarrow> P x"
  by (simp add: points_to_def heap_alloc_def)

lemma set_somes: "set (somes ps) = {a. Some a \<in> set ps}"
  by (induction ps rule: somes.induct) auto

lemma owned_frameI: "owned w \<Longrightarrow> heap w' = heap w \<Longrightarrow> app w' = app w \<Longrightarrow> owned w'"
  by (simp add: owned_def)

lemma w_alloc_simps [simp]:
  "fst (w_alloc x w) = next_addr (heap w)"
  "heap (snd (w_alloc x w)) = snd (heap_alloc x (heap w))"
  "app (snd (w_alloc x w)) = app w"
  "stderr (snd (w_alloc x w)) = stderr w"
  "phases (snd (w_alloc x w)) = phases w"
  by (simp_all add: w_alloc_def heap_alloc_def split: prod.splits)

lemma world_op_simps [simp]:
  "heap (g_printerr s w) = heap w" "app (g_printerr s w) = app w"
  "phases (g_printerr s w) = phases w"
  "heap (enter p w) = heap w" "app (enter p w) = app w" "stderr (enter p w) = stderr w"
  "phases (enter p w) = phases w @ [p]"
  "heap (set_app f w) = heap w" "app (set_app f w) = f (app w)"
  "stderr (set_app f w) = stderr w" "phases (set_app f w) = phases w"
  by (simp_all add: g_printerr_def enter_def set_app_def)

lemma w_alloc_case [simp]:
  "(case w_alloc x w of (a, w') \<Rightarrow> f a w') = f (next_addr (heap w)) (snd (w_alloc x w))"
  by (simp add: w_alloc_def heap_alloc_def)

lemma owned_alloc:
  assumes "owned w" and "\<not> ctx_handle x"
  shows "owned (snd (w_alloc x w))"
proof -
  have "\<forall>a y. objs (snd (heap_alloc x (heap w))) a = Some y \<longrightarrow> ctx_handle y \<longrightarrow>
          Some a \<in> set (app_ptrs (app w))"
    using assms by (simp add: heap_alloc_objs owned_def)
  then show ?thesis
    using assms by (simp add: owned_def points_to_alloc heap_alloc_wf)
qed

lemma owned_fresh: "owned w \<Longrightarrow> next_addr (heap w) \<notin> set (somes (app_ptrs (app w)))"
  by (force simp: owned_def set_somes app_ptrs_def dest: points_to_fresh)

lemma distinct_somes_update:
  "distinct (somes ps) \<Longrightarrow> i < length ps \<Longrightarrow> ps ! i = None \<Longrightarrow> n \<notin> set (somes ps) \<Longrightarrow>
   distinct (somes (ps[i := Some n]))"
proof (induction ps arbitrary: i rule: somes.induct)
  case 1
  then show ?case by simp
next
  case (2 ps)
  then show ?case by (cases i) (auto simp: set_somes)
next
  case (3 a ps)
  then show ?case by (cases i) (auto simp: set_somes dest: set_update_subset_insert [THEN subsetD])
qed

lemma owned_assign:
  assumes own: "owned w" and i: "i < length (ptr_kinds (app w))"
    and none: "fst (ptr_kinds (app w) ! i) = None"
    and upd: "ptr_kinds (f (app w)) = (ptr_kinds (app w))[i := (Some (next_addr (heap w)), snd (ptr_kinds (app w) ! i))]"
    and kind: "snd (ptr_kinds (app w) ! i) x"
    and kf: "config_file (f (app w)) \<noteq> None \<longrightarrow> config_filename (f (app w)) \<noteq> None"
  shows "owned (set_app f (snd (w_alloc x w)))"
proof -
  let ?n = "next_addr (heap w)" and ?ks = "ptr_kinds (app w)"
  let ?h = "snd (heap_alloc x (heap w))"
  have wf: "heap_wf (heap w)" using own by (simp add: owned_def)
  have ptrs: "app_ptrs (f (app w)) = (app_ptrs (app w))[i := Some ?n]"
    using upd by (simp add: app_ptrs_def map_update)
  have pts: "\<forall>pk \<in> set (ptr_kinds (f (app w))). points_to ?h (fst pk) (snd pk)"
  proof
    fix pk assume "pk \<in> set (ptr_kinds (f (app w)))"
    then have "pk = (Some ?n, snd (?ks ! i)) \<or> pk \<in> set ?ks"
      using upd set_update_subset_insert by fastforce
    then show "points_to ?h (fst pk) (snd pk)"
      using own kind wf by (auto simp: owned_def points_to_alloc)
  qed
  have dist: "distinct (somes (app_ptrs (f (app w))))"
    using own owned_fresh [OF own] i none ptrs
    by (simp add: owned_def distinct_somes_update app_ptrs_def)
  have old: "set (app_ptrs (app w)) \<subseteq> insert None (set (app_ptrs (f (app w))))"
  proof
    fix p assume p: "p \<in> set (app_ptrs (app w))"
    then obtain j where j: "j < length (app_ptrs (app w))" "app_ptrs (app w) ! j = p"
      by (auto simp: in_set_conv_nth)
    show "p \<in> insert None (set (app_ptrs (f (app w))))"
    proof (cases "j = i")
      case True
      then show ?thesis using j none by (simp add: app_ptrs_def)
    next
      case False
      then show ?thesis using j ptrs by (auto simp: in_set_conv_nth)
    qed
  qed
  have new: "Some ?n \<in> set (app_ptrs (f (app w)))"
    using ptrs i by (simp add: app_ptrs_def set_update_memI)
  have cov: "\<forall>a y. objs ?h a = Some y \<longrightarrow> ctx_handle y \<longrightarrow> Some a \<in> set (app_ptrs (f (app w)))"
    using own old new by (auto simp: heap_alloc_objs owned_def)
  show ?thesis
    using wf pts dist kf cov by (simp add: owned_def heap_alloc_wf)
qed

lemma obj_kind_preds:
  "obj_kind x = obj_kind y \<Longrightarrow>
   is_string x = is_string y \<and> is_keyfile x = is_keyfile y \<and> is_recv x = is_recv y \<and>
   is_server x = is_server y \<and> ctx_handle x = ctx_handle y"
  by (cases x; cases y) simp_all

section \<open>Writes and releases of single objects\<close>

lemma ptr_kinds_preds: "pk \<in> set (ptr_kinds c) \<Longrightarrow> snd pk \<in> {is_recv, is_server, is_string, is_keyfile}"
  by (auto simp: ptr_kinds_def)

lemma w_heap_frame:
  "w_heap w f = Inr w' \<Longrightarrow> app w' = app w \<and> phases w' = phases w \<and> stderr w' = stderr w"
  by (auto simp: w_heap_def bindE_eq_Inr_iff)

lemma w_heap_heap: "w_heap w f = Inr w' \<Longrightarrow> f (heap w) = Inr (heap w')"
  by (auto simp: w_heap_def bindE_eq_Inr_iff)

lemma points_to_upd_other:
  "p \<noteq> Some a \<Longrightarrow> points_to h p P \<Longrightarrow> points_to (h\<lparr>objs := (objs h)(a := v)\<rparr>) p P"
  by (cases p) (simp_all add: points_to_def)

lemma owned_release_other:
  assumes "owned w" and "Some a \<notin> set (app_ptrs (app w))" and "heap_release a (heap w) = Inr h'"
  shows "owned (w\<lparr>heap := h'\<rparr>)"
proof -
  have h': "h' = (heap w)\<lparr>objs := (objs (heap w))(a := None)\<rparr>"
    using assms(3) by (simp add: heap_release_def split: if_splits)
  have "\<forall>pk \<in> set (ptr_kinds (app w)). fst pk \<noteq> Some a"
    using assms(2) by (force simp: app_ptrs_def)
  then have "\<forall>pk \<in> set (ptr_kinds (app w)). points_to h' (fst pk) (snd pk)"
    using assms(1) unfolding h' by (simp add: owned_def points_to_upd_other)
  moreover have "heap_wf h'" using assms(1) by (simp add: owned_def h' heap_wf_def)
  ultimately show ?thesis
    using assms(1) by (simp add: owned_def h')
qed

lemma points_to_write:
  "points_to h p P \<Longrightarrow> objs h a = Some y \<Longrightarrow> (P y \<Longrightarrow> P x) \<Longrightarrow>
   points_to (h\<lparr>objs := (objs h)(a \<mapsto> x)\<rparr>) p P"
  by (cases p) (auto simp: points_to_def)

lemma points_to_objs: "points_to h p P \<Longrightarrow> objs h' = objs h \<Longrightarrow> points_to h' p P"
  by (cases p) (simp_all add: points_to_def)

section \<open>Introduction and destruction rules of the invariant\<close>

lemma ownedD:
  assumes "owned w"
  shows owned_wf: "heap_wf (heap w)"
    and owned_pts: "pk \<in> set (ptr_kinds (app w)) \<Longrightarrow> points_to (heap w) (fst pk) (snd pk)"
    and owned_distinct: "distinct (somes (app_ptrs (app w)))"
    and owned_kf: "config_file (app w) \<noteq> None \<Longrightarrow> config_filename (app w) \<noteq> None"
    and owned_cov: "objs (heap w) a = Some x \<Longrightarrow> ctx_handle x \<Longrightarrow> Some a \<in> set (app_ptrs (app w))"
  using assms by (simp_all add: owned_def)

lemma ownedI:
  assumes "heap_wf h"
    and "\<And>pk. pk \<in> set (ptr_kinds c) \<Longrightarrow> points_to h (fst pk) (snd pk)"
    and "distinct (somes (app_ptrs c))"
    and "config_file c \<noteq> None \<Longrightarrow> config_filename c \<noteq> None"
    and "\<And>a x. objs h a = Some x \<Longrightarrow> ctx_handle x \<Longrightarrow> Some a \<in> set (app_ptrs c)"
  shows "owned (w\<lparr>heap := h, app := c\<rparr>)"
  using assms by (simp add: owned_def)

lemma owned_heapI:
  assumes "owned w" "heap_wf h"
    and "\<And>pk. pk \<in> set (ptr_kinds (app w)) \<Longrightarrow> points_to h (fst pk) (snd pk)"
    and "\<And>a x. objs h a = Some x \<Longrightarrow> ctx_handle x \<Longrightarrow> Some a \<in> set (app_ptrs (app w))"
  shows "owned (w\<lparr>heap := h\<rparr>)"
proof -
  have "owned (w\<lparr>heap := h, app := app w\<rparr>)"
    using assms by (intro ownedI) (simp_all add: owned_distinct owned_kf)
  then show ?thesis by simp
qed

lemma owned_upd:
  assumes own: "owned w" and y: "objs (heap w) a = Some y" and k: "obj_kind x = obj_kind y"
    and h': "objs h' = (objs (heap w))(a \<mapsto> x)" and nx: "next_addr (heap w) \<le> next_addr h'"
  shows "owned (w\<lparr>heap := h'\<rparr>)"
proof (rule owned_heapI [OF own])
  have kp: "is_string x = is_string y \<and> is_keyfile x = is_keyfile y \<and> is_recv x = is_recv y \<and>
            is_server x = is_server y \<and> ctx_handle x = ctx_handle y"
    using obj_kind_preds [OF k] .
  have "dom (objs h') = dom (objs (heap w))" using y h' by auto
  then show "heap_wf h'" using nx by (intro heap_wf_mono [OF owned_wf [OF own]]) simp_all
  fix pk assume pk: "pk \<in> set (ptr_kinds (app w))"
  have "snd pk y \<Longrightarrow> snd pk x" using ptr_kinds_preds [OF pk] kp by auto
  then have "points_to ((heap w)\<lparr>objs := (objs (heap w))(a \<mapsto> x)\<rparr>) (fst pk) (snd pk)"
    by (rule points_to_write [OF owned_pts [OF own pk] y])
  then show "points_to h' (fst pk) (snd pk)" by (rule points_to_objs) (simp add: h')
next
  fix b z assume bz: "objs h' b = Some z" and hz: "ctx_handle z"
  show "Some b \<in> set (app_ptrs (app w))"
  proof (cases "b = a")
    case True
    then have "ctx_handle y" using bz hz h' obj_kind_preds [OF k] by simp
    then show ?thesis using True owned_cov [OF own y] by simp
  next
    case False
    then show ?thesis using bz hz h' owned_cov [OF own] by simp
  qed
qed

lemma owned_write:
  assumes "owned w" and "objs (heap w) a = Some y" and "obj_kind x = obj_kind y"
    and "heap_write a x (heap w) = Inr h'"
  shows "owned (w\<lparr>heap := h'\<rparr>)"
  using assms(4) by (intro owned_upd [OF assms(1-3)]) (auto simp: heap_write_def split: if_splits)

lemma owned_bump:
  assumes own: "owned w" and o: "objs h' = objs (heap w)" and n: "next_addr (heap w) \<le> next_addr h'"
  shows "owned (w\<lparr>heap := h'\<rparr>)"
proof (rule owned_heapI [OF own])
  show "heap_wf h'" using o n by (intro heap_wf_mono [OF owned_wf [OF own]]) simp_all
  show "points_to h' (fst pk) (snd pk)" if "pk \<in> set (ptr_kinds (app w))" for pk
    using owned_pts [OF own that] o by (rule points_to_objs)
  show "Some a \<in> set (app_ptrs (app w))" if "objs h' a = Some x" "ctx_handle x" for a x
    using owned_cov [OF own] that o by simp
qed

section \<open>Server configuration preserves the invariant\<close>

lemma g_object_set_owned:
  assumes "owned w" and "g_object_set p prop v w = Inr w'"
  shows "owned w' \<and> app w' = app w \<and> phases w' = phases w \<and> stderr w' = stderr w"
proof (cases p)
  case None
  with assms show ?thesis by (simp add: g_object_set_def)
next
  case (Some a)
  with assms(2) obtain s where s: "objs (heap w) a = Some (OHttpServer s)"
    and wh: "w_heap w (heap_write a (OHttpServer (http_server_set_property prop v s))) = Inr w'"
    by (auto simp: g_object_set_def split: option.splits obj.splits)
  from wh have fr: "app w' = app w \<and> phases w' = phases w \<and> stderr w' = stderr w"
    by (rule w_heap_frame)
  from wh have "heap_write a (OHttpServer (http_server_set_property prop v s)) (heap w) = Inr (heap w')"
    by (rule w_heap_heap)
  then have "owned (w\<lparr>heap := heap w'\<rparr>)"
    by (rule owned_write [OF assms(1) s, rotated]) simp
  then have "owned w'" by (rule owned_frameI) (simp_all add: fr)
  with fr show ?thesis by simp
qed

lemma configure_string_property_owned:
  assumes "owned w" and "configure_string_property obj prop cfg grp key w = Inr w'"
  shows "owned w' \<and> app w' = app w \<and> phases w' = phases w \<and> stderr w' = stderr w"
proof (cases "fst (g_key_file_get_string cfg grp key)")
  case None
  with assms show ?thesis by (simp add: configure_string_property_def)
next
  case (Some str)
  let ?w1 = "snd (w_alloc (OString str) w)"
  have o1: "owned ?w1" using assms(1) by (simp add: owned_alloc)
  from assms(2) Some have "g_object_set obj prop (GString str) ?w1 = Inr w'"
    by (simp add: configure_string_property_def w_alloc_def split: prod.splits)
  from g_object_set_owned [OF o1 this] show ?thesis by simp
qed

lemma owned_add:
  assumes own: "owned w" and h': "objs h' = (objs (heap w))(c \<mapsto> x)" and free: "objs (heap w) c = None"
    and nh: "\<not> ctx_handle x" and n: "next_addr (heap w) \<le> next_addr h'" and c: "c < next_addr h'"
  shows "owned (w\<lparr>heap := h'\<rparr>)"
proof (rule owned_heapI [OF own])
  show "heap_wf h'"
    using owned_wf [OF own] h' n c unfolding heap_wf_def by (auto intro: less_le_trans)
  show "points_to h' (fst pk) (snd pk)" if "pk \<in> set (ptr_kinds (app w))" for pk
    using owned_pts [OF own that] h' free by (auto simp: points_to_def split: option.splits)
  show "Some a \<in> set (app_ptrs (app w))" if "objs h' a = Some y" "ctx_handle y" for a y
    using owned_cov [OF own] that h' nh by (auto split: if_splits)
qed

lemma value_root_cmds_root:
  "json_builder_get_root (jb_run value_root_cmds json_builder_new) =
     Some (JObject [(''foo'', JInt 78),
                    (''bar'', JArray [JDouble (FloatLit 31415 4), JDouble (FloatLit (-141) 2)])])"
  by code_simp

text \<open>The value-tree block changes the server and leaves the root node it was handed
  allocated, after the builder: the builder itself is gone when it returns.\<close>

lemma set_value_root_heap:
  assumes wf: "heap_wf (heap w)" and ok: "set_value_root srv w = Inr w'"
  shows "app w' = app w \<and> phases w' = phases w \<and> stderr w' = stderr w \<and>
         next_addr (heap w') = Suc (Suc (next_addr (heap w))) \<and>
         (case srv of
            None \<Rightarrow> objs (heap w') = (objs (heap w))(Suc (next_addr (heap w)) \<mapsto>
                      OJsonNode (the (json_builder_get_root (jb_run value_root_cmds json_builder_new))))
          | Some a \<Rightarrow> (\<exists>s. objs (heap w) a = Some (OHttpServer s) \<and>
                objs (heap w') = (objs (heap w))(a \<mapsto> OHttpServer (http_server_set_property
                   ''value-root'' (GJsonNode (json_builder_get_root (jb_run value_root_cmds json_builder_new))) s),
                   Suc (next_addr (heap w)) \<mapsto>
                      OJsonNode (the (json_builder_get_root (jb_run value_root_cmds json_builder_new))))))"
proof -
  let ?h = "heap w" and ?b = "next_addr (heap w)"
  let ?jb = "jb_run value_root_cmds json_builder_new"
  let ?r = "json_builder_get_root ?jb"
  let ?v = "GJsonNode ?r"
  let ?w2 = "w\<lparr>heap := ?h\<lparr>objs := (objs ?h)(?b \<mapsto> OJsonBuilder ?jb, Suc ?b \<mapsto> OJsonNode (the ?r)),
               next_addr := Suc (Suc ?b)\<rparr>\<rparr>"
  have free: "objs ?h ?b = None" using wf by (rule heap_wf_next_free)
  have free1: "objs ?h (Suc ?b) = None" using wf by (rule heap_wf_above) simp
  have eq: "set_value_root srv w =
      bindE (g_object_set srv ''value-root'' ?v ?w2) (\<lambda>w3. w_heap w3 (g_object_unref ?b))"
    by (simp add: set_value_root_def w_alloc_def heap_alloc_def w_heap_def heap_write_def Let_def
        value_root_cmds_root)
  from ok obtain w3 where w3: "g_object_set srv ''value-root'' ?v ?w2 = Inr w3"
    and w4: "w_heap w3 (g_object_unref ?b) = Inr w'"
    unfolding eq by (auto simp: bindE_eq_Inr_iff)
  show ?thesis
  proof (cases srv)
    case None
    with w3 have "w3 = ?w2" by (simp add: g_object_set_def)
    with w4 free show ?thesis
      by (auto simp: None w_heap_def g_object_unref_def heap_release_def bindE_eq_Inr_iff fun_eq_iff split: if_splits)
  next
    case (Some a)
    from w3 Some obtain s where s2: "objs (heap ?w2) a = Some (OHttpServer s)"
      and w3': "w_heap ?w2 (heap_write a (OHttpServer (http_server_set_property ''value-root'' ?v s))) = Inr w3"
      by (auto simp: g_object_set_def split: option.splits obj.splits if_splits)
    have ab: "a \<noteq> ?b" "a \<noteq> Suc ?b" using s2 by (auto split: if_splits)
    have s: "objs ?h a = Some (OHttpServer s)" using s2 ab by simp
    from w3' w4 ab free show ?thesis
      by (auto simp: Some s w_heap_def heap_write_def g_object_unref_def heap_release_def bindE_eq_Inr_iff fun_eq_iff
               split: if_splits)
  qed
qed

lemma set_value_root_owned:
  assumes own: "owned w" and ok: "set_value_root (http_server (app w)) w = Inr w'"
  shows "owned w' \<and> app w' = app w \<and> phases w' = phases w \<and> stderr w' = stderr w"
proof -
  have wf: "heap_wf (heap w)" using own by (rule owned_wf)
  note hv = set_value_root_heap [OF wf ok]
  let ?c = "Suc (next_addr (heap w))"
  let ?n = "OJsonNode (the (json_builder_get_root (jb_run value_root_cmds json_builder_new)))"
  have free: "objs (heap w) ?c = None" using wf by (rule heap_wf_above) simp
  have "owned (w\<lparr>heap := heap w'\<rparr>)"
  proof (cases "http_server (app w)")
    case None
    with hv free show ?thesis by (intro owned_add [OF own, of _ ?c ?n]) simp_all
  next
    case (Some a)
    with hv obtain s where sa: "objs (heap w) a = Some (OHttpServer s)"
      and hw: "objs (heap w') = (objs (heap w))(a \<mapsto> OHttpServer (http_server_set_property
                   ''value-root'' (GJsonNode (json_builder_get_root (jb_run value_root_cmds json_builder_new))) s),
                   ?c \<mapsto> ?n)"
      by auto
    let ?h1 = "(heap w)\<lparr>objs := (objs (heap w))(a \<mapsto> OHttpServer (http_server_set_property
                   ''value-root'' (GJsonNode (json_builder_get_root (jb_run value_root_cmds json_builder_new))) s))\<rparr>"
    have o1: "owned (w\<lparr>heap := ?h1\<rparr>)" by (rule owned_upd [OF own sa]) simp_all
    have ac: "a \<noteq> ?c" using sa free by auto
    have "owned ((w\<lparr>heap := ?h1\<rparr>)\<lparr>heap := heap w'\<rparr>)"
      using hv hw free ac by (intro owned_add [OF o1, of _ ?c ?n]) simp_all
    then show ?thesis by simp
  qed
  with hv show ?thesis by (auto intro: owned_frameI)
qed

lemma configure_http_server_owned:
  assumes own: "owned w" and ok: "configure_http_server w = Inr w'"
  shows "owned w' \<and> app w' = app w \<and> phases w' = phases w \<and> stderr w' = stderr w"
proof -
  let ?srv = "http_server (app w)"
  from ok obtain cfg where cfg: "deref_keyfile w (config_file (app w)) = Inr cfg"
    and rest: "(let srv = ?srv; (port, err) = g_key_file_get_integer cfg ''HTTP'' ''Port'' in
       bindE (if err = None then g_object_set srv ''http-port'' (GUInt (word_of_int port)) w else Inr w)
         (\<lambda>w1. bindE (configure_string_property srv ''user'' cfg ''HTTP'' ''User'' w1) (\<lambda>w2.
                bindE (configure_string_property srv ''password'' cfg ''HTTP'' ''Password'' w2) (\<lambda>w3.
                bindE (configure_string_property srv ''http-root'' cfg ''HTTP'' ''Root'' w3) (\<lambda>w4.
                set_value_root srv w4))))) = Inr w'"
    by (auto simp: configure_http_server_def bindE_eq_Inr_iff)
  obtain port err where pe: "g_key_file_get_integer cfg ''HTTP'' ''Port'' = (port, err)" by fastforce
  from rest pe obtain w1 w2 w3 w4 where
      s1: "(if err = None then g_object_set ?srv ''http-port'' (GUInt (word_of_int port)) w else Inr w) = Inr w1"
    and s2: "configure_string_property ?srv ''user'' cfg ''HTTP'' ''User'' w1 = Inr w2"
    and s3: "configure_string_property ?srv ''password'' cfg ''HTTP'' ''Password'' w2 = Inr w3"
    and s4: "configure_string_property ?srv ''http-root'' cfg ''HTTP'' ''Root'' w3 = Inr w4"
    and s5: "set_value_root ?srv w4 = Inr w'"
    by (auto simp: Let_def bindE_eq_Inr_iff)
  have f1: "owned w1 \<and> app w1 = app w \<and> phases w1 = phases w \<and> stderr w1 = stderr w"
    using s1 own by (auto dest: g_object_set_owned split: if_splits)
  have f2: "owned w2 \<and> app w2 = app w \<and> phases w2 = phases w \<and> stderr w2 = stderr w"
    using configure_string_property_owned [OF _ s2] f1 by simp
  have f3: "owned w3 \<and> app w3 = app w \<and> phases w3 = phases w \<and> stderr w3 = stderr w"
    using configure_string_property_owned [OF _ s3] f2 by simp
  have f4: "owned w4 \<and> app w4 = app w \<and> phases w4 = phases w \<and> stderr w4 = stderr w"
    using configure_string_property_owned [OF _ s4] f3 by simp
  then show ?thesis
    using set_value_root_owned [of w4 w'] s5 by simp
qed

section \<open>Teardown\<close>

lemma release_all_ok:
  "distinct (somes ps) \<Longrightarrow> \<forall>a \<in> set (somes ps). live h a \<Longrightarrow>
   release_all ps h = Inr (h\<lparr>objs := (\<lambda>a. if a \<in> set (somes ps) then None else objs h a)\<rparr>)"
proof (induction ps arbitrary: h)
  case Nil
  then show ?case by simp
next
  case (Cons p ps)
  show ?case
  proof (cases p)
    case None
    with Cons show ?thesis by simp
  next
    case (Some a)
    let ?h1 = "h\<lparr>objs := (objs h)(a := None)\<rparr>"
    from Cons.prems Some have "live h a" and "a \<notin> set (somes ps)" by simp_all
    moreover from Cons.prems Some have "\<forall>b \<in> set (somes ps). live ?h1 b"
      by (auto simp: live_def)
    ultimately have "release_all ps ?h1 =
        Inr (?h1\<lparr>objs := (\<lambda>b. if b \<in> set (somes ps) then None else objs ?h1 b)\<rparr>)"
      using Cons.IH Cons.prems Some by simp
    with Some \<open>live h a\<close> show ?thesis
      by (simp add: heap_release_def live_def g_free_def fun_eq_iff)
  qed
qed

lemma g_clear_object_free: "g_clear_object p h = bindE (g_free p h) (\<lambda>h'. Inr (None, h'))"
  by (cases p) (simp_all add: g_clear_object_def g_free_def)

text \<open>Under the invariant, \<^verbatim>\<open>if (config_filename) g_key_file_unref (config_file)\<close>
  releases the key file whenever the context holds one.\<close>

lemma app_cleanup_release_all:
  assumes "config_file (app w) \<noteq> None \<longrightarrow> config_filename (app w) \<noteq> None"
  shows "app_cleanup w =
           bindE (release_all (app_ptrs (app w)) (heap w))
             (\<lambda>h. Inr (w\<lparr>heap := h, app := (app w)\<lparr>dmx_recv := None, http_server := None\<rparr>\<rparr>))"
proof -
  have kf: "(if config_filename (app w) \<noteq> None then g_key_file_unref (config_file (app w)) h
             else Inr h) = g_free (config_file (app w)) h" for h :: "obj heap"
    using assms by (cases "config_file (app w)") (auto simp: g_key_file_unref_def g_free_def)
  show ?thesis
    unfolding app_cleanup_def kf g_clear_object_free
    by (simp add: app_ptrs_def ptr_kinds_def bindE_def split: sum.splits)
qed

lemma points_to_live: "points_to h (Some a) P \<Longrightarrow> live h a"
  by (auto simp: points_to_def live_def split: option.splits)

lemma owned_ptrs_live:
  assumes "owned w"
  shows "\<forall>a \<in> set (somes (app_ptrs (app w))). live (heap w) a"
proof
  fix a assume "a \<in> set (somes (app_ptrs (app w)))"
  then obtain pk where pk: "pk \<in> set (ptr_kinds (app w))" "fst pk = Some a"
    by (auto simp: set_somes app_ptrs_def)
  with owned_pts [OF assms pk(1)] have "points_to (heap w) (Some a) (snd pk)" by simp
  then show "live (heap w) a" by (rule points_to_live)
qed

lemma app_cleanup_released:
  assumes own: "owned w"
  shows "\<exists>w'. app_cleanup w = Inr w' \<and> released w' \<and>
           app w' = (app w)\<lparr>dmx_recv := None, http_server := None\<rparr> \<and>
           stderr w' = stderr w \<and> phases w' = phases w"
proof -
  let ?S = "set (somes (app_ptrs (app w)))"
  let ?h = "(heap w)\<lparr>objs := (\<lambda>a. if a \<in> ?S then None else objs (heap w) a)\<rparr>"
  let ?w = "w\<lparr>heap := ?h, app := (app w)\<lparr>dmx_recv := None, http_server := None\<rparr>\<rparr>"
  have dist: "distinct (somes (app_ptrs (app w)))" and kf: "config_file (app w) \<noteq> None \<longrightarrow> config_filename (app w) \<noteq> None"
    using owned_distinct [OF own] owned_kf [OF own] by simp_all
  have "release_all (app_ptrs (app w)) (heap w) = Inr ?h"
    using release_all_ok [OF dist owned_ptrs_live [OF own]] .
  then have eq: "app_cleanup w = Inr ?w"
    by (simp add: app_cleanup_release_all [OF kf])
  have inS: "Some a \<in> set (app_ptrs (app w)) \<Longrightarrow> a \<in> ?S" for a
    by (simp add: set_somes)
  have cov: "objs (heap w) a = Some x \<Longrightarrow> ctx_handle x \<Longrightarrow> Some a \<in> set (app_ptrs (app w))" for a x
    using own by (rule owned_cov)
  have fn: "config_filename (app w) = Some a \<Longrightarrow> a \<in> ?S"
    and dv: "dmx_device (app w) = Some a \<Longrightarrow> a \<in> ?S" for a
    by (simp_all add: set_somes app_ptrs_def ptr_kinds_def)
  have r1: "\<forall>a x. objs ?h a = Some x \<longrightarrow> \<not> ctx_handle x"
  proof (intro allI impI notI)
    fix a x assume o: "objs ?h a = Some x" and hx: "ctx_handle x"
    then have nS: "a \<notin> ?S" and o': "objs (heap w) a = Some x" by (simp_all split: if_splits)
    from cov [OF o' hx] have "a \<in> ?S" by (rule inS)
    with nS show False by simp
  qed
  have r2: "\<forall>a. config_filename (app w) = Some a \<longrightarrow> \<not> live ?h a"
    using fn by (auto simp: live_def dom_def)
  have r3: "\<forall>a. dmx_device (app w) = Some a \<longrightarrow> \<not> live ?h a"
    using dv by (auto simp: live_def dom_def)
  have "released ?w"
    unfolding released_def using r1 r2 r3 by simp
  with eq show ?thesis by auto
qed

section \<open>The order of the releases\<close>

text \<open>Releasing a set of distinct live addresses does not depend on the order.\<close>

lemma somes_filter: "somes ps = map the (filter (\<lambda>p. p \<noteq> None) ps)"
  by (induction ps rule: somes.induct) simp_all

lemma mset_somes: "mset ps = mset qs \<Longrightarrow> mset (somes ps) = mset (somes qs)"
  by (simp add: somes_filter)

lemma release_all_perm:
  assumes "mset ps = mset qs" and "distinct (somes ps)" and "\<forall>a \<in> set (somes ps). live h a"
  shows "release_all qs h = release_all ps h"
proof -
  have m: "mset (somes ps) = mset (somes qs)" using assms(1) by (rule mset_somes)
  have s: "set (somes qs) = set (somes ps)" using arg_cong [OF m, of set_mset] by simp
  have dq: "distinct (somes qs)" using assms(2) mset_eq_imp_distinct_iff [OF m] by simp
  have lq: "\<forall>a \<in> set (somes qs). live h a" using assms(3) s by simp
  show ?thesis unfolding release_all_ok [OF dq lq] release_all_ok [OF assms(2,3)] s ..
qed

text \<open>C22. \<^verbatim>\<open>app_cleanup\<close> releases the receiver before the server and the key file
  after both, which is not the reverse of acquisition order the spec prescribes; on a
  context satisfying the ownership invariant the result, faults included, is the same as
  the reverse-order teardown.\<close>

theorem app_cleanup_reverse_order:
  assumes own: "owned w"
  shows "app_cleanup w = teardown_reverse w"
proof -
  have kf: "config_file (app w) \<noteq> None \<longrightarrow> config_filename (app w) \<noteq> None" using owned_kf [OF own] by simp
  have "mset (app_ptrs (app w)) = mset [http_server (app w), dmx_recv (app w), dmx_device (app w),
                                         config_file (app w), config_filename (app w)]"
    by (simp add: app_ptrs_def ptr_kinds_def add_mset_commute)
  then have "release_all [http_server (app w), dmx_recv (app w), dmx_device (app w),
                          config_file (app w), config_filename (app w)] (heap w) =
             release_all (app_ptrs (app w)) (heap w)"
    by (rule release_all_perm [OF _ owned_distinct [OF own] owned_ptrs_live [OF own]])
  then show ?thesis by (simp add: app_cleanup_release_all [OF kf] teardown_reverse_def)
qed

lemma points_to_kind:
  "points_to h (Some a) is_string \<Longrightarrow> \<exists>s. objs h a = Some (OString s)"
  "points_to h (Some a) is_keyfile \<Longrightarrow> \<exists>kf. objs h a = Some (OKeyFile kf)"
  "points_to h (Some a) is_recv \<Longrightarrow> \<exists>d. objs h a = Some (ODmxRecv d)"
  "points_to h (Some a) is_server \<Longrightarrow> \<exists>s. objs h a = Some (OHttpServer s)"
  by (auto simp: points_to_def elim: is_string.elims is_keyfile.elims is_recv.elims is_server.elims
           split: option.splits)

lemma owned_types:
  assumes own: "owned w"
  shows "(\<forall>a. config_filename (app w) = Some a \<longrightarrow> (\<exists>s. objs (heap w) a = Some (OString s))) \<and>
         (\<forall>a. config_file (app w) = Some a \<longrightarrow> (\<exists>kf. objs (heap w) a = Some (OKeyFile kf))) \<and>
         (\<forall>a. dmx_device (app w) = Some a \<longrightarrow> (\<exists>s. objs (heap w) a = Some (OString s))) \<and>
         (\<forall>a. dmx_recv (app w) = Some a \<longrightarrow> (\<exists>d. objs (heap w) a = Some (ODmxRecv d))) \<and>
         (\<forall>a. http_server (app w) = Some a \<longrightarrow> (\<exists>s. objs (heap w) a = Some (OHttpServer s)))"
proof -
  have p: "points_to (heap w) (config_filename (app w)) is_string"
    "points_to (heap w) (config_file (app w)) is_keyfile"
    "points_to (heap w) (dmx_device (app w)) is_string"
    "points_to (heap w) (dmx_recv (app w)) is_recv"
    "points_to (heap w) (http_server (app w)) is_server"
    using owned_pts [OF own, of "(config_filename (app w), is_string)"]
      owned_pts [OF own, of "(config_file (app w), is_keyfile)"]
      owned_pts [OF own, of "(dmx_device (app w), is_string)"]
      owned_pts [OF own, of "(dmx_recv (app w), is_recv)"]
      owned_pts [OF own, of "(http_server (app w), is_server)"]
    by (simp_all add: ptr_kinds_def)
  then show ?thesis using points_to_kind by metis
qed

end
