(* ===== verification/HttpConfig.thy ===== *)
theory HttpConfig
  imports Ownership
begin

text \<open>
  The configuration of the HTTP server (\<^verbatim>\<open>configure_http_server\<close> and
  \<^verbatim>\<open>configure_string_property\<close> in \<^verbatim>\<open>main.c\<close>) against the typed configuration the
  specification asks for in place of string-keyed injection (spec 4.2, 4.4 step 4 and 7):
  a record of the recognised options, read from the key file, and applied to the server
  by direct field assignment, an absent option keeping the server's own value. The
  refinement lemma shows that the generic injector calls of the code compute exactly this
  assignment, and touch no other live object. The frame lemmas of the single calls are
  shared with the behaviour theory.
\<close>

record server_config =
  sc_port :: "gint option"
  sc_user :: "string option"
  sc_password :: "string option"
  sc_root :: "string option"
  sc_value_root :: "json option"

definition override :: "'a option \<Rightarrow> 'a option \<Rightarrow> 'a option" where
  "override new old = (case new of None \<Rightarrow> old | Some v \<Rightarrow> Some v)"

definition read_server_config :: "keyfile \<Rightarrow> server_config" where
  "read_server_config kf =
     \<lparr>sc_port = (case g_key_file_get_integer (Some kf) ''HTTP'' ''Port'' of
                  (n, None) \<Rightarrow> Some n
                | _ \<Rightarrow> None),
      sc_user = fst (g_key_file_get_string (Some kf) ''HTTP'' ''User''),
      sc_password = fst (g_key_file_get_string (Some kf) ''HTTP'' ''Password''),
      sc_root = fst (g_key_file_get_string (Some kf) ''HTTP'' ''Root''),
      sc_value_root = json_builder_get_root (jb_run value_root_cmds json_builder_new)\<rparr>"

definition apply_server_config :: "server_config \<Rightarrow> http_server \<Rightarrow> http_server" where
  "apply_server_config c s =
     s\<lparr>hs_port := override (map_option word_of_int (sc_port c)) (hs_port s),
       hs_user := override (sc_user c) (hs_user s),
       hs_password := override (sc_password c) (hs_password s),
       hs_root := override (sc_root c) (hs_root s),
       hs_value_root := Some (sc_value_root c)\<rparr>"

text \<open>The frame of a call on the server at \<open>a\<close>: objects that were live before, other
  than the server, are left as they were, and addresses are never reused.\<close>

definition heap_frame :: "addr \<Rightarrow> 'o heap \<Rightarrow> 'o heap \<Rightarrow> bool" where
  "heap_frame a h h' \<longleftrightarrow>
     next_addr h \<le> next_addr h' \<and> (\<forall>b < next_addr h. b \<noteq> a \<longrightarrow> objs h' b = objs h b)"

lemma heap_frame_refl [simp]: "heap_frame a h h"
  by (simp add: heap_frame_def)

lemma heap_frame_trans:
  "heap_frame a h1 h2 \<Longrightarrow> heap_frame a h2 h3 \<Longrightarrow> heap_frame a h1 h3"
  unfolding heap_frame_def by (metis order_trans less_le_trans)

lemma override_Some [simp]: "override (Some v) old = Some v"
  and override_None [simp]: "override None old = old"
  by (simp_all add: override_def)

lemma hs_port_set_property [simp]:
  "p \<noteq> ''http-port'' \<Longrightarrow> hs_port (http_server_set_property p v s) = hs_port s"
  by (cases v) simp_all

lemma heap_wf_live_below: "heap_wf h \<Longrightarrow> objs h a = Some x \<Longrightarrow> a < next_addr h"
  by (auto simp: heap_wf_def)

lemma deref_keyfile_at:
  "config_file (app w) = Some k \<Longrightarrow> objs (heap w) k = Some (OKeyFile kf) \<Longrightarrow>
   deref_keyfile w (config_file (app w)) = Inr (Some kf)"
  by (simp add: deref_keyfile_def)

lemma g_object_set_server:
  "objs (heap w) a = Some (OHttpServer s) \<Longrightarrow>
   g_object_set (Some a) prop v w =
     Inr (w\<lparr>heap := (heap w)\<lparr>objs := (objs (heap w))(a \<mapsto> OHttpServer (http_server_set_property prop v s))\<rparr>\<rparr>)"
  by (simp add: g_object_set_def w_heap_def heap_write_def domIff)

lemma heap_wf_finite: "heap_wf h \<Longrightarrow> finite (dom (objs h))"
  unfolding heap_wf_def by (rule finite_subset [of _ "{..<next_addr h}"]) auto

lemma configure_string_property_server:
  assumes wf: "heap_wf (heap w)" and s: "objs (heap w) a = Some (OHttpServer s)"
  shows "\<exists>w'. configure_string_property (Some a) prop cfg grp key w = Inr w' \<and> heap_wf (heap w') \<and>
           app w' = app w \<and> phases w' = phases w \<and> heap_frame a (heap w) (heap w') \<and>
           card (dom (objs (heap w'))) = card (dom (objs (heap w))) +
             (case fst (g_key_file_get_string cfg grp key) of None \<Rightarrow> 0 | Some _ \<Rightarrow> 1) \<and>
           objs (heap w') a = Some (OHttpServer (case fst (g_key_file_get_string cfg grp key) of
                                                   None \<Rightarrow> s
                                                 | Some str \<Rightarrow> http_server_set_property prop (GString str) s))"
proof (cases "fst (g_key_file_get_string cfg grp key)")
  case None
  with wf s show ?thesis by (simp add: configure_string_property_def)
next
  case (Some str)
  have an: "a \<noteq> next_addr (heap w)" using heap_wf_live_below [OF wf s] by simp
  let ?w1 = "snd (w_alloc (OString str) w)"
  have s1: "objs (heap ?w1) a = Some (OHttpServer s)" using s an by (simp add: heap_alloc_def)
  have wf1: "heap_wf (heap ?w1)" using wf by (simp add: heap_alloc_wf)
  have eq: "configure_string_property (Some a) prop cfg grp key w = g_object_set (Some a) prop (GString str) ?w1"
    using Some by (simp add: configure_string_property_def)
  have fin: "finite (dom (objs (heap w)))" using wf by (rule heap_wf_finite)
  have nd: "next_addr (heap w) \<notin> dom (objs (heap w))" using heap_wf_next_free [OF wf] by blast
  have ad: "a \<in> dom (objs (heap w))" using s by blast
  show ?thesis
    unfolding eq g_object_set_server [OF s1] using Some wf1 s1 heap_wf_live_below [OF wf1 s1] fin nd ad
    by (simp add: heap_wf_def heap_frame_def heap_alloc_def insert_absorb)
qed

lemma set_value_root_server:
  assumes wf: "heap_wf (heap w)" and s: "objs (heap w) a = Some (OHttpServer s)"
  shows "\<exists>w'. set_value_root (Some a) w = Inr w' \<and> heap_wf (heap w') \<and> app w' = app w \<and>
           phases w' = phases w \<and> dom (objs (heap w')) = insert (Suc (next_addr (heap w))) (dom (objs (heap w))) \<and>
           objs (heap w') (Suc (next_addr (heap w))) =
             Some (OJsonNode (the (json_builder_get_root (jb_run value_root_cmds json_builder_new)))) \<and>
           \<not> live (heap w') (next_addr (heap w)) \<and> heap_frame a (heap w) (heap w') \<and>
           objs (heap w') a = Some (OHttpServer (http_server_set_property ''value-root''
              (GJsonNode (json_builder_get_root (jb_run value_root_cmds json_builder_new))) s))"
proof -
  have an: "a \<noteq> next_addr (heap w)" "a \<noteq> Suc (next_addr (heap w))"
    using heap_wf_live_below [OF wf s] by simp_all
  have free: "objs (heap w) (next_addr (heap w)) = None" using wf by (rule heap_wf_next_free)
  have free1: "objs (heap w) (Suc (next_addr (heap w))) = None" using wf by (rule heap_wf_above) simp
  have "\<exists>w'. set_value_root (Some a) w = Inr w'"
    using s an free by (simp add: set_value_root_def w_alloc_def heap_alloc_def w_heap_def heap_write_def
        g_object_set_def g_object_unref_def heap_release_def Let_def value_root_cmds_root domIff)
  then obtain w' where ok: "set_value_root (Some a) w = Inr w'" ..
  from set_value_root_heap [OF wf ok] s
  have fr: "app w' = app w" "phases w' = phases w"
    and n': "next_addr (heap w') = Suc (Suc (next_addr (heap w)))"
    and o': "objs (heap w') = (objs (heap w))(a \<mapsto> OHttpServer (http_server_set_property ''value-root''
              (GJsonNode (json_builder_get_root (jb_run value_root_cmds json_builder_new))) s),
              Suc (next_addr (heap w)) \<mapsto>
                OJsonNode (the (json_builder_get_root (jb_run value_root_cmds json_builder_new))))"
    by auto
  have "heap_wf (heap w')"
    using wf n' o' heap_wf_live_below [OF wf s] unfolding heap_wf_def by (auto simp: less_Suc_eq)
  moreover have "dom (objs (heap w')) = insert (Suc (next_addr (heap w))) (dom (objs (heap w)))"
    using o' s by auto
  ultimately show ?thesis
    using ok fr n' o' an free free1 by (auto simp: live_def heap_frame_def)
qed

lemma configure_string_property_port:
  assumes wf: "heap_wf (heap w)" and s: "objs (heap w) a = Some (OHttpServer s)"
    and p: "pn \<noteq> ''http-port''"
  shows "\<exists>w' s'. configure_string_property (Some a) pn cfg grp key w = Inr w' \<and> heap_wf (heap w') \<and>
           app w' = app w \<and> objs (heap w') a = Some (OHttpServer s') \<and> hs_port s' = hs_port s"
  using configure_string_property_server [OF wf s, of pn cfg grp key] p
  by (auto split: option.splits)

text \<open>Applying a configuration is applying its port, then the rest.\<close>

lemma apply_server_config_port:
  "apply_server_config c s =
   apply_server_config (c\<lparr>sc_port := None\<rparr>)
     (s\<lparr>hs_port := override (map_option word_of_int (sc_port c)) (hs_port s)\<rparr>)"
  by (simp add: apply_server_config_def)

lemma heap_frame_write:
  "heap_frame a h (h\<lparr>objs := (objs h)(a \<mapsto> x)\<rparr>)"
  by (simp add: heap_frame_def)

text \<open>The port block of \<^verbatim>\<open>configure_http_server\<close>: the port is set only when the
  integer was read without error.\<close>

lemma configure_http_port_step:
  assumes wf: "heap_wf (heap w)" and s: "objs (heap w) a = Some (OHttpServer s)"
  shows "\<exists>w1. (if err = None then g_object_set (Some a) ''http-port'' (GUInt (word_of_int n)) w else Inr w) =
           Inr w1 \<and> heap_wf (heap w1) \<and> app w1 = app w \<and> phases w1 = phases w \<and>
           dom (objs (heap w1)) = dom (objs (heap w)) \<and> heap_frame a (heap w) (heap w1) \<and>
           objs (heap w1) a = Some (OHttpServer
             (s\<lparr>hs_port := override (if err = None then Some (word_of_int n) else None) (hs_port s)\<rparr>))"
  using wf s heap_wf_live_below [OF wf s]
  by (simp add: g_object_set_server [OF s] heap_frame_write insert_absorb domI) (simp add: heap_wf_def)

text \<open>The injector calls for user, password and root and the value tree, in the order
  of the code, apply the configuration without its port.\<close>

lemma configure_http_tail:
  assumes wf: "heap_wf (heap w)" and s: "objs (heap w) a = Some (OHttpServer s)"
  shows "\<exists>w'. bindE (configure_string_property (Some a) ''user'' (Some kf) ''HTTP'' ''User'' w) (\<lambda>w2.
           bindE (configure_string_property (Some a) ''password'' (Some kf) ''HTTP'' ''Password'' w2) (\<lambda>w3.
           bindE (configure_string_property (Some a) ''http-root'' (Some kf) ''HTTP'' ''Root'' w3) (\<lambda>w4.
           set_value_root (Some a) w4))) = Inr w' \<and>
           heap_wf (heap w') \<and> app w' = app w \<and> phases w' = phases w \<and>
           heap_frame a (heap w) (heap w') \<and>
           card (dom (objs (heap w'))) = card (dom (objs (heap w))) +
             length (filter (\<lambda>k. fst (g_key_file_get_string (Some kf) ''HTTP'' k) \<noteq> None)
                       [''User'', ''Password'', ''Root'']) + 1 \<and>
           (\<exists>c. objs (heap w') c = Some (OJsonNode (the (json_builder_get_root (jb_run value_root_cmds json_builder_new))))) \<and>
           objs (heap w') a = Some (OHttpServer
             (apply_server_config ((read_server_config kf)\<lparr>sc_port := None\<rparr>) s))"
proof -
  let ?get = "\<lambda>k. fst (g_key_file_get_string (Some kf) ''HTTP'' k)"
  let ?inj = "\<lambda>p k s. case ?get k of None \<Rightarrow> s | Some str \<Rightarrow> http_server_set_property p (GString str) s"
  obtain w2 where c2: "configure_string_property (Some a) ''user'' (Some kf) ''HTTP'' ''User'' w = Inr w2"
    and wf2: "heap_wf (heap w2)" and a2: "app w2 = app w" and p2: "phases w2 = phases w"
    and f2: "heap_frame a (heap w) (heap w2)"
    and n2: "card (dom (objs (heap w2))) = card (dom (objs (heap w))) + (case ?get ''User'' of None \<Rightarrow> 0 | Some _ \<Rightarrow> 1)"
    and s2: "objs (heap w2) a = Some (OHttpServer (?inj ''user'' ''User'' s))"
    using configure_string_property_server [OF wf s] by blast
  obtain w3 where c3: "configure_string_property (Some a) ''password'' (Some kf) ''HTTP'' ''Password'' w2 = Inr w3"
    and wf3: "heap_wf (heap w3)" and a3: "app w3 = app w2" and p3: "phases w3 = phases w2"
    and f3: "heap_frame a (heap w2) (heap w3)"
    and n3: "card (dom (objs (heap w3))) = card (dom (objs (heap w2))) + (case ?get ''Password'' of None \<Rightarrow> 0 | Some _ \<Rightarrow> 1)"
    and s3: "objs (heap w3) a = Some (OHttpServer (?inj ''password'' ''Password'' (?inj ''user'' ''User'' s)))"
    using configure_string_property_server [OF wf2 s2] by blast
  obtain w4 where c4: "configure_string_property (Some a) ''http-root'' (Some kf) ''HTTP'' ''Root'' w3 = Inr w4"
    and wf4: "heap_wf (heap w4)" and a4: "app w4 = app w3" and p4: "phases w4 = phases w3"
    and f4: "heap_frame a (heap w3) (heap w4)"
    and n4: "card (dom (objs (heap w4))) = card (dom (objs (heap w3))) + (case ?get ''Root'' of None \<Rightarrow> 0 | Some _ \<Rightarrow> 1)"
    and s4: "objs (heap w4) a = Some (OHttpServer
               (?inj ''http-root'' ''Root'' (?inj ''password'' ''Password'' (?inj ''user'' ''User'' s))))"
    using configure_string_property_server [OF wf3 s3] by blast
  obtain w5 where c5: "set_value_root (Some a) w4 = Inr w5"
    and wf5: "heap_wf (heap w5)" and a5: "app w5 = app w4" and p5: "phases w5 = phases w4"
    and f5: "heap_frame a (heap w4) (heap w5)"
    and n5: "dom (objs (heap w5)) = insert (Suc (next_addr (heap w4))) (dom (objs (heap w4)))"
    and j5: "objs (heap w5) (Suc (next_addr (heap w4))) =
               Some (OJsonNode (the (json_builder_get_root (jb_run value_root_cmds json_builder_new))))"
    and s5: "objs (heap w5) a = Some (OHttpServer (http_server_set_property ''value-root''
              (GJsonNode (json_builder_get_root (jb_run value_root_cmds json_builder_new)))
              (?inj ''http-root'' ''Root'' (?inj ''password'' ''Password'' (?inj ''user'' ''User'' s)))))"
    using set_value_root_server [OF wf4 s4] by blast
  have f: "heap_frame a (heap w) (heap w5)"
    using heap_frame_trans [OF heap_frame_trans [OF heap_frame_trans [OF f2 f3] f4] f5] .
  have srv: "http_server_set_property ''value-root''
              (GJsonNode (json_builder_get_root (jb_run value_root_cmds json_builder_new)))
              (?inj ''http-root'' ''Root'' (?inj ''password'' ''Password'' (?inj ''user'' ''User'' s))) =
             apply_server_config ((read_server_config kf)\<lparr>sc_port := None\<rparr>) s"
    by (simp add: apply_server_config_def read_server_config_def override_def split: option.split)
  have n5': "card (dom (objs (heap w5))) = Suc (card (dom (objs (heap w4))))"
    unfolding n5 using heap_wf_finite [OF wf4] heap_wf_above [OF wf4, of "Suc (next_addr (heap w4))"]
    by (simp add: domIff)
  have n: "card (dom (objs (heap w5))) = card (dom (objs (heap w))) +
             length (filter (\<lambda>k. ?get k \<noteq> None) [''User'', ''Password'', ''Root'']) + 1"
    unfolding n5' n4 n3 n2 by (simp split: option.split)
  show ?thesis
    using c2 c3 c4 c5 wf5 a2 a3 a4 a5 p2 p3 p4 p5 f n j5 s5 srv by auto
qed

text \<open>\<^verbatim>\<open>configure_http_server\<close> applies the typed configuration read from the key file
  to the server, and changes nothing else of the world.\<close>

lemma configure_http_server_spec:
  assumes cf: "config_file (app w) = Some k" and kfo: "objs (heap w) k = Some (OKeyFile kf)"
    and sa: "http_server (app w) = Some a" and s: "objs (heap w) a = Some (OHttpServer s)"
    and wf: "heap_wf (heap w)"
  shows "\<exists>w'. configure_http_server w = Inr w' \<and> heap_wf (heap w') \<and> app w' = app w \<and>
           phases w' = phases w \<and> heap_frame a (heap w) (heap w') \<and>
           card (dom (objs (heap w'))) = card (dom (objs (heap w))) +
             length (filter (\<lambda>k. fst (g_key_file_get_string (Some kf) ''HTTP'' k) \<noteq> None)
                       [''User'', ''Password'', ''Root'']) + 1 \<and>
           (\<exists>c. objs (heap w') c = Some (OJsonNode (the (json_builder_get_root (jb_run value_root_cmds json_builder_new))))) \<and>
           objs (heap w') a = Some (OHttpServer (apply_server_config (read_server_config kf) s))"
proof -
  obtain n err where gi: "g_key_file_get_integer (Some kf) ''HTTP'' ''Port'' = (n, err)"
    by (cases "g_key_file_get_integer (Some kf) ''HTTP'' ''Port''")
  let ?s1 = "s\<lparr>hs_port := override (if err = None then Some (word_of_int n) else None) (hs_port s)\<rparr>"
  obtain w1 where c1: "(if err = None then g_object_set (Some a) ''http-port'' (GUInt (word_of_int n)) w
                        else Inr w) = Inr w1"
    and wf1: "heap_wf (heap w1)" and a1: "app w1 = app w" and p1: "phases w1 = phases w"
    and d1: "dom (objs (heap w1)) = dom (objs (heap w))" and f1: "heap_frame a (heap w) (heap w1)"
    and s1: "objs (heap w1) a = Some (OHttpServer ?s1)"
    using configure_http_port_step [OF wf s] by blast
  obtain w' where c: "bindE (configure_string_property (Some a) ''user'' (Some kf) ''HTTP'' ''User'' w1) (\<lambda>w2.
           bindE (configure_string_property (Some a) ''password'' (Some kf) ''HTTP'' ''Password'' w2) (\<lambda>w3.
           bindE (configure_string_property (Some a) ''http-root'' (Some kf) ''HTTP'' ''Root'' w3) (\<lambda>w4.
           set_value_root (Some a) w4))) = Inr w'"
    and wf': "heap_wf (heap w')" and a': "app w' = app w1" and ph: "phases w' = phases w1"
    and n': "card (dom (objs (heap w'))) = card (dom (objs (heap w1))) +
             length (filter (\<lambda>k. fst (g_key_file_get_string (Some kf) ''HTTP'' k) \<noteq> None)
                       [''User'', ''Password'', ''Root'']) + 1"
    and j': "\<exists>c. objs (heap w') c = Some (OJsonNode (the (json_builder_get_root (jb_run value_root_cmds json_builder_new))))" and f': "heap_frame a (heap w1) (heap w')"
    and s': "objs (heap w') a = Some (OHttpServer
             (apply_server_config ((read_server_config kf)\<lparr>sc_port := None\<rparr>) ?s1))"
    using configure_http_tail [OF wf1 s1] by blast
  have "configure_http_server w = Inr w'"
    using c1 c by (simp add: configure_http_server_def deref_keyfile_at [OF cf kfo] sa gi)
  moreover have "apply_server_config ((read_server_config kf)\<lparr>sc_port := None\<rparr>) ?s1 =
                 apply_server_config (read_server_config kf) s"
    by (subst (2) apply_server_config_port) (simp add: read_server_config_def gi split: option.split)
  ultimately show ?thesis
    using wf' a' a1 heap_frame_trans [OF f1 f'] s' ph p1 n' d1 j' by auto
qed

text \<open>C27. \<^verbatim>\<open>HTTP.Port\<close> is optional (spec 4.4 step 4 and 6): when it is absent or not an
  integer, \<^verbatim>\<open>configure_http_server\<close> does not set the port, and the server keeps the
  port it had, its built-in default.\<close>

theorem configure_http_server_port_default:
  assumes "config_file (app w) = Some k" and "objs (heap w) k = Some (OKeyFile kf)"
    and "http_server (app w) = Some a" and "objs (heap w) a = Some (OHttpServer s)"
    and "heap_wf (heap w)"
    and np: "snd (g_key_file_get_integer (Some kf) ''HTTP'' ''Port'') \<noteq> None"
  shows "\<exists>w' s'. configure_http_server w = Inr w' \<and> objs (heap w') a = Some (OHttpServer s') \<and>
           hs_port s' = hs_port s"
proof -
  have "sc_port (read_server_config kf) = None"
    using np by (auto simp: read_server_config_def split: prod.split option.split)
  then show ?thesis
    using configure_http_server_spec [OF assms(1-5)] by (auto simp: apply_server_config_def)
qed

text \<open>The server block of \<^verbatim>\<open>main\<close>: a fresh server, configured, stored in the context.\<close>

lemma main_setup_http_config:
  assumes cf: "config_file (app w) = Some k" and kfo: "objs (heap w) k = Some (OKeyFile kf)"
    and wf: "heap_wf (heap w)"
  shows "\<exists>w'. main_setup_http w = Inr w' \<and> http_server (app w') = Some (next_addr (heap w)) \<and>
           objs (heap w') (next_addr (heap w)) =
             Some (OHttpServer (apply_server_config (read_server_config kf) http_server_new)) \<and>
           heap_frame (next_addr (heap w)) (heap w) (heap w') \<and>
           phases w' = phases w @ [ServerConfigured] \<and>
           app w' = (app w)\<lparr>http_server := Some (next_addr (heap w))\<rparr> \<and> heap_wf (heap w') \<and>
           card (dom (objs (heap w'))) = card (dom (objs (heap w))) + 2 +
             length (filter (\<lambda>k. fst (g_key_file_get_string (Some kf) ''HTTP'' k) \<noteq> None)
                       [''User'', ''Password'', ''Root'']) \<and>
           (\<exists>c. objs (heap w') c = Some (OJsonNode (the (json_builder_get_root (jb_run value_root_cmds json_builder_new)))))"
proof -
  let ?a = "next_addr (heap w)"
  let ?w2 = "set_app (\<lambda>c. c\<lparr>http_server := Some ?a\<rparr>) (snd (w_alloc (OHttpServer http_server_new) w))"
  have ka: "k \<noteq> ?a" using heap_wf_live_below [OF wf kfo] by simp
  have cf2: "config_file (app ?w2) = Some k" using cf by (simp add: set_app_def)
  have kfo2: "objs (heap ?w2) k = Some (OKeyFile kf)" using kfo ka by (simp add: set_app_def heap_alloc_def)
  have sa2: "http_server (app ?w2) = Some ?a" by (simp add: set_app_def)
  have s2: "objs (heap ?w2) ?a = Some (OHttpServer http_server_new)" by (simp add: set_app_def heap_alloc_def)
  have wf2: "heap_wf (heap ?w2)" using wf by (simp add: set_app_def heap_alloc_wf)
  have f2: "heap_frame ?a (heap w) (heap ?w2)" by (simp add: set_app_def heap_alloc_def heap_frame_def)
  have n2: "card (dom (objs (heap ?w2))) = Suc (card (dom (objs (heap w))))"
    using heap_wf_finite [OF wf] heap_wf_next_free [OF wf] by (simp add: set_app_def heap_alloc_def domIff)
  obtain w' where c: "configure_http_server ?w2 = Inr w'" and ph: "phases w' = phases ?w2"
    and ap: "app w' = app ?w2" and wf': "heap_wf (heap w')" and f': "heap_frame ?a (heap ?w2) (heap w')"
    and n': "card (dom (objs (heap w'))) = card (dom (objs (heap ?w2))) +
             length (filter (\<lambda>k. fst (g_key_file_get_string (Some kf) ''HTTP'' k) \<noteq> None)
                       [''User'', ''Password'', ''Root'']) + 1"
    and j': "\<exists>c. objs (heap w') c = Some (OJsonNode (the (json_builder_get_root (jb_run value_root_cmds json_builder_new))))"
    and s': "objs (heap w') ?a = Some (OHttpServer (apply_server_config (read_server_config kf) http_server_new))"
    using configure_http_server_spec [OF cf2 kfo2 sa2 s2 wf2] by blast
  have "main_setup_http w = Inr (enter ServerConfigured w')"
    using c by (simp add: main_setup_http_def Let_def on_fault_def)
  then show ?thesis
    using ph ap wf' s' heap_frame_trans [OF f2 f'] n' n2 j' by (simp add: enter_def set_app_def)
qed

text \<open>C28. Refinement of the server configuration step (spec 4.4 step 4, with the typed
  configuration of spec 7): \<^verbatim>\<open>main_setup_http\<close> creates the server at a fresh address,
  stores it in the context, and leaves it holding exactly the typed configuration read
  from the key file applied to the server's defaults; no object that was live before is
  changed, and the run enters \<open>ServerConfigured\<close>.\<close>

theorem main_setup_http_refines:
  assumes "config_file (app w) = Some k" and "objs (heap w) k = Some (OKeyFile kf)"
    and "heap_wf (heap w)"
  shows "\<exists>w'. main_setup_http w = Inr w' \<and> http_server (app w') = Some (next_addr (heap w)) \<and>
           objs (heap w') (next_addr (heap w)) =
             Some (OHttpServer (apply_server_config (read_server_config kf) http_server_new)) \<and>
           heap_frame (next_addr (heap w)) (heap w) (heap w') \<and>
           phases w' = phases w @ [ServerConfigured]"
  using main_setup_http_config [OF assms] by blast

text \<open>C29. What the server block leaves allocated: the server; the root node
  \<^verbatim>\<open>json_builder_get_root\<close> returned, which is never released; and one copy of each of
  \<^verbatim>\<open>HTTP.User\<close>, \<^verbatim>\<open>HTTP.Password\<close> and \<^verbatim>\<open>HTTP.Root\<close> that is present, which
  \<^verbatim>\<open>configure_string_property\<close> never frees. The JSON builder is released and the port
  allocates nothing, so nothing else is added to the live objects.\<close>

theorem main_setup_http_live_objects:
  assumes "config_file (app w) = Some k" and "objs (heap w) k = Some (OKeyFile kf)"
    and "heap_wf (heap w)"
  shows "\<exists>w'. main_setup_http w = Inr w' \<and>
           card (dom (objs (heap w'))) = card (dom (objs (heap w))) + 2 +
             length (filter (\<lambda>k. fst (g_key_file_get_string (Some kf) ''HTTP'' k) \<noteq> None)
                       [''User'', ''Password'', ''Root'']) \<and>
           (\<exists>c. objs (heap w') c = Some (OJsonNode (JObject [(''foo'', JInt 78),
              (''bar'', JArray [JDouble (FloatLit 31415 4), JDouble (FloatLit (-141) 2)])])))"
  using main_setup_http_config [OF assms] by (auto simp: value_root_cmds_root)

text \<open>C30. Credentials of any UTF-8 content reach the server unchanged: when the
  configuration holds \<^verbatim>\<open>HTTP.User\<close> and \<^verbatim>\<open>HTTP.Password\<close> written with GLib's string
  escaping from valid UTF-8 strings, the server configured by
  \<^verbatim>\<open>configure_http_server\<close> has exactly that user and password, spaces, backslashes,
  line breaks and multi-byte characters included.\<close>

theorem configure_http_server_credentials_roundtrip:
  assumes "config_file (app w) = Some k" and "objs (heap w) k = Some (OKeyFile kf)"
    and "http_server (app w) = Some a" and "objs (heap w) a = Some (OHttpServer s)"
    and "heap_wf (heap w)"
    and u: "kf_get_value kf ''HTTP'' ''User'' = Inr (kf_escape user)"
    and p: "kf_get_value kf ''HTTP'' ''Password'' = Inr (kf_escape pw)"
    and uv: "g_utf8_validate user" and pv: "g_utf8_validate pw"
  shows "\<exists>w' s'. configure_http_server w = Inr w' \<and> objs (heap w') a = Some (OHttpServer s') \<and>
           hs_user s' = Some user \<and> hs_password s' = Some pw"
  using configure_http_server_spec [OF assms(1-5)] g_key_file_get_string_escaped [OF u uv]
    g_key_file_get_string_escaped [OF p pv]
  by (auto simp: apply_server_config_def read_server_config_def)

end
