(* ===== verification/Stages.thy ===== *)
theory Stages
  imports HttpConfig
begin

text \<open>
  The blocks of \<^verbatim>\<open>main\<close> against the lifecycle specification (theory Lifecycle).
  \<open>stage_spec Q r\<close> says a block either finished the run acceptably
  (\<open>finished_ok\<close>: a lifecycle trace from \<open>Init\<close>; on an exit, all handles released, the
  run in \<open>Terminated\<close>, success exactly after shutdown; a halt only with status 0
  in \<open>Init\<close>, as the help option does; a fault only by the NULL
  \<^verbatim>\<open>err->message\<close> of the device block without a configuration file) or handed on a world
  satisfying \<open>Q\<close>. One lemma per block, from
  the option parsing to the main loop, each proving that the block's frees, writes and
  dereferences succeed, and their composition \<open>main_finished_ok\<close>.
\<close>


section \<open>Runs and the lifecycle\<close>

lemma released_frameI: "released w \<Longrightarrow> heap w' = heap w \<Longrightarrow> app w' = app w \<Longrightarrow> released w'"
  by (simp add: released_def)

lemma run_ok_enter:
  assumes "run_ok p w" and "lc_step p q" and "q \<noteq> ShuttingDown"
  shows "run_ok q (enter q w)"
  using assms by (auto simp: run_ok_def lc_trace_snoc intro: owned_frameI)

lemma run_ok_frameI:
  "run_ok p w \<Longrightarrow> heap w' = heap w \<Longrightarrow> app w' = app w \<Longrightarrow> phases w' = phases w \<Longrightarrow> run_ok p w'"
  by (auto simp: run_ok_def intro: owned_frameI)

lemma set_app_init [simp]: "set_app app_init w = w"
  by (simp add: set_app_def app_init_def)

lemma finished_ok_halt: "run_ok p w \<Longrightarrow> phases w = [Init] \<Longrightarrow> finished_ok (Halt EXIT_SUCCESS, w)"
  by (simp add: finished_ok_def run_ok_def)

lemma finished_ok_null:
  "run_ok ConfigLoaded w \<Longrightarrow> config_file (app w) = None \<Longrightarrow> finished_ok (Crash Null_deref, w)"
  by (simp add: finished_ok_def run_ok_def)

lemma fail_exit_ok:
  assumes ok: "run_ok p w" and st: "lc_step p Terminated"
  shows "finished_ok (fail_exit pre (Some e) w)"
proof -
  let ?w0 = "snd (w_alloc (OGError e) w)"
  let ?w1 = "g_printerr (pre @ gerror_message e) ?w0"
  have "owned ?w0" using ok by (intro owned_alloc) (simp_all add: run_ok_def)
  then have "owned ?w1" by (rule owned_frameI) (simp_all add: g_printerr_def)
  then obtain w2 where cl: "app_cleanup ?w1 = Inr w2" and rel: "released w2"
    and fr: "phases w2 = phases w"
    using app_cleanup_released by (fastforce simp: g_printerr_def)
  have "lc_trace (phases w @ [Terminated])"
    using ok st by (simp add: run_ok_def lc_trace_snoc)
  moreover have "released (enter Terminated w2)" using rel by (rule released_frameI) simp_all
  ultimately show ?thesis
    using ok cl fr
    by (simp add: fail_exit_def err_message_def finished_ok_def run_ok_def EXIT_FAILURE_def EXIT_SUCCESS_def)
qed

lemma stage_spec_bind:
  "stage_spec Q m \<Longrightarrow> (\<And>w. Q w \<Longrightarrow> stage_spec R (f w)) \<Longrightarrow> stage_spec R (bindE m f)"
  by (cases m) (simp_all add: stage_spec_def)

text \<open>A block that calls an operation which cannot fault on the current world: the
  block's outcome is that of its continuation.\<close>

lemma stage_spec_ok:
  "m = Inr x \<Longrightarrow> stage_spec Q (k x) \<Longrightarrow> stage_spec Q (on_fault w m k)"
  by (simp add: on_fault_def)

lemma w_heap_release_Inr:
  "objs (heap w) a = Some y \<Longrightarrow> w_heap w (heap_release a) = Inr (w\<lparr>heap := (heap w)\<lparr>objs := (objs (heap w))(a := None)\<rparr>\<rparr>)"
  by (simp add: w_heap_def heap_release_def domIff)

lemma w_heap_write_Inr:
  "objs (heap w) a = Some y \<Longrightarrow> w_heap w (heap_write a x) = Inr (w\<lparr>heap := (heap w)\<lparr>objs := (objs (heap w))(a \<mapsto> x)\<rparr>\<rparr>)"
  by (simp add: w_heap_def heap_write_def domIff)

text \<open>Under the invariant the pointers of the context can be dereferenced.\<close>

lemma deref_keyfile_owned:
  assumes "owned w"
  shows "\<exists>cfg. deref_keyfile w (config_file (app w)) = Inr cfg \<and> (cfg = None \<longleftrightarrow> config_file (app w) = None)"
  using owned_types [OF assms] by (cases "config_file (app w)") (auto simp: deref_keyfile_def)

lemma deref_string_owned:
  assumes "owned w" and "p = config_filename (app w) \<or> p = dmx_device (app w)" and "p = Some a"
  shows "\<exists>s. deref_string w p = Inr s"
proof -
  obtain s where "objs (heap w) a = Some (OString s)"
    using owned_types [OF assms(1)] assms(2,3) by metis
  then show ?thesis using assms(3) by (simp add: deref_string_def)
qed

lemma owned_world_init: "owned world_init"
  by (simp add: owned_def world_init_def app_ctxt_init_def ptr_kinds_def app_ptrs_def points_to_def
      heap_empty_def heap_wf_def)

lemma run_ok_init: "run_ok Init world_init"
  using owned_world_init by (simp add: run_ok_def world_init_def)

lemma owned_assign_filename:
  "owned w \<Longrightarrow> config_filename (app w) = None \<Longrightarrow>
   owned (set_app (\<lambda>c. c\<lparr>config_filename := Some (next_addr (heap w))\<rparr>) (snd (w_alloc (OString f) w)))"
  by (rule owned_assign [where i = 2]) (simp_all add: ptr_kinds_def)

lemma owned_assign_keyfile:
  "owned w \<Longrightarrow> config_file (app w) = None \<Longrightarrow> config_filename (app w) \<noteq> None \<Longrightarrow>
   owned (set_app (\<lambda>c. c\<lparr>config_file := Some (next_addr (heap w))\<rparr>) (snd (w_alloc (OKeyFile kf) w)))"
  by (rule owned_assign [where i = 3]) (simp_all add: ptr_kinds_def)

lemma owned_assign_device:
  "owned w \<Longrightarrow> dmx_device (app w) = None \<Longrightarrow>
   owned (set_app (\<lambda>c. c\<lparr>dmx_device := Some (next_addr (heap w))\<rparr>) (snd (w_alloc (OString d) w)))"
  by (rule owned_assign [where i = 4]) (simp_all add: ptr_kinds_def owned_kf)

lemma owned_assign_recv:
  "owned w \<Longrightarrow> dmx_recv (app w) = None \<Longrightarrow>
   owned (set_app (\<lambda>c. c\<lparr>dmx_recv := Some (next_addr (heap w))\<rparr>) (snd (w_alloc (ODmxRecv d) w)))"
  by (rule owned_assign [where i = 0]) (simp_all add: ptr_kinds_def owned_kf)

lemma owned_assign_server:
  "owned w \<Longrightarrow> http_server (app w) = None \<Longrightarrow>
   owned (set_app (\<lambda>c. c\<lparr>http_server := Some (next_addr (heap w))\<rparr>) (snd (w_alloc (OHttpServer s) w)))"
  by (rule owned_assign [where i = 1]) (simp_all add: ptr_kinds_def owned_kf)



lemma owned_release_frame:
  assumes "owned w" and "Some a \<notin> set (app_ptrs (app w))" and "w_heap w (heap_release a) = Inr w'"
  shows "owned w' \<and> app w' = app w \<and> phases w' = phases w \<and> stderr w' = stderr w"
proof -
  have fr: "app w' = app w \<and> phases w' = phases w \<and> stderr w' = stderr w"
    using assms(3) by (rule w_heap_frame)
  have "owned (w\<lparr>heap := heap w'\<rparr>)"
    using assms(3) by (intro owned_release_other [OF assms(1,2)]) (rule w_heap_heap)
  then show ?thesis using fr by (auto intro: owned_frameI)
qed

lemma run_ok_alloc: "run_ok p w \<Longrightarrow> \<not> ctx_handle x \<Longrightarrow> run_ok p (snd (w_alloc x w))"
  by (simp add: run_ok_def owned_alloc)

section \<open>The blocks of main\<close>

lemma main_parse_options_spec: "stage_spec (good OptionsParsed) (main_parse_options e world_init)"
proof -
  let ?w1 = "snd (w_alloc OOptionContext world_init)"
  have r1: "run_ok Init ?w1" using run_ok_init by (rule run_ok_alloc) simp
  have p1: "phases ?w1 = [Init]" by (simp add: world_init_def)
  have oc: "next_addr (heap world_init) = 0" by (simp add: world_init_def heap_empty_def)
  show ?thesis
  proof (cases "g_option_context_parse app_options (env_argv e)")
    case (OptErr err)
    then show ?thesis
      using fail_exit_ok [OF r1 lc_step.parse_fail] by (simp add: main_parse_options_def stage_spec_def)
  next
    case OptHelp
    then show ?thesis
      using finished_ok_halt [OF r1 p1] by (simp add: main_parse_options_def stage_spec_def)
  next
    case (OptOk vals)
    define fname where "fname = map_of vals ''config-file''"
    define w2 where "w2 = (case fname of None \<Rightarrow> ?w1
      | Some f \<Rightarrow> set_app (\<lambda>c. c\<lparr>config_filename := Some (next_addr (heap ?w1))\<rparr>) (snd (w_alloc (OString f) ?w1)))"
    have o1: "owned ?w1" and cf: "config_filename (app ?w1) = None"
      using r1 by (simp_all add: run_ok_def world_init_def app_ctxt_init_def)
    have o2: "owned w2"
    proof (cases fname)
      case None
      then show ?thesis using o1 by (simp add: w2_def)
    next
      case (Some f)
      show ?thesis unfolding w2_def Some option.case by (rule owned_assign_filename [OF o1 cf])
    qed
    have ph2: "phases w2 = [Init]" and fr2: "fresh_fields OptionsParsed (app w2)"
      and nin: "Some 0 \<notin> set (app_ptrs (app w2))"
      and l0: "objs (heap w2) 0 = Some OOptionContext"
      by (auto simp: w2_def world_init_def app_ctxt_init_def heap_alloc_def heap_empty_def set_app_def
               app_ptrs_def ptr_kinds_def split: option.splits)
    have r2: "run_ok Init w2" using o2 ph2 by (simp add: run_ok_def)
    have eq: "main_parse_options e world_init = on_fault w2 (w_heap w2 (heap_release 0)) (\<lambda>w3. Inr (enter OptionsParsed w3))"
      using OptOk oc by (simp add: main_parse_options_def w2_def fname_def Let_def split: option.splits)
    obtain w3 where rel: "w_heap w2 (heap_release 0) = Inr w3" using w_heap_release_Inr [OF l0] by blast
    show ?thesis unfolding eq
    proof (rule stage_spec_ok [OF rel])
      from owned_release_frame [OF o2 nin rel]
      have "run_ok Init w3" and "app w3 = app w2" using r2 by (auto simp: run_ok_def)
      then show "stage_spec (good OptionsParsed) (Inr (enter OptionsParsed w3))"
        using fr2 by (simp add: stage_spec_def good_def run_ok_enter lc_step.parse_ok)
    qed
  qed
qed


lemma owned_w_heap_write:
  assumes "owned w" and "objs (heap w) a = Some y" and "obj_kind x = obj_kind y"
    and "w_heap w (heap_write a x) = Inr w'"
  shows "owned w' \<and> app w' = app w \<and> phases w' = phases w \<and> stderr w' = stderr w"
proof -
  have fr: "app w' = app w \<and> phases w' = phases w \<and> stderr w' = stderr w"
    using assms(4) by (rule w_heap_frame)
  have "owned (w\<lparr>heap := heap w'\<rparr>)"
    using assms(4) by (intro owned_write [OF assms(1-3)]) (rule w_heap_heap)
  then show ?thesis using fr by (auto intro: owned_frameI)
qed

lemma main_load_config_spec:
  assumes g: "good OptionsParsed w"
  shows "stage_spec (good ConfigLoaded) (main_load_config e w)"
proof (cases "config_filename (app w)")
  case None
  with g show ?thesis
    by (simp add: main_load_config_def stage_spec_def good_def run_ok_enter [OF _ lc_step.load_ok])
next
  case (Some fa)
  let ?ka = "next_addr (heap w)"
  let ?w2 = "set_app (\<lambda>c. c\<lparr>config_file := Some ?ka\<rparr>) (snd (w_alloc (OKeyFile []) w))"
  have r: "run_ok OptionsParsed w" and fr: "fresh_fields OptionsParsed (app w)"
    using g by (simp_all add: good_def)
  have o2: "owned ?w2"
    using r fr Some by (intro owned_assign_keyfile) (simp_all add: run_ok_def)
  have r2: "run_ok OptionsParsed ?w2" using r o2 by (simp add: run_ok_def)
  have ka: "objs (heap ?w2) ?ka = Some (OKeyFile [])" by (simp add: heap_alloc_def)
  obtain path where dp: "deref_string ?w2 (Some fa) = Inr path"
    using deref_string_owned [OF o2, of "Some fa" fa] Some by (auto simp: set_app_def)
  have eq: "main_load_config e w =
      on_fault ?w2 (deref_string ?w2 (Some fa)) (\<lambda>path.
        case g_key_file_load_from_file (env_files e) path of
          Inl err \<Rightarrow> Inl (fail_exit ''Failed to read configuration file: '' (Some err) ?w2)
        | Inr kf \<Rightarrow> on_fault ?w2 (w_heap ?w2 (heap_write ?ka (OKeyFile kf)))
                      (\<lambda>w3. Inr (enter ConfigLoaded w3)))"
    using Some by (simp add: main_load_config_def Let_def)
  show ?thesis unfolding eq
  proof (rule stage_spec_ok [OF dp])
    show "stage_spec (good ConfigLoaded)
           (case g_key_file_load_from_file (env_files e) path of
              Inl err \<Rightarrow> Inl (fail_exit ''Failed to read configuration file: '' (Some err) ?w2)
            | Inr kf \<Rightarrow> on_fault ?w2 (w_heap ?w2 (heap_write ?ka (OKeyFile kf)))
                          (\<lambda>w3. Inr (enter ConfigLoaded w3)))"
    proof (cases "g_key_file_load_from_file (env_files e) path")
      case (Inl err)
      then show ?thesis using fail_exit_ok [OF r2 lc_step.load_fail] by (simp add: stage_spec_def)
    next
      case (Inr kf)
      obtain w3 where wr: "w_heap ?w2 (heap_write ?ka (OKeyFile kf)) = Inr w3"
        using w_heap_write_Inr [OF ka] by blast
      have "stage_spec (good ConfigLoaded)
              (on_fault ?w2 (w_heap ?w2 (heap_write ?ka (OKeyFile kf))) (\<lambda>w3. Inr (enter ConfigLoaded w3)))"
      proof (rule stage_spec_ok [OF wr])
        from owned_w_heap_write [OF o2 ka _ wr]
        have "run_ok OptionsParsed w3" and "app w3 = app ?w2" using r2 by (auto simp: run_ok_def)
        then show "stage_spec (good ConfigLoaded) (Inr (enter ConfigLoaded w3))"
          using fr by (simp add: stage_spec_def good_def run_ok_enter [OF _ lc_step.load_ok])
      qed
      with Inr show ?thesis by simp
    qed
  qed
qed

text \<open>The device block: the lookup on a NULL key file sets no error, and the block then
  faults on \<^verbatim>\<open>err->message\<close>; this is the one fault \<open>finished_ok\<close> admits.\<close>

lemma main_read_device_spec:
  assumes g: "good ConfigLoaded w"
  shows "stage_spec device_named (main_read_device w)"
proof -
  have r: "run_ok ConfigLoaded w" and fr: "fresh_fields ConfigLoaded (app w)"
    using g by (simp_all add: good_def)
  obtain cfg where d: "deref_keyfile w (config_file (app w)) = Inr cfg"
    and cn: "cfg = None \<longleftrightarrow> config_file (app w) = None"
    using deref_keyfile_owned r by (auto simp: run_ok_def)
  show ?thesis unfolding main_read_device_def
  proof (rule stage_spec_ok [OF d])
    show "stage_spec device_named
            (case g_key_file_get_string cfg ''DMXPort'' ''Device'' of
               (None, err) \<Rightarrow> Inl (fail_exit ''No device: '' err w)
             | (Some dev, _) \<Rightarrow> (let (a, w1) = w_alloc (OString dev) w in
                  Inr (set_app (\<lambda>c. c\<lparr>dmx_device := Some a\<rparr>) w1)))"
    proof (cases "g_key_file_get_string cfg ''DMXPort'' ''Device''")
      case (Pair sv err)
      show ?thesis
      proof (cases sv)
        case None
        show ?thesis
        proof (cases cfg)
          case None
          then have "err = None" "config_file (app w) = None"
            using Pair cn by (simp_all add: g_key_file_get_string_def)
          then show ?thesis
            using Pair \<open>sv = None\<close> finished_ok_null [OF r]
            by (simp add: stage_spec_def fail_exit_def err_message_def)
        next
          case (Some f)
          then obtain e where "err = Some e"
            using Pair \<open>sv = None\<close> g_key_file_get_string_contract [of f "''DMXPort''" "''Device''"] by auto
          then show ?thesis
            using Pair \<open>sv = None\<close> fail_exit_ok [OF r lc_step.device_fail] by (simp add: stage_spec_def)
        qed
      next
        case (Some dev)
        let ?w1 = "set_app (\<lambda>c. c\<lparr>dmx_device := Some (next_addr (heap w))\<rparr>) (snd (w_alloc (OString dev) w))"
        have cfg: "cfg \<noteq> None" using Pair Some by (cases cfg) (simp_all add: g_key_file_get_string_def)
        have "owned ?w1"
          using r fr by (intro owned_assign_device) (simp_all add: run_ok_def)
        then have "device_named ?w1"
          using r fr cfg cn by (simp add: device_named_def run_ok_def set_app_def)
        then show ?thesis using Pair Some by (simp add: stage_spec_def)
      qed
    qed
  qed
qed

lemma ptr_kinds_speed [simp]: "ptr_kinds (c\<lparr>dmx_speed := n\<rparr>) = ptr_kinds c"
  by (simp add: ptr_kinds_def)

lemma owned_speed: "owned w \<Longrightarrow> owned (set_app (\<lambda>c. c\<lparr>dmx_speed := n\<rparr>) w)"
  by (simp add: owned_def app_ptrs_def)

lemma device_named_speed: "device_named w \<Longrightarrow> device_named (set_app (\<lambda>c. c\<lparr>dmx_speed := n\<rparr>) w)"
  by (simp add: device_named_def run_ok_def owned_speed)

lemma main_read_speed_spec:
  assumes d: "device_named w"
  shows "stage_spec device_named (main_read_speed w)"
proof -
  have r: "run_ok ConfigLoaded w" using d by (simp add: device_named_def)
  obtain cfg where dk: "deref_keyfile w (config_file (app w)) = Inr cfg"
    using deref_keyfile_owned r by (auto simp: run_ok_def)
  show ?thesis unfolding main_read_speed_def
  proof (rule stage_spec_ok [OF dk])
    obtain n err where ne: "g_key_file_get_integer cfg ''DMXPort'' ''Speed'' = (n, err)" by fastforce
    have d1: "device_named (set_app (\<lambda>c. c\<lparr>dmx_speed := n\<rparr>) w)" using d by (rule device_named_speed)
    show "stage_spec device_named
            (let (n, err) = g_key_file_get_integer cfg ''DMXPort'' ''Speed'';
                 w1 = set_app (\<lambda>c. c\<lparr>dmx_speed := n\<rparr>) w
             in Inr (if err \<noteq> None then set_app (\<lambda>c. c\<lparr>dmx_speed := 250000\<rparr>) w1 else w1))"
      using ne d1 device_named_speed [OF d1] by (simp add: stage_spec_def Let_def)
  qed
qed

lemma main_acquire_dmx_spec:
  assumes d: "device_named w"
  shows "stage_spec (\<lambda>w'. good DeviceAcquired w' \<and> config_file (app w') \<noteq> None) (main_acquire_dmx e w)"
proof -
  have r: "run_ok ConfigLoaded w" using d by (simp add: device_named_def)
  obtain a where da: "dmx_device (app w) = Some a" using d by (auto simp: device_named_def)
  obtain dev where dd: "deref_string w (dmx_device (app w)) = Inr dev"
    using deref_string_owned [of w "dmx_device (app w)" a] r da by (auto simp: run_ok_def)
  show ?thesis unfolding main_acquire_dmx_def
  proof (rule stage_spec_ok [OF dd])
    show "stage_spec (\<lambda>w'. good DeviceAcquired w' \<and> config_file (app w') \<noteq> None)
            (case env_dmx e dev of
               Some err \<Rightarrow> Inl (fail_exit ''Failed setup DMX port: '' (Some err) w)
             | None \<Rightarrow> (let (a, w1) = w_alloc (ODmxRecv dev) w in
                  Inr (enter DeviceAcquired (set_app (\<lambda>c. c\<lparr>dmx_recv := Some a\<rparr>) w1))))"
    proof (cases "env_dmx e dev")
      case (Some err)
      then show ?thesis using fail_exit_ok [OF r lc_step.device_fail] by (simp add: stage_spec_def)
    next
      case None
      let ?w1 = "set_app (\<lambda>c. c\<lparr>dmx_recv := Some (next_addr (heap w))\<rparr>) (snd (w_alloc (ODmxRecv dev) w))"
      have "owned ?w1"
        using d by (intro owned_assign_recv) (simp_all add: device_named_def run_ok_def)
      then have "run_ok ConfigLoaded ?w1" using r by (simp add: run_ok_def)
      then have "run_ok DeviceAcquired (enter DeviceAcquired ?w1)"
        by (rule run_ok_enter [OF _ lc_step.device_ok]) simp
      then show ?thesis using None d by (simp add: stage_spec_def good_def device_named_def)
    qed
  qed
qed


lemma main_setup_http_spec:
  assumes g: "good DeviceAcquired w \<and> config_file (app w) \<noteq> None"
  shows "stage_spec (\<lambda>w'. good ServerConfigured w' \<and> http_server (app w') \<noteq> None) (main_setup_http w)"
proof -
  let ?a = "next_addr (heap w)"
  let ?w2 = "set_app (\<lambda>c. c\<lparr>http_server := Some ?a\<rparr>) (snd (w_alloc (OHttpServer http_server_new) w))"
  have r: "run_ok DeviceAcquired w" and fr: "http_server (app w) = None"
    using g by (simp_all add: good_def)
  have own: "owned w" using r by (simp add: run_ok_def)
  obtain k kf where cf: "config_file (app w) = Some k" and kfo: "objs (heap w) k = Some (OKeyFile kf)"
    using g owned_types [OF own] by auto
  have wf: "heap_wf (heap w)" using own by (rule owned_wf)
  have ka: "k \<noteq> ?a" using heap_wf_live_below [OF wf kfo] by simp
  have o2: "owned ?w2" using r fr by (intro owned_assign_server) (simp_all add: run_ok_def)
  have r2: "run_ok DeviceAcquired ?w2" using r o2 by (simp add: run_ok_def)
  have cf2: "config_file (app ?w2) = Some k" using cf by (simp add: set_app_def)
  have kfo2: "objs (heap ?w2) k = Some (OKeyFile kf)" using kfo ka by (simp add: set_app_def heap_alloc_def)
  have sa2: "http_server (app ?w2) = Some ?a" by (simp add: set_app_def)
  have s2: "objs (heap ?w2) ?a = Some (OHttpServer http_server_new)" by (simp add: set_app_def heap_alloc_def)
  have wf2: "heap_wf (heap ?w2)" using wf by (simp add: set_app_def heap_alloc_wf)
  obtain w3 where c: "configure_http_server ?w2 = Inr w3"
    using configure_http_server_spec [OF cf2 kfo2 sa2 s2 wf2] by blast
  have eq: "main_setup_http w = on_fault ?w2 (configure_http_server ?w2) (\<lambda>w3. Inr (enter ServerConfigured w3))"
    by (simp add: main_setup_http_def Let_def)
  show ?thesis unfolding eq
  proof (rule stage_spec_ok [OF c])
    from configure_http_server_owned [OF o2 c]
    have "run_ok DeviceAcquired w3" and "http_server (app w3) = Some ?a"
      using r2 by (simp_all add: run_ok_def set_app_def)
    then show "stage_spec (\<lambda>w'. good ServerConfigured w' \<and> http_server (app w') \<noteq> None)
                 (Inr (enter ServerConfigured w3))"
      using run_ok_enter [OF _ lc_step.configure, of w3]
      by (simp add: stage_spec_def good_def)
  qed
qed

lemma distinct_somes_clear: "distinct (somes ps) \<Longrightarrow> distinct (somes (ps[i := None]))"
proof (induction ps arbitrary: i rule: somes.induct)
  case 1
  then show ?case by simp
next
  case (2 ps)
  then show ?case by (cases i) auto
next
  case (3 a ps)
  then show ?case by (cases i) (auto simp: set_somes dest: set_update_subset_insert [THEN subsetD])
qed

lemma in_set_update_other: "x \<in> set xs \<Longrightarrow> x \<noteq> xs ! i \<Longrightarrow> x \<in> set (xs[i := y])"
  by (metis in_set_conv_nth length_list_update nth_list_update_neq)

lemma distinct_somes_nth:
  "distinct (somes ps) \<Longrightarrow> i < length ps \<Longrightarrow> j < length ps \<Longrightarrow> ps ! i = Some a \<Longrightarrow> ps ! j = Some a \<Longrightarrow> i = j"
proof (induction ps arbitrary: i j rule: somes.induct)
  case 1
  then show ?case by simp
next
  case (2 ps)
  then show ?case by (cases i; cases j) auto
next
  case (3 b ps)
  then show ?case by (cases i; cases j) (auto simp: set_somes in_set_conv_nth)
qed

lemma owned_clear:
  assumes own: "owned w" and i: "i < length (ptr_kinds (app w))"
    and sa: "fst (ptr_kinds (app w) ! i) = Some a"
    and upd: "ptr_kinds (f (app w)) = (ptr_kinds (app w))[i := (None, snd (ptr_kinds (app w) ! i))]"
    and kf: "config_file (f (app w)) \<noteq> None \<longrightarrow> config_filename (f (app w)) \<noteq> None"
    and rel: "heap_release a (heap w) = Inr h"
  shows "owned (set_app f (w\<lparr>heap := h\<rparr>))"
proof -
  let ?ks = "ptr_kinds (app w)"
  have h: "h = (heap w)\<lparr>objs := (objs (heap w))(a := None)\<rparr>" using heap_release_Inr [OF rel] by simp
  have ptrs: "app_ptrs (f (app w)) = (app_ptrs (app w))[i := None]"
    using upd by (simp add: app_ptrs_def map_update)
  have li: "i < length (app_ptrs (app w))" and pi: "app_ptrs (app w) ! i = Some a"
    using i sa by (simp_all add: app_ptrs_def)
  have other: "fst (?ks ! j) \<noteq> Some a" if "j < length ?ks" "j \<noteq> i" for j
  proof
    assume "fst (?ks ! j) = Some a"
    then have "app_ptrs (app w) ! j = Some a" using that by (simp add: app_ptrs_def)
    with distinct_somes_nth [OF owned_distinct [OF own] li _ pi] that show False
      by (simp add: app_ptrs_def)
  qed
  show ?thesis
  proof (simp add: set_app_def, rule ownedI)
    show "heap_wf h" using owned_wf [OF own] rel by (rule heap_release_wf)
    show "distinct (somes (app_ptrs (f (app w))))"
      unfolding ptrs by (rule distinct_somes_clear [OF owned_distinct [OF own]])
    show "config_file (f (app w)) \<noteq> None \<Longrightarrow> config_filename (f (app w)) \<noteq> None" using kf by simp
  next
    fix pk assume "pk \<in> set (ptr_kinds (f (app w)))"
    then obtain j where j: "j < length ?ks" and pk: "pk = ?ks[i := (None, snd (?ks ! i))] ! j"
      using upd by (auto simp: in_set_conv_nth)
    show "points_to h (fst pk) (snd pk)"
    proof (cases "j = i")
      case True
      then show ?thesis using pk i by (simp add: points_to_def)
    next
      case False
      have "points_to (heap w) (fst (?ks ! j)) (snd (?ks ! j))"
        using owned_pts [OF own] j by simp
      then show ?thesis using pk False other [OF j False] unfolding h by (simp add: points_to_upd_other)
    qed
  next
    fix b x assume bx: "objs h b = Some x" and hx: "ctx_handle x"
    then have ba: "b \<noteq> a" and ox: "objs (heap w) b = Some x" using h by (auto split: if_splits)
    have "Some b \<in> set (app_ptrs (app w))" using owned_cov [OF own ox hx] .
    then show "Some b \<in> set (app_ptrs (f (app w)))"
      unfolding ptrs using ba pi by (intro in_set_update_other) simp_all
  qed
qed


lemma owned_clear_server:
  assumes "owned w" and "http_server (app w) = Some a" and "heap_release a (heap w) = Inr h"
  shows "owned (set_app (\<lambda>c. c\<lparr>http_server := None\<rparr>) (w\<lparr>heap := h\<rparr>))"
  using assms by (intro owned_clear [where i = 1]) (simp_all add: ptr_kinds_def owned_kf)

lemma main_start_http_spec:
  assumes g: "good ServerConfigured w \<and> http_server (app w) \<noteq> None"
  shows "stage_spec (\<lambda>w'. good ServerStarted w' \<or> good ServerDegraded w') (main_start_http e w)"
proof -
  have r: "run_ok ServerConfigured w" using g by (simp add: good_def)
  have own: "owned w" using r by (simp add: run_ok_def)
  obtain a s where sa: "http_server (app w) = Some a" and s: "objs (heap w) a = Some (OHttpServer s)"
    using g owned_types [OF own] by auto
  show ?thesis
  proof (cases "env_http e s")
    case (Some err)
    let ?w1 = "g_printerr (''Failed to setup HTTP server: '' @ gerror_message err) w"
    let ?h = "(heap w)\<lparr>objs := (objs (heap w))(a := None)\<rparr>"
    have r1: "run_ok ServerConfigured ?w1" using r by (rule run_ok_frameI) simp_all
    have eq: "main_start_http e w =
        on_fault ?w1 (g_clear_object (Some a) (heap ?w1)) (\<lambda>(p, h).
          Inr (enter ServerDegraded (set_app (\<lambda>c. c\<lparr>http_server := p\<rparr>) (?w1\<lparr>heap := h\<rparr>))))"
      using sa s Some by (simp add: main_start_http_def Let_def)
    have rel: "heap_release a (heap w) = Inr ?h" using s by (simp add: heap_release_def domIff)
    have cl: "g_clear_object (Some a) (heap ?w1) = Inr (None, ?h)"
      using rel by (simp add: g_clear_object_Some g_printerr_def)
    show ?thesis unfolding eq
    proof (rule stage_spec_ok [OF cl])
      have "owned (set_app (\<lambda>c. c\<lparr>http_server := None\<rparr>) (?w1\<lparr>heap := ?h\<rparr>))"
        using owned_clear_server [of ?w1 a ?h] r1 sa rel by (simp add: run_ok_def g_printerr_def)
      then have "run_ok ServerConfigured (set_app (\<lambda>c. c\<lparr>http_server := None\<rparr>) (?w1\<lparr>heap := ?h\<rparr>))"
        using r1 by (simp add: run_ok_def set_app_def)
      then have "run_ok ServerDegraded
          (enter ServerDegraded (set_app (\<lambda>c. c\<lparr>http_server := None\<rparr>) (?w1\<lparr>heap := ?h\<rparr>)))"
        by (rule run_ok_enter [OF _ lc_step.start_fail]) simp
      then show "stage_spec (\<lambda>w'. good ServerStarted w' \<or> good ServerDegraded w')
          (case (None, ?h) of (p, h) \<Rightarrow>
             Inr (enter ServerDegraded (set_app (\<lambda>c. c\<lparr>http_server := p\<rparr>) (?w1\<lparr>heap := h\<rparr>))))"
        by (simp add: stage_spec_def good_def)
    qed
  next
    case None
    have eq: "main_start_http e w =
        on_fault w (w_heap w (heap_write a (OHttpServer (s\<lparr>hs_listening := True\<rparr>))))
          (\<lambda>w1. Inr (enter ServerStarted w1))"
      using sa s None by (simp add: main_start_http_def)
    obtain w1 where wr: "w_heap w (heap_write a (OHttpServer (s\<lparr>hs_listening := True\<rparr>))) = Inr w1"
      using w_heap_write_Inr [OF s] by blast
    show ?thesis unfolding eq
    proof (rule stage_spec_ok [OF wr])
      from owned_w_heap_write [OF own s _ wr]
      have "run_ok ServerConfigured w1" using r by (simp add: run_ok_def)
      then have "run_ok ServerStarted (enter ServerStarted w1)"
        by (rule run_ok_enter [OF _ lc_step.start_ok]) simp
      then show "stage_spec (\<lambda>w'. good ServerStarted w' \<or> good ServerDegraded w')
          (Inr (enter ServerStarted w1))" by (simp add: stage_spec_def good_def)
    qed
  qed
qed

text \<open>The main loop object is allocated, written once and unreferenced: the loop block
  leaves the objects of the heap as it found them.\<close>

lemma main_loop_heap:
  assumes wf: "heap_wf (heap w)"
  shows "\<exists>w4. bindE (w_heap (enter Running (snd (w_alloc (OMainLoop g_main_loop_new) w)))
                   (heap_write (next_addr (heap w)) (OMainLoop l)))
               (\<lambda>w3. w_heap (enter ShuttingDown w3) (g_object_unref (next_addr (heap w)))) = Inr w4 \<and>
             objs (heap w4) = objs (heap w) \<and> next_addr (heap w) \<le> next_addr (heap w4) \<and>
             app w4 = app w \<and> stderr w4 = stderr w \<and> phases w4 = phases w @ [Running, ShuttingDown]"
proof -
  have free: "objs (heap w) (next_addr (heap w)) = None" using wf by (rule heap_wf_next_free)
  then show ?thesis
    by (simp add: w_alloc_def heap_alloc_def enter_def w_heap_def heap_write_def g_object_unref_def
        heap_release_def fun_upd_idem)
qed

lemma lc_trace_run:
  assumes "run_ok p w" and "lc_step p Running"
  shows "lc_trace (phases w @ [Running, ShuttingDown, Terminated])"
proof -
  have t0: "lc_trace (phases w)" and ne: "phases w \<noteq> []" and l: "last (phases w) = p"
    using assms(1) by (simp_all add: run_ok_def)
  have t1: "lc_trace (phases w @ [Running])" using lc_trace_snoc [OF t0 ne] l assms(2) by simp
  have t2: "lc_trace (phases w @ [Running] @ [ShuttingDown])"
    using lc_trace_snoc [OF t1] lc_step.interrupt by simp
  show ?thesis using lc_trace_snoc [OF t2] lc_step.teardown by simp
qed

lemma main_run_loop_exit:
  assumes r: "run_ok p w" and run: "g_main_loop_run g_main_loop_new (env_events e) = Some (l, rest)"
  shows "\<exists>w5. main_run_loop e w = Some (Exit EXIT_SUCCESS, enter Terminated w5) \<and>
              released (enter Terminated w5) \<and> phases w5 = phases w @ [Running, ShuttingDown]"
proof -
  have own: "owned w" using r by (simp add: run_ok_def)
  obtain w4 where w4: "bindE (w_heap (enter Running (snd (w_alloc (OMainLoop g_main_loop_new) w)))
                   (heap_write (next_addr (heap w)) (OMainLoop l)))
               (\<lambda>w3. w_heap (enter ShuttingDown w3) (g_object_unref (next_addr (heap w)))) = Inr w4"
    and o4: "objs (heap w4) = objs (heap w)" and n4: "next_addr (heap w) \<le> next_addr (heap w4)"
    and a4: "app w4 = app w" and p4: "phases w4 = phases w @ [Running, ShuttingDown]"
    using main_loop_heap [OF owned_wf [OF own]] by blast
  have "owned (w\<lparr>heap := heap w4\<rparr>)" using owned_bump [OF own o4 n4] .
  then have "owned w4" by (rule owned_frameI) (simp_all add: a4)
  then obtain w5 where c5: "app_cleanup w4 = Inr w5" and rel: "released w5" and p5: "phases w5 = phases w4"
    using app_cleanup_released by blast
  have "main_run_loop e w = Some (Exit EXIT_SUCCESS, enter Terminated w5)"
    using run w4 c5 by (simp add: main_run_loop_def Let_def)
  moreover have "released (enter Terminated w5)" using rel by (rule released_frameI) simp_all
  ultimately show ?thesis using p5 p4 by auto
qed

lemma main_run_loop_spec:
  assumes g: "good ServerStarted w \<or> good ServerDegraded w" and ok: "main_run_loop e w = Some r"
  shows "finished_ok r"
proof -
  obtain p where r: "run_ok p w" and st: "lc_step p Running"
    using g by (auto simp: good_def intro: lc_step.intros)
  from ok obtain l rest where run: "g_main_loop_run g_main_loop_new (env_events e) = Some (l, rest)"
    by (auto simp: main_run_loop_def Let_def split: option.splits prod.splits)
  obtain w5 where res: "main_run_loop e w = Some (Exit EXIT_SUCCESS, enter Terminated w5)"
    and rel: "released (enter Terminated w5)" and p5: "phases w5 = phases w @ [Running, ShuttingDown]"
    using main_run_loop_exit [OF r run] by blast
  have "lc_trace (phases w @ [Running, ShuttingDown, Terminated])" using r st by (rule lc_trace_run)
  moreover have "phases w \<noteq> [] \<and> hd (phases w) = Init" using r by (simp add: run_ok_def)
  ultimately show ?thesis using ok res rel p5 by (auto simp: finished_ok_def enter_def)
qed

lemma main_startup_spec:
  "stage_spec (\<lambda>w'. good ServerStarted w' \<or> good ServerDegraded w') (main_startup e)"
  unfolding main_startup_def
  apply (rule stage_spec_bind [OF main_parse_options_spec])
  apply (rule stage_spec_bind, erule main_load_config_spec)
  apply (rule stage_spec_bind, erule main_read_device_spec)
  apply (rule stage_spec_bind, erule main_read_speed_spec)
  apply (rule stage_spec_bind, erule main_acquire_dmx_spec)
  apply (rule stage_spec_bind, erule main_setup_http_spec)
  apply (erule main_start_http_spec)
  done

text \<open>C1. \<^verbatim>\<open>main\<close> refines the lifecycle specification: every run that returns
  passes through a sequence of lifecycle states allowed by the step relation, starting
  from \<open>Init\<close>. Every run that exits ends in \<open>Terminated\<close> with every handle of the
  context released and the owned strings freed, and exits with \<^verbatim>\<open>EXIT_SUCCESS\<close>
  exactly when it went through \<open>ShuttingDown\<close>. A run ended by a library is the help
  option, with status 0, in \<open>Init\<close>. And no run faults, except by the NULL dereference of
  \<^verbatim>\<open>err->message\<close> in the device block when no configuration file was loaded (C2):
  in particular teardown never frees twice and never uses a released handle.\<close>

theorem main_finished_ok:
  assumes "main e = Some r"
  shows "finished_ok r"
  using main_startup_spec [of e] assms
  by (auto simp: main_def stage_spec_def intro: main_run_loop_spec split: sum.splits)

text \<open>C23. The invariant at the main loop: when startup hands on a world, the context
  owns its handles, and the states passed form a run of the lifecycle from \<open>Init\<close> to
  \<open>ServerStarted\<close> or \<open>ServerDegraded\<close>.\<close>

theorem main_startup_invariant:
  "main_startup e = Inr w \<Longrightarrow>
   owned w \<and> lc_trace (phases w) \<and> hd (phases w) = Init \<and> last (phases w) \<in> {ServerStarted, ServerDegraded}"
  using main_startup_spec [of e] by (auto simp: stage_spec_def good_def run_ok_def)

end
