(* ===== verification/Behaviour.thy ===== *)
theory Behaviour
  imports Stages
begin

text \<open>
  The behaviour of single blocks of \<^verbatim>\<open>main.c\<close> on every branch that matters to the
  specification: degraded mode when the HTTP server does not start, the missing device,
  the speed, its default and its range, the port stored in a \<^verbatim>\<open>guint\<close>, the lookups
  on a NULL key file, the value tree, the property injector (absent keys skipped, present
  values leaked), the option parser, and the run loop after SIGINT.
\<close>

text \<open>C4. Degraded mode: when \<^verbatim>\<open>http_server_start\<close> fails, the block logs
  \<^verbatim>\<open>Failed to setup HTTP server: <message>\<close>, releases the server and clears the pointer,
  and the run continues in \<open>ServerDegraded\<close> (it does not exit).\<close>

theorem main_start_http_degrades:
  assumes sa: "http_server (app w) = Some a" and s: "objs (heap w) a = Some (OHttpServer s)"
    and err: "env_http e s = Some err"
  shows "\<exists>w'. main_start_http e w = Inr w' \<and> http_server (app w') = None \<and> \<not> live (heap w') a \<and>
              stderr w' = stderr w @ [''Failed to setup HTTP server: '' @ gerror_message err] \<and>
              phases w' = phases w @ [ServerDegraded]"
  using sa s err
  by (simp add: main_start_http_def on_fault_def g_clear_object_Some heap_release_def live_def
      g_printerr_def enter_def set_app_def Let_def domIff)

text \<open>C5. A configuration file without a \<^verbatim>\<open>DMXPort\<close> group: the run reports the missing
  group and exits with \<^verbatim>\<open>EXIT_FAILURE\<close> from \<open>ConfigLoaded\<close>, without any attempt to open
  the receiver or create the server.\<close>

theorem main_no_device_exit:
  assumes o: "g_option_context_parse app_options (env_argv e) = OptOk vals"
    and of: "map_of vals ''config-file'' = Some f"
    and l: "g_key_file_load_from_file (env_files e) f = Inr kf"
    and g: "map_of kf ''DMXPort'' = None"
  shows "\<exists>w. main e = Some (Exit EXIT_FAILURE, w) \<and>
             stderr w = [''No device: Key file does not have group '' @ glib_quote ''DMXPort''] \<and>
             phases w = [Init, OptionsParsed, ConfigLoaded, Terminated] \<and>
             dmx_recv (app w) = None \<and> http_server (app w) = None"
  using o of l g
  by (simp add: main_def main_startup_def main_parse_options_def app_init_def main_load_config_def main_read_device_def
      world_init_def app_ctxt_init_def w_alloc_def heap_alloc_def heap_empty_def w_heap_def
      heap_release_def heap_write_def on_fault_def enter_def deref_keyfile_def deref_string_def
      fail_exit_def err_message_def g_printerr_def set_app_def g_key_file_get_string_def kf_get_value_def
      app_cleanup_def g_free_def g_key_file_unref_def)

text \<open>C7. The speed block: the configured \<^verbatim>\<open>DMXPort.Speed\<close> when it is present and an
  integer, 250000 when it is absent or malformed; nothing else of the world changes.\<close>

theorem main_read_speed_value:
  assumes "config_file (app w) = Some k" and "objs (heap w) k = Some (OKeyFile kf)"
  shows "main_read_speed w =
           Inr (set_app (\<lambda>c. c\<lparr>dmx_speed :=
                  (case kf_get_value kf ''DMXPort'' ''Speed'' of
                     Inl _ \<Rightarrow> 250000
                   | Inr v \<Rightarrow> (case kf_parse_integer v of Inl _ \<Rightarrow> 250000 | Inr n \<Rightarrow> n))\<rparr>) w)"
  using deref_keyfile_at [OF assms]
  by (simp add: main_read_speed_def on_fault_def g_key_file_get_integer_def set_app_def
      split: sum.splits)

text \<open>C8. Every speed in the \<^verbatim>\<open>gint\<close> range written in decimal into the configuration is
  read back exactly.\<close>

theorem main_read_speed_roundtrip:
  assumes "config_file (app w) = Some k" and "objs (heap w) k = Some (OKeyFile kf)"
    and "kf_get_value kf ''DMXPort'' ''Speed'' = Inr (int_to_dec n)" and "in_gint_range n"
  shows "\<exists>w'. main_read_speed w = Inr w' \<and> dmx_speed (app w') = n"
  using deref_keyfile_at [OF assms(1,2)] assms(3) kf_parse_integer_int_to_dec [OF assms(4)]
  by (simp add: main_read_speed_def on_fault_def g_key_file_get_integer_def set_app_def)

text \<open>C26. A speed written in decimal but outside the \<^verbatim>\<open>gint\<close> range is rejected by
  \<^verbatim>\<open>g_key_file_get_integer\<close> (\<^verbatim>\<open>Integer value out of range\<close>), and the block falls back
  to the default 250000 rather than a truncated value; nothing else of the world changes.\<close>

theorem main_read_speed_out_of_range:
  assumes "config_file (app w) = Some k" and "objs (heap w) k = Some (OKeyFile kf)"
    and "kf_get_value kf ''DMXPort'' ''Speed'' = Inr (int_to_dec n)" and "\<not> in_gint_range n"
  shows "main_read_speed w = Inr (set_app (\<lambda>c. c\<lparr>dmx_speed := 250000\<rparr>) w)"
  using deref_keyfile_at [OF assms(1,2)] assms(3) kf_parse_integer_out_of_range [OF assms(4)]
  by (simp add: main_read_speed_def on_fault_def g_key_file_get_integer_def set_app_def)

text \<open>C32. Without a configuration file every lookup goes to a NULL \<^verbatim>\<open>GKeyFile\<close>, for which
  \<^verbatim>\<open>g_key_file_get_integer\<close> returns -1 and sets no error. The speed block then stores
  -1 instead of the default, and \<^verbatim>\<open>configure_http_server\<close> sets the port to -1 reduced
  to a \<^verbatim>\<open>guint\<close>, 4294967295, instead of keeping the server's default. Today these blocks
  are unreachable without a configuration file because the device block faults first
  (C2), so the defect is latent.\<close>

theorem null_config_integer_defaults:
  assumes cf: "config_file (app w) = None" and sa: "http_server (app w) = Some a"
    and s: "objs (heap w) a = Some (OHttpServer s)" and wf: "heap_wf (heap w)"
  shows "main_read_speed w = Inr (set_app (\<lambda>c. c\<lparr>dmx_speed := - 1\<rparr>) w) \<and>
         (\<exists>w' s'. configure_http_server w = Inr w' \<and> objs (heap w') a = Some (OHttpServer s') \<and>
                  hs_port s' = Some 4294967295)"
proof -
  have d: "deref_keyfile w (config_file (app w)) = Inr None" using cf by (simp add: deref_keyfile_def)
  have gi: "g_key_file_get_integer None grp key = (- 1, None)" for grp key
    by (simp add: g_key_file_get_integer_def)
  have cs: "configure_string_property (Some a) p None grp key w1 = Inr w1" for p grp key w1
    by (simp add: configure_string_property_def g_key_file_get_string_def)
  let ?s1 = "s\<lparr>hs_port := Some (word_of_int (- 1))\<rparr>"
  obtain w1 where c1: "g_object_set (Some a) ''http-port'' (GUInt (word_of_int (- 1))) w = Inr w1"
    and wf1: "heap_wf (heap w1)" and s1: "objs (heap w1) a = Some (OHttpServer ?s1)"
    using configure_http_port_step [OF wf s, of None "- 1"] by auto
  obtain w5 where c5: "set_value_root (Some a) w1 = Inr w5"
    and s5: "objs (heap w5) a = Some (OHttpServer (http_server_set_property ''value-root''
              (GJsonNode (json_builder_get_root (jb_run value_root_cmds json_builder_new))) ?s1))"
    using set_value_root_server [OF wf1 s1] by blast
  have "configure_http_server w = Inr w5"
    using d c1 c5 by (simp add: configure_http_server_def sa gi cs)
  moreover have "main_read_speed w = Inr (set_app (\<lambda>c. c\<lparr>dmx_speed := - 1\<rparr>) w)"
    using d by (simp add: main_read_speed_def on_fault_def gi)
  ultimately show ?thesis using s5 by simp
qed

text \<open>C9. The receiver is opened from the device name alone: the outcome of the acquisition
  block does not depend on \<^verbatim>\<open>dmx_speed\<close>, and the receiver it stores is the one for the
  device string.\<close>

theorem main_acquire_dmx_ignores_speed:
  assumes "main_acquire_dmx e w = Inr w'"
  shows "main_acquire_dmx e (set_app (\<lambda>c. c\<lparr>dmx_speed := n\<rparr>) w) = Inr (set_app (\<lambda>c. c\<lparr>dmx_speed := n\<rparr>) w') \<and>
         (\<exists>a dev. dmx_recv (app w') = Some a \<and> objs (heap w') a = Some (ODmxRecv dev) \<and>
                  deref_string w (dmx_device (app w)) = Inr dev)"
  using assms
  by (auto simp: main_acquire_dmx_def on_fault_def deref_string_def set_app_def enter_def w_alloc_def
      heap_alloc_def split: sum.splits option.splits obj.splits)

text \<open>C11. An empty \<^verbatim>\<open>Device=\<close> value is accepted as a device name: only a missing key
  stops the run.\<close>

theorem main_read_device_empty:
  assumes "config_file (app w) = Some k" and "objs (heap w) k = Some (OKeyFile kf)"
    and "kf_get_value kf ''DMXPort'' ''Device'' = Inr ''''"
  shows "\<exists>w'. main_read_device w = Inr w' \<and> deref_string w' (dmx_device (app w')) = Inr ''''"
  using deref_keyfile_at [OF assms(1,2)] assms(3)
  by (simp add: main_read_device_def on_fault_def g_key_file_get_string_def deref_string_def
      w_alloc_def heap_alloc_def set_app_def)

text \<open>C13. Property injection skips absent keys: the world, the target included, is left
  unchanged.\<close>

theorem configure_string_property_absent:
  "kf_get_value kf grp key = Inl err \<Longrightarrow> configure_string_property obj prop (Some kf) grp key w = Inr w"
  by (simp add: configure_string_property_def g_key_file_get_string_absent)

text \<open>C6. The port is a \<^verbatim>\<open>gint\<close> stored in a \<^verbatim>\<open>guint\<close>: the server's port is the parsed
  value reduced modulo \<open>2^32\<close>, so a negative \<^verbatim>\<open>Port\<close> wraps around; the later string
  properties and the value tree leave it in place.\<close>

theorem configure_http_server_port:
  assumes "config_file (app w) = Some k" and "objs (heap w) k = Some (OKeyFile kf)"
    and "http_server (app w) = Some a" and "objs (heap w) a = Some (OHttpServer s)"
    and "heap_wf (heap w)"
    and p: "kf_get_value kf ''HTTP'' ''Port'' = Inr v" and n: "kf_parse_integer v = Inr n"
  shows "\<exists>w' s'. configure_http_server w = Inr w' \<and> objs (heap w') a = Some (OHttpServer s') \<and>
           hs_port s' = Some (word_of_int n) \<and> uint (the (hs_port s')) = n mod 2 ^ 32"
proof -
  have "sc_port (read_server_config kf) = Some n"
    by (simp add: read_server_config_def g_key_file_get_integer_value [OF p] n)
  then show ?thesis
    using configure_http_server_spec [OF assms(1-5)] by (auto simp: apply_server_config_def uint_word_of_int)
qed

text \<open>C12. The value-tree block sets the server's value root to the object
  \<open>{foo: 78, bar: [3.1415, -1.41]}\<close>, keeps the port, and releases the builder.\<close>

theorem set_value_root_tree:
  assumes wf: "heap_wf (heap w)" and s: "objs (heap w) a = Some (OHttpServer s)"
  shows "\<exists>w' s'. set_value_root (Some a) w = Inr w' \<and> app w' = app w \<and>
           objs (heap w') a = Some (OHttpServer s') \<and>
           hs_value_root s' = Some (Some (JObject [(''foo'', JInt 78),
              (''bar'', JArray [JDouble (FloatLit 31415 4), JDouble (FloatLit (-141) 2)])])) \<and>
           hs_port s' = hs_port s \<and> \<not> live (heap w') (next_addr (heap w))"
  using set_value_root_server [OF wf s] by (auto simp: value_root_cmds_root)

text \<open>C10. \<^verbatim>\<open>configure_string_property\<close> leaks the string it reads: after it returns,
  the copy \<^verbatim>\<open>g_key_file_get_string\<close> allocated is still live and no pointer of the
  context refers to it.\<close>

theorem configure_string_property_leak:
  assumes own: "owned w" and sa: "http_server (app w) = Some a" and s: "objs (heap w) a = Some (OHttpServer s)"
    and v: "fst (g_key_file_get_string cfg grp key) = Some str"
  shows "\<exists>w'. configure_string_property (Some a) pn cfg grp key w = Inr w' \<and> app w' = app w \<and>
              objs (heap w') (next_addr (heap w)) = Some (OString str) \<and>
              Some (next_addr (heap w)) \<notin> set (app_ptrs (app w'))"
proof -
  have an: "a \<noteq> next_addr (heap w)" using heap_wf_live_below [OF owned_wf [OF own] s] by simp
  let ?w1 = "snd (w_alloc (OString str) w)"
  have s1: "objs (heap ?w1) a = Some (OHttpServer s)" using s an by (simp add: heap_alloc_def)
  have eq: "configure_string_property (Some a) pn cfg grp key w = g_object_set (Some a) pn (GString str) ?w1"
    using v by (simp add: configure_string_property_def Let_def)
  show ?thesis
    unfolding eq g_object_set_server [OF s1] using an owned_fresh [OF own]
    by (simp add: heap_alloc_def set_somes)
qed

lemma stage_events [simp]:
  "main_parse_options (e\<lparr>env_events := es\<rparr>) w = main_parse_options e w"
  "main_load_config (e\<lparr>env_events := es\<rparr>) w = main_load_config e w"
  "main_acquire_dmx (e\<lparr>env_events := es\<rparr>) w = main_acquire_dmx e w"
  "main_start_http (e\<lparr>env_events := es\<rparr>) w = main_start_http e w"
  by (simp_all add: main_parse_options_def main_load_config_def main_acquire_dmx_def main_start_http_def
      cong: option.case_cong sum.case_cong obj.case_cong)

lemma main_startup_events: "main_startup (e\<lparr>env_events := es\<rparr>) = main_startup e"
  by (simp add: main_startup_def)

text \<open>C15. \<^verbatim>\<open>main\<close> returns exactly when startup ends the run (an exit or a fault) or a
  SIGINT is delivered; otherwise it blocks in the main loop forever.\<close>

theorem main_returns:
  "main e \<noteq> None \<longleftrightarrow> (\<exists>r. main_startup e = Inl r) \<or> SIGINT \<in> set (env_events e)"
  by (cases "main_startup e")
     (simp_all add: main_def main_run_loop_def g_main_loop_run_eq Let_def split: prod.split)

text \<open>C16. Only the first SIGINT matters: \<^verbatim>\<open>main\<close> returns once it is delivered,
  the events before it do not touch the modelled state, and the ones after it (a second
  SIGINT included) are never dispatched, so the run is the same as with that single
  SIGINT.\<close>

theorem main_events_after_sigint:
  "SIGINT \<in> set es \<Longrightarrow>
   main (e\<lparr>env_events := es\<rparr>) \<noteq> None \<and> main (e\<lparr>env_events := es\<rparr>) = main (e\<lparr>env_events := [SIGINT]\<rparr>)"
  by (simp add: main_def main_startup_events main_run_loop_def g_main_loop_run_eq Let_def
      split: sum.split prod.split)

text \<open>C17. The configuration loader reads back what is written: for a well-formed key file
  printed into the file named by \<^verbatim>\<open>--config-file\<close>, the loading block stores exactly that
  key file in the new \<^verbatim>\<open>config_file\<close> and reaches \<open>ConfigLoaded\<close>.\<close>

theorem main_load_config_roundtrip:
  assumes fn: "config_filename (app w) = Some fa" and s: "objs (heap w) fa = Some (OString path)"
    and wf: "heap_wf (heap w)" and f: "env_files e path = Some (kf_print kf)" and kw: "kf_wf kf"
  shows "\<exists>w'. main_load_config e w = Inr w' \<and> config_file (app w') = Some (next_addr (heap w)) \<and>
              objs (heap w') (next_addr (heap w)) = Some (OKeyFile kf) \<and> last (phases w') = ConfigLoaded"
proof -
  have an: "fa \<noteq> next_addr (heap w)" using heap_wf_live_below [OF wf s] by simp
  have "g_key_file_load_from_file (env_files e) path = Inr kf"
    using f kf_parse_print [OF kw] by (simp add: g_key_file_load_from_file_def)
  then show ?thesis
    using fn s an
    by (simp add: main_load_config_def Let_def on_fault_def deref_string_def w_alloc_def heap_alloc_def
        set_app_def w_heap_def heap_write_def enter_def domIff)
qed

text \<open>C19. The file name the parser stores for \<^verbatim>\<open>config-file\<close> is the string
  \<^verbatim>\<open>app_ctxt.config_filename\<close> points to after the option block, which frees the option
  context and reaches \<open>OptionsParsed\<close>.\<close>

theorem main_parse_options_filename:
  assumes "g_option_context_parse app_options (env_argv e) = OptOk vals"
    and "map_of vals ''config-file'' = Some f"
  shows "\<exists>w. main_parse_options e world_init = Inr w \<and> deref_string w (config_filename (app w)) = Inr f \<and>
             \<not> live (heap w) 0 \<and> phases w = [Init, OptionsParsed]"
  using assms
  by (simp add: main_parse_options_def world_init_def app_ctxt_init_def app_init_def set_app_def w_alloc_def
      heap_alloc_def heap_empty_def w_heap_def heap_release_def on_fault_def enter_def deref_string_def
      live_def domIff)

text \<open>C31. Repeated options: when \<^verbatim>\<open>-c\<close> and \<^verbatim>\<open>--config-file\<close> are given several times,
  the last occurrence wins, and its file name is the one the option block stores.\<close>

theorem main_parse_options_last_wins:
  assumes "fs \<noteq> []" and "\<forall>sp \<in> set sps. sp \<in> {''--config-file'', ''-c''}" and "length sps = length fs"
  shows "\<exists>w. main_parse_options (e\<lparr>env_argv := concat (map (\<lambda>(sp, f). [sp, f]) (zip sps fs))\<rparr>) world_init =
               Inr w \<and> deref_string w (config_filename (app w)) = Inr (last fs)"
proof -
  have p: "g_option_context_parse app_options (concat (map (\<lambda>(sp, f). [sp, f]) (zip sps fs))) =
           OptOk (fold (AList.update ''config-file'') fs [])"
    using parse_config_pairs [OF assms(2,3), of "[]" "[]"] by (simp add: g_option_context_parse_def)
  have m: "map_of (fold (AList.update ''config-file'') fs []) ''config-file'' = Some (last fs)"
    using map_of_fold_update [OF assms(1)] .
  show ?thesis
    using p m
    by (simp add: main_parse_options_def world_init_def app_ctxt_init_def app_init_def set_app_def w_alloc_def
        heap_alloc_def heap_empty_def w_heap_def heap_release_def on_fault_def enter_def deref_string_def)
qed

text \<open>C20. A help option first on the command line ends the process inside the parser with
  status 0: \<^verbatim>\<open>main\<close> never returns, so the run stops in \<open>Init\<close> without passing
  through \<open>Terminated\<close>.\<close>

theorem main_help_halts:
  assumes "is_help_arg a"
  shows "\<exists>w. main (e\<lparr>env_argv := a # args\<rparr>) = Some (Halt EXIT_SUCCESS, w) \<and> phases w = [Init] \<and>
             stderr w = []"
  using parse_help [OF assms]
  by (simp add: main_def main_startup_def main_parse_options_def world_init_def w_alloc_def heap_alloc_def)

text \<open>C21. An option given without its value is a parse error: the run reports
  \<^verbatim>\<open>Missing argument for\<close> the option and exits with \<^verbatim>\<open>EXIT_FAILURE\<close>.\<close>

theorem main_missing_argument:
  assumes "a \<in> {''--config-file'', ''-c''}"
  shows "\<exists>w. main (e\<lparr>env_argv := [a]\<rparr>) = Some (Exit EXIT_FAILURE, w) \<and>
             stderr w = [''Failed to parse options: Missing argument for '' @ a] \<and> phases w = [Init, Terminated]"
  using parse_missing [OF assms]
  by (simp add: main_def main_startup_def main_parse_options_def opt_missing_def fail_exit_def
      err_message_def g_printerr_def app_cleanup_def world_init_def app_ctxt_init_def w_alloc_def
      heap_alloc_def enter_def)

text \<open>C14. Every parse error of the command line: the run reports GLib's message after the
  prefix of \<^verbatim>\<open>main.c\<close> and exits with \<^verbatim>\<open>EXIT_FAILURE\<close> straight from \<open>Init\<close>. The
  block returns before \<^verbatim>\<open>g_option_context_free\<close> and never frees the error, so exactly
  two objects stay allocated: the option context and the \<^verbatim>\<open>GError\<close>.\<close>

theorem main_parse_error_leaks:
  assumes "g_option_context_parse app_options (env_argv e) = OptErr err"
  shows "\<exists>w. main e = Some (Exit EXIT_FAILURE, w) \<and>
             stderr w = [''Failed to parse options: '' @ gerror_message err] \<and>
             phases w = [Init, Terminated] \<and>
             objs (heap w) = [0 \<mapsto> OOptionContext, 1 \<mapsto> OGError err]"
  using assms
  by (simp add: main_def main_startup_def main_parse_options_def fail_exit_def
      err_message_def g_printerr_def app_cleanup_def world_init_def app_ctxt_init_def w_alloc_def
      heap_alloc_def heap_empty_def enter_def)

text \<open>C24. A configuration file that does not exist: the run reports GLib's message (the
  \<^verbatim>\<open>strerror\<close> text alone) and exits with \<^verbatim>\<open>EXIT_FAILURE\<close> from \<open>OptionsParsed\<close>.
  Teardown releases the file name, the key file and the option context, and the only object
  still allocated is the \<^verbatim>\<open>GError\<close> the loader set, which the block never frees.\<close>

theorem main_config_missing_exit:
  assumes o: "g_option_context_parse app_options (env_argv e) = OptOk vals"
    and f: "map_of vals ''config-file'' = Some f" and n: "env_files e f = None"
  shows "\<exists>w. main e = Some (Exit EXIT_FAILURE, w) \<and>
             stderr w = [''Failed to read configuration file: No such file or directory''] \<and>
             phases w = [Init, OptionsParsed, Terminated] \<and>
             (\<exists>a. objs (heap w) = [a \<mapsto> OGError (GError FILE_ERROR_NOENT ''No such file or directory'')])"
  using o f n
  by (simp add: main_def main_startup_def main_parse_options_def main_load_config_def app_init_def
      world_init_def app_ctxt_init_def w_alloc_def heap_alloc_def heap_empty_def w_heap_def
      heap_release_def on_fault_def enter_def deref_string_def g_key_file_load_from_file_def
      fail_exit_def err_message_def g_printerr_def set_app_def app_cleanup_def g_free_def
      g_key_file_unref_def) blast

text \<open>C25. When \<^verbatim>\<open>dmx_recv_new\<close> fails, the run reports it, tears the context down and
  exits with \<^verbatim>\<open>EXIT_FAILURE\<close>, with every handle released.\<close>

theorem main_acquire_dmx_failure:
  assumes own: "owned w" and d: "deref_string w (dmx_device (app w)) = Inr dev"
    and err: "env_dmx e dev = Some err"
  shows "\<exists>w'. main_acquire_dmx e w = Inl (Exit EXIT_FAILURE, w') \<and>
              stderr w' = stderr w @ [''Failed setup DMX port: '' @ gerror_message err] \<and>
              released w' \<and> phases w' = phases w @ [Terminated]"
proof -
  let ?w1 = "g_printerr (''Failed setup DMX port: '' @ gerror_message err) (snd (w_alloc (OGError err) w))"
  have "owned (snd (w_alloc (OGError err) w))" using own by (rule owned_alloc) simp
  then have "owned ?w1" by (rule owned_frameI) (simp_all add: g_printerr_def)
  then obtain w2 where c: "app_cleanup ?w1 = Inr w2" and r: "released w2"
    and s: "stderr w2 = stderr ?w1" and p: "phases w2 = phases ?w1"
    using app_cleanup_released by blast
  have "released (enter Terminated w2)" using r by (rule released_frameI) simp_all
  then show ?thesis
    using d err c s p
    by (simp add: main_acquire_dmx_def on_fault_def fail_exit_def err_message_def g_printerr_def enter_def
        w_alloc_def heap_alloc_def)
qed


text \<open>The blocks of \<^verbatim>\<open>main\<close> before the server, on a run whose options, file, device
  and receiver all succeed.\<close>

lemma startup_to_device:
  assumes o: "g_option_context_parse app_options (env_argv e) = OptOk vals"
    and of: "map_of vals ''config-file'' = Some f"
    and l: "g_key_file_load_from_file (env_files e) f = Inr kf"
    and d: "g_key_file_get_string (Some kf) ''DMXPort'' ''Device'' = (Some dev, err)"
    and r: "env_dmx e dev = None"
  shows "\<exists>w5 k. bindE (main_parse_options e world_init) (\<lambda>w1. bindE (main_load_config e w1) (\<lambda>w2.
           bindE (main_read_device w2) (\<lambda>w3. bindE (main_read_speed w3) (\<lambda>w4. main_acquire_dmx e w4)))) = Inr w5 \<and>
         config_file (app w5) = Some k \<and> objs (heap w5) k = Some (OKeyFile kf) \<and> heap_wf (heap w5) \<and>
         dmx_speed (app w5) = (case g_key_file_get_integer (Some kf) ''DMXPort'' ''Speed'' of
                                 (n, None) \<Rightarrow> n | _ \<Rightarrow> 250000) \<and>
         phases w5 = [Init, OptionsParsed, ConfigLoaded, DeviceAcquired]"
  using o of l d r
  by (simp add: main_parse_options_def app_init_def main_load_config_def main_read_device_def
      main_read_speed_def main_acquire_dmx_def
      world_init_def app_ctxt_init_def w_alloc_def heap_alloc_def heap_empty_def w_heap_def
      heap_release_def heap_write_def on_fault_def enter_def deref_keyfile_def deref_string_def
      set_app_def heap_wf_def split: prod.split option.split)


text \<open>The startup of a run whose options, file, device, receiver and server all succeed.\<close>

lemma main_startup_server:
  assumes o: "g_option_context_parse app_options (env_argv e) = OptOk vals"
    and of: "map_of vals ''config-file'' = Some f"
    and l: "g_key_file_load_from_file (env_files e) f = Inr kf"
    and d: "g_key_file_get_string (Some kf) ''DMXPort'' ''Device'' = (Some dev, err)"
    and r: "env_dmx e dev = None"
    and h: "env_http e (apply_server_config (read_server_config kf) http_server_new) = None"
  shows "\<exists>w a. main_startup e = Inr w \<and> http_server (app w) = Some a \<and>
           objs (heap w) a = Some (OHttpServer
             ((apply_server_config (read_server_config kf) http_server_new)\<lparr>hs_listening := True\<rparr>)) \<and>
           dmx_speed (app w) = (case g_key_file_get_integer (Some kf) ''DMXPort'' ''Speed'' of
                                  (n, None) \<Rightarrow> n | _ \<Rightarrow> 250000) \<and>
           phases w = [Init, OptionsParsed, ConfigLoaded, DeviceAcquired, ServerConfigured, ServerStarted]"
proof -
  let ?srv = "apply_server_config (read_server_config kf) http_server_new"
  obtain w5 k where c5: "bindE (main_parse_options e world_init) (\<lambda>w1. bindE (main_load_config e w1) (\<lambda>w2.
           bindE (main_read_device w2) (\<lambda>w3. bindE (main_read_speed w3) (\<lambda>w4. main_acquire_dmx e w4)))) = Inr w5"
    and cf: "config_file (app w5) = Some k" and kfo: "objs (heap w5) k = Some (OKeyFile kf)"
    and wf: "heap_wf (heap w5)"
    and sp: "dmx_speed (app w5) = (case g_key_file_get_integer (Some kf) ''DMXPort'' ''Speed'' of
                                     (n, None) \<Rightarrow> n | _ \<Rightarrow> 250000)"
    and ph: "phases w5 = [Init, OptionsParsed, ConfigLoaded, DeviceAcquired]"
    using startup_to_device [OF o of l d r] by blast
  obtain w6 where s6: "main_setup_http w5 = Inr w6" and hs: "http_server (app w6) = Some (next_addr (heap w5))"
    and o6: "objs (heap w6) (next_addr (heap w5)) = Some (OHttpServer ?srv)"
    and ph6: "phases w6 = phases w5 @ [ServerConfigured]"
    and a6: "app w6 = (app w5)\<lparr>http_server := Some (next_addr (heap w5))\<rparr>"
    using main_setup_http_config [OF cf kfo wf] by blast
  have c5': "bindE (bindE (bindE (bindE (main_parse_options e world_init) (main_load_config e))
               main_read_device) main_read_speed) (main_acquire_dmx e) = Inr w5"
    using c5 by (simp add: bindE_assoc)
  have "main_startup e = bindE (main_setup_http w5) (main_start_http e)"
    unfolding main_startup_def bindE_assoc [symmetric] c5' by simp
  also have "\<dots> = Inr (enter ServerStarted (w6\<lparr>heap := (heap w6)\<lparr>objs := (objs (heap w6))
                 (next_addr (heap w5) \<mapsto> OHttpServer (?srv\<lparr>hs_listening := True\<rparr>))\<rparr>\<rparr>))"
    using s6 hs o6 h by (simp add: main_start_http_def on_fault_def w_heap_def heap_write_def domIff)
  finally show ?thesis using hs a6 sp ph6 ph by (simp add: enter_def)
qed

text \<open>C33. The startup sequence composes the configuration store, the property injector
  and the server (spec 4.4 steps 1-5, the end-to-end scenario of spec 8): when the options
  name a file that loads, the file names a device that opens and the configured server
  starts, startup passes through every state up to \<open>ServerStarted\<close>, the receiver runs
  at the configured speed or 250000, and the started server holds exactly the typed
  configuration read from the file.\<close>

theorem main_startup_configures_server:
  assumes o: "g_option_context_parse app_options (env_argv e) = OptOk vals"
    and of: "map_of vals ''config-file'' = Some f"
    and l: "g_key_file_load_from_file (env_files e) f = Inr kf"
    and d: "g_key_file_get_string (Some kf) ''DMXPort'' ''Device'' = (Some dev, err)"
    and r: "env_dmx e dev = None"
    and h: "env_http e (apply_server_config (read_server_config kf) http_server_new) = None"
  shows "\<exists>w a. main_startup e = Inr w \<and> http_server (app w) = Some a \<and>
           objs (heap w) a = Some (OHttpServer
             ((apply_server_config (read_server_config kf) http_server_new)\<lparr>hs_listening := True\<rparr>)) \<and>
           dmx_speed (app w) = (case g_key_file_get_integer (Some kf) ''DMXPort'' ''Speed'' of
                                  (n, None) \<Rightarrow> n | _ \<Rightarrow> 250000) \<and>
           phases w = [Init, OptionsParsed, ConfigLoaded, DeviceAcquired, ServerConfigured, ServerStarted]"
  using main_startup_server [OF assms] .

text \<open>C34. Liveness of the whole program on the specified run (spec 4.4 steps 6-7 and the
  end-to-end scenario of spec 8): under the conditions of C33, once a SIGINT is among the
  delivered events \<^verbatim>\<open>main\<close> returns \<^verbatim>\<open>EXIT_SUCCESS\<close>, after passing through
  \<open>Running\<close>, \<open>ShuttingDown\<close> and \<open>Terminated\<close>, with every handle released.\<close>

theorem main_sigint_clean_exit:
  assumes o: "g_option_context_parse app_options (env_argv e) = OptOk vals"
    and of: "map_of vals ''config-file'' = Some f"
    and l: "g_key_file_load_from_file (env_files e) f = Inr kf"
    and d: "g_key_file_get_string (Some kf) ''DMXPort'' ''Device'' = (Some dev, err)"
    and r: "env_dmx e dev = None"
    and h: "env_http e (apply_server_config (read_server_config kf) http_server_new) = None"
    and sig: "SIGINT \<in> set (env_events e)"
  shows "\<exists>w. main e = Some (Exit EXIT_SUCCESS, w) \<and> released w \<and>
           phases w = [Init, OptionsParsed, ConfigLoaded, DeviceAcquired, ServerConfigured, ServerStarted,
                       Running, ShuttingDown, Terminated]"
proof -
  obtain w where s: "main_startup e = Inr w"
    and ph: "phases w = [Init, OptionsParsed, ConfigLoaded, DeviceAcquired, ServerConfigured, ServerStarted]"
    using main_startup_server [OF o of l d r h] by blast
  have "good ServerStarted w \<or> good ServerDegraded w"
    using main_startup_spec [of e] s by (simp add: stage_spec_def)
  then obtain p where rk: "run_ok p w" by (auto simp: good_def)
  obtain l rest where run: "g_main_loop_run g_main_loop_new (env_events e) = Some (l, rest)"
    using sig by (simp add: g_main_loop_run_eq)
  obtain w5 where m: "main_run_loop e w = Some (Exit EXIT_SUCCESS, enter Terminated w5)"
    and rel: "released (enter Terminated w5)" and p5: "phases w5 = phases w @ [Running, ShuttingDown]"
    using main_run_loop_exit [OF rk run] by blast
  show ?thesis using s m rel p5 ph by (simp add: main_def enter_def)
qed

end
