(* ===== verification/Spec2Isabelle.thy ===== *)
theory Spec2Isabelle
  imports Behaviour
begin

text \<open>
  Verification development of dmx2c2ip. The program is one C file,
  \<^verbatim>\<open>src/src/main.c\<close>. It parses \<^verbatim>\<open>--config-file\<close> and loads a GLib key file. It
  opens a DMX receiver on the device named by \<^verbatim>\<open>[DMXPort] Device\<close> and creates an HTTP
  server. It configures the server's port, user, password, root and a static JSON value
  tree, and tries to start it. It then runs a GLib main loop until SIGINT and releases its
  handles in \<^verbatim>\<open>app_cleanup\<close>. Every fatal startup failure prints a diagnostic built from
  \<^verbatim>\<open>err->message\<close>, runs \<^verbatim>\<open>app_cleanup\<close> and returns \<^verbatim>\<open>EXIT_FAILURE\<close>.

  \<^bold>\<open>Theories.\<close>
  \<^item> \<open>Prelude\<close>: the object heap. Objects live at addresses, NULL is \<open>None\<close>; freeing a
    dead address is the fault \<open>Double_free\<close>, writing one is \<open>Use_after_free\<close>. It also
    models the GLib release functions \<^verbatim>\<open>g_free\<close>, \<^verbatim>\<open>g_clear_object\<close>,
    \<^verbatim>\<open>g_object_unref\<close> and \<^verbatim>\<open>g_key_file_unref\<close>, the error-or-value bind \<open>bindE\<close>, and
    the character classes.
  \<^item> \<open>KeyFile\<close>: GLib's \<^verbatim>\<open>GKeyFile\<close> as the program uses it. This covers the line
    parser of \<^verbatim>\<open>g_key_file_load_from_file\<close>, the lookups with their error codes, the
    UTF-8 validator, the \<^verbatim>\<open>strtol\<close>-based integer parser with its \<^verbatim>\<open>gint\<close> range
    check, and the decimal printer used for round trips. A key-file printer \<open>kf_print\<close>
    comes with the proof that the loader reads every well-formed key file back, and GLib's
    escaping of string values \<open>kf_escape\<close> with the proofs that it keeps a UTF-8 string
    valid and that the string getter undoes it. The printers are the writer side of these
    round trips; the program itself never writes a key file. It is modelled from GLib's
    documented behaviour, since the library is not in the sources.
  \<^item> \<open>Json\<close>: the \<^verbatim>\<open>JsonBuilder\<close> calls as a stack machine. \<open>value_root_cmds\<close> is the
    call sequence of \<^verbatim>\<open>main.c\<close> lines 86-94. It has a builder invariant and an
    emit/run round trip.
  \<^item> \<open>Options\<close>: the option table \<^verbatim>\<open>app_options\<close> (lines 101-105) and
    \<^verbatim>\<open>g_option_context_parse\<close> over the arguments: long, short and \<^verbatim>\<open>--name=value\<close>
    spellings, \<^verbatim>\<open>--\<close>, the help options that call \<^verbatim>\<open>exit (0)\<close>, and the unknown-option
    and missing-value errors.
  \<^item> \<open>HttpServer\<close>: the properties of the \<^verbatim>\<open>HTTPServer\<close> object that \<^verbatim>\<open>main.c\<close> sets.
  \<^item> \<open>RunLoop\<close>: \<^verbatim>\<open>GMainLoop\<close> and \<^verbatim>\<open>sigint_handler\<close> (lines 9-14). The loop runs over
    the finite list of events delivered to the process. Running out of events without a
    SIGINT means the loop never returns, which is the value \<open>None\<close>, so no fuel is needed.
  \<^item> \<open>Lifecycle\<close>: the specified lifecycle (spec 4.4) as an inductive step relation.
  \<^item> \<open>App\<close>: \<^verbatim>\<open>struct AppContext\<close> and \<^verbatim>\<open>app_ctxt\<close> (lines 16-34),
    \<^verbatim>\<open>app_cleanup\<close> (41-50), \<^verbatim>\<open>configure_string_property\<close> (52-64),
    \<^verbatim>\<open>configure_http_server\<close> (66-98), and \<^verbatim>\<open>main\<close> (107-168). \<^verbatim>\<open>main\<close> is split at its
    blocks: \<open>main_parse_options\<close>, \<open>main_load_config\<close>, \<open>main_read_device\<close>,
    \<open>main_read_speed\<close>, \<open>main_acquire_dmx\<close>, \<open>main_setup_http\<close>, \<open>main_start_http\<close>
    (together \<open>main_startup\<close>) and \<open>main_run_loop\<close>. A run's state is a \<open>world\<close>: the heap,
    \<^verbatim>\<open>app_ctxt\<close>, the lines written to standard error, and a ghost list of the lifecycle
    states passed. The collaborators are an \<open>env\<close> record: the command-line arguments, the
    file system, the results of \<^verbatim>\<open>dmx_recv_new\<close> and \<^verbatim>\<open>http_server_start\<close>, and the
    delivered events. A block returns \<open>Inl\<close> for a finished run and \<open>Inr\<close> for the world
    handed to the next block. A run finishes with \<open>Exit\<close> (\<^verbatim>\<open>main\<close> returns), \<open>Halt\<close>
    (a library calls \<^verbatim>\<open>exit\<close>) or \<open>Crash\<close> (a fault).
  \<^item> \<open>Ownership\<close>: the invariant \<open>owned\<close> of the context and its preservation by every
    operation that allocates, writes or releases. It includes the fact that
    \<^verbatim>\<open>app_cleanup\<close> on an owned context releases every handle (\<open>app_cleanup_released\<close>)
    and gives the same result as the spec's reverse-order teardown \<open>teardown_reverse\<close>.
  \<^item> \<open>HttpConfig\<close>: the typed server configuration the spec asks for in place of
    string-keyed injection (spec 7): \<open>read_server_config\<close> reads it from the key file and
    \<open>apply_server_config\<close> assigns it field by field, an absent option keeping the
    server's value. The frame lemmas of the injector calls (\<open>heap_frame\<close>: no other
    live object changes) compose to the refinement of \<^verbatim>\<open>configure_http_server\<close> and
    of the server block of \<^verbatim>\<open>main\<close> to this contract.
  \<^item> \<open>Stages\<close>: one lemma per block of \<^verbatim>\<open>main\<close> against the lifecycle, composed into the
    refinement theorem \<open>main_finished_ok\<close>. Each lemma also proves that the block's
    faultable calls (frees, writes, dereferences) succeed.
  \<^item> \<open>Behaviour\<close>: the functional behaviour of single blocks on the branches the
    specification speaks of.
  \<^item> This theory: concrete configurations and contexts, and the witnesses of the theorems
    with hypotheses, each evaluated by \<open>simp\<close> or \<open>code_simp\<close>.

  \<^bold>\<open>Heap objects.\<close> Every object the program allocates is a heap object: the option
  context, the file-name and device strings, the key file, the receiver, the server, the
  JSON builder, the root \<^verbatim>\<open>JsonNode\<close> returned by \<^verbatim>\<open>json_builder_get_root\<close> (owned
  by the caller, line 96) and each \<^verbatim>\<open>GError\<close> a failing GLib call sets. Messages of
  GLib's errors are GLib's own texts, names quoted with the typographic quotes GLib uses
  (\<open>glib_quote\<close>); a missing file reports the \<^verbatim>\<open>strerror\<close> text alone. The
  string getter checks that the raw value is UTF-8 (\<open>g_utf8_validate\<close>) before it
  decodes its escapes, as GLib does.

  \<^bold>\<open>Results.\<close> \<open>main\<close> refines the lifecycle machine. Every exit releases the receiver,
  the server and the key file, frees the owned strings, and reports success exactly after
  shutdown; no run faults except by the NULL dereference of C2 (C1). \<open>main\<close> returns
  exactly when startup ends the run or a SIGINT arrives (C15). Events after the first
  SIGINT are never dispatched (C16). The loading block stores exactly the key file written
  into the configuration file (C17). The three spellings of the option are equivalent
  (C18). After startup the context satisfies the ownership invariant (C23). The code's
  teardown order is equivalent to the spec's (C22). The server block, with its generic
  property injection, implements the typed configuration of the spec and touches no other
  object (C28); a missing or malformed port keeps the server's default (C27), and a speed
  out of the \<^verbatim>\<open>gint\<close> range falls back to 250000 (C26). Credentials of any content reach
  the server unchanged (C30). The last of several \<^verbatim>\<open>--config-file\<close> options wins (C31).
  On a run where every collaborator succeeds, startup composes the store, the injector
  and the server into exactly the configured, started server (C33), and the first SIGINT
  leads to a successful exit with everything released (C34). Each fatal path exits with
  a diagnostic: a parse error (C14, C21), a missing file (C24), a missing device (C5), a
  failed receiver (C25). The modelling also exposes several defects:
  \<^item> without a configuration file the device lookup leaves the error unset and the
    diagnostic dereferences NULL (C2);
  \<^item> \<^verbatim>\<open>app_cleanup\<close> is not idempotent (C3);
  \<^item> the speed is read but never passed to the receiver (C9);
  \<^item> the port wraps modulo \<open>2^32\<close> (C6);
  \<^item> leaks: the injected strings (C10), the root node and one string per present
    credential or root (C29), and on every fatal path the \<^verbatim>\<open>GError\<close>, never freed
    (C14, C24); a parse error also leaks the option context (C14);
  \<^item> without a configuration file the integer lookups return -1 with no error, so the
    speed would be -1 and the port 4294967295 instead of their defaults; this is hidden
    behind the NULL dereference of C2 (C32);
  \<^item> an empty device name is accepted (C11);
  \<^item> \<^verbatim>\<open>--help\<close> ends the process inside the option parser, outside the specified
    lifecycle (C20).

  \<^bold>\<open>Not modelled.\<close> The receiver and the HTTP server's serving are external
  subsystems. Their creation results are part of the environment, and the server's
  property setter (\<^verbatim>\<open>httpd.c\<close>, not in the sources) is modelled as accepting every value
  of the property's type. \<^verbatim>\<open>g_debug\<close>, \<^verbatim>\<open>g_type_init\<close> and the empty \<^verbatim>\<open>app_init\<close> have
  no effect on the modelled state. Reference counting is modelled as one reference per
  object, which is the program's usage. A NUL byte inside a line of the configuration
  file, where the C strings would end, is not modelled. Option parsing covers the entry kind the table uses (a file
  name); grouped short options such as \<^verbatim>\<open>-xc\<close> are refused as unknown rather than split.\<close>

section \<open>Configurations and contexts of the scenarios\<close>

definition cfg1 :: filesystem where
  "cfg1 = [''/etc/d.conf'' \<mapsto> [''[DMXPort]'', ''Device=/dev/ttyUSB0'', ''[HTTP]'', ''Port=8080'']]"

text \<open>The environment of the end-to-end scenario of the specification: the configuration
  file is given, the device opens, the server starts, and SIGINT arrives after one other
  event (and once more, never dispatched).\<close>

definition e1 :: env where
  "e1 = \<lparr>env_argv = [''--config-file'', ''/etc/d.conf''], env_files = cfg1, env_dmx = (\<lambda>_. None),
         env_http = (\<lambda>_. None), env_events = [IO_EVENT, SIGINT, SIGINT]\<rparr>"

text \<open>A context holding a configuration file name and its key file.\<close>

definition w_config :: world where
  "w_config =
     world_init\<lparr>heap := \<lparr>objs = [0 \<mapsto> OString ''/etc/d.conf'', 1 \<mapsto> OKeyFile []], next_addr = 2\<rparr>,
                app := app_ctxt_init\<lparr>config_filename := Some 0, config_file := Some 1\<rparr>\<rparr>"

text \<open>A context in the middle of startup: file name, key file, device name and server
  allocated at addresses 10 to 13.\<close>

definition kf1 :: keyfile where
  "kf1 = [(''DMXPort'', [(''Device'', ''/dev/ttyUSB0''), (''Speed'', ''-5'')]),
          (''HTTP'', [(''Port'', ''-1''), (''User'', ''admin'')])]"

definition w_srv :: world where
  "w_srv =
     world_init\<lparr>heap := \<lparr>objs = [10 \<mapsto> OString ''/etc/d.conf'', 11 \<mapsto> OKeyFile kf1,
                                 12 \<mapsto> OString ''/dev/ttyUSB0'', 13 \<mapsto> OHttpServer http_server_new],
                         next_addr = 14\<rparr>,
                app := app_ctxt_init\<lparr>config_filename := Some 10, config_file := Some 11,
                                     dmx_device := Some 12, http_server := Some 13\<rparr>\<rparr>"

definition e_httpfail :: env where
  "e_httpfail = \<lparr>env_argv = [], env_files = Map.empty, env_dmx = (\<lambda>_. None),
                 env_http = (\<lambda>_. Some (GError HTTP_ERROR ''bind failed'')), env_events = [SIGINT]\<rparr>"

definition e_kf1 :: env where
  "e_kf1 = e_httpfail\<lparr>env_files := [''/etc/d.conf'' \<mapsto> kf_print kf1]\<rparr>"

definition e_missing :: env where
  "e_missing = e_httpfail\<lparr>env_argv := [''-c'', ''/etc/none.conf'']\<rparr>"

definition e_dmxfail :: env where
  "e_dmxfail = e_httpfail\<lparr>env_dmx := (\<lambda>_. Some (GError DMX_ERROR ''cannot open device''))\<rparr>"

definition kf_nodev :: keyfile where "kf_nodev = [(''HTTP'', [(''Port'', ''80'')])]"

definition e_nodev :: env where
  "e_nodev = e_httpfail\<lparr>env_argv := [''-c'', ''/etc/d.conf''],
                        env_files := [''/etc/d.conf'' \<mapsto> [''[HTTP]'', ''Port=80'']]\<rparr>"

definition w_empty_device :: world where
  "w_empty_device =
     w_srv\<lparr>heap := (heap w_srv)\<lparr>objs := (objs (heap w_srv))(11 \<mapsto> OKeyFile [(''DMXPort'', [(''Device'', [])])])\<rparr>\<rparr>"

text \<open>A configuration whose \<^verbatim>\<open>Speed\<close> does not fit a \<^verbatim>\<open>gint\<close> and whose
  \<^verbatim>\<open>Port\<close> is not a number, in the world of \<open>w_srv\<close>.\<close>

definition kf_big :: keyfile where
  "kf_big = [(''DMXPort'', [(''Device'', ''/dev/ttyUSB0''), (''Speed'', ''4294967296'')]),
             (''HTTP'', [(''Port'', ''eighty''), (''Root'', ''/srv/www'')])]"

definition w_big :: world where
  "w_big = w_srv\<lparr>heap := (heap w_srv)\<lparr>objs := (objs (heap w_srv))(11 \<mapsto> OKeyFile kf_big)\<rparr>\<rparr>"

text \<open>Credentials with a leading space, a two-byte UTF-8 character, a backslash and a
  line break, written with GLib's string escaping.\<close>

definition kf_cred :: keyfile where
  "kf_cred = [(''HTTP'', [(''User'', kf_escape [CHR '' '', CHR ''o'', CHR ''p'', CHR 0xC3, CHR 0xA9]), (''Password'', kf_escape [CHR ''a'', CHR 0x5C, CHR 0x0A])])]"

definition w_cred :: world where
  "w_cred = w_srv\<lparr>heap := (heap w_srv)\<lparr>objs := (objs (heap w_srv))(11 \<mapsto> OKeyFile kf_cred)\<rparr>\<rparr>"

text \<open>The context of \<open>w_srv\<close> with no configuration file loaded.\<close>

definition w_nocfg :: world where
  "w_nocfg = w_srv\<lparr>app := (app w_srv)\<lparr>config_file := None\<rparr>\<rparr>"

lemma w_srv_simps [simp]:
  "config_file (app w_srv) = Some 11" "http_server (app w_srv) = Some 13" "dmx_device (app w_srv) = Some 12"
  "objs (heap w_srv) 11 = Some (OKeyFile kf1)" "objs (heap w_srv) 13 = Some (OHttpServer http_server_new)"
  "heap_wf (heap w_srv)" "next_addr (heap w_srv) = 14" "config_filename (app w_srv) = Some 10"
  "objs (heap w_srv) 10 = Some (OString ''/etc/d.conf'')"
  by (simp_all add: w_srv_def world_init_def app_ctxt_init_def heap_wf_def)

lemma w_big_simps [simp]:
  "config_file (app w_big) = Some 11" "http_server (app w_big) = Some 13"
  "objs (heap w_big) 11 = Some (OKeyFile kf_big)" "objs (heap w_big) 13 = Some (OHttpServer http_server_new)"
  "heap_wf (heap w_big)" "next_addr (heap w_big) = 14"
  by (simp_all add: w_big_def) (simp_all add: w_srv_def heap_wf_def)

lemma owned_w_srv: "owned w_srv"
  by (auto simp: owned_def w_srv_def world_init_def app_ctxt_init_def points_to_def ptr_kinds_def
      app_ptrs_def heap_wf_def split: if_splits)

section \<open>Witnesses\<close>

theorem app_cleanup_twice_witness:
  "\<exists>w'. app_cleanup w_config = Inr w' \<and> config_filename (app w_config) = Some 0 \<and>
        app_cleanup w' = Inl (Double_free 0)"
proof -
  have "\<exists>w'. app_cleanup w_config = Inr w'"
    by (simp add: w_config_def world_init_def app_ctxt_init_def app_cleanup_def heap_release_def
        g_free_def g_key_file_unref_def)
  then obtain w' where c: "app_cleanup w_config = Inr w'" ..
  have a: "config_filename (app w_config) = Some 0" by (simp add: w_config_def app_ctxt_init_def)
  show ?thesis using app_cleanup_twice [OF c a] c a by blast
qed

theorem main_finished_ok_witness: "\<exists>r. main e1 = Some r \<and> finished_ok r"
proof -
  have "main e1 \<noteq> None" by code_simp
  then obtain r where m: "main e1 = Some r" by blast
  show ?thesis using m Stages.main_finished_ok [OF m] by blast
qed

theorem main_no_config_crash_witness:
  "\<exists>w. main e_httpfail = Some (Crash Null_deref, w) \<and>
       phases w = [Init, OptionsParsed, ConfigLoaded] \<and> stderr w = []"
proof -
  have "g_option_context_parse app_options (env_argv e_httpfail) = OptOk []"
    by (simp add: e_httpfail_def g_option_context_parse_def)
  then show ?thesis using main_no_config_crash [of e_httpfail "[]"] by simp
qed

theorem main_start_http_degrades_witness:
  "\<exists>w'. main_start_http e_httpfail w_srv = Inr w' \<and> http_server (app w') = None \<and> \<not> live (heap w') 13 \<and>
        stderr w' = [''Failed to setup HTTP server: bind failed''] \<and> phases w' = [Init, ServerDegraded]"
  using Behaviour.main_start_http_degrades [of w_srv 13 http_server_new e_httpfail "GError HTTP_ERROR ''bind failed''"]
  by (simp add: e_httpfail_def w_srv_def world_init_def)

theorem configure_http_server_port_witness:
  "\<exists>w' s'. configure_http_server w_srv = Inr w' \<and> objs (heap w') 13 = Some (OHttpServer s') \<and>
     hs_port s' = Some (word_of_int (- 1)) \<and> uint (the (hs_port s')) = 4294967295"
proof -
  have p: "kf_get_value kf1 ''HTTP'' ''Port'' = Inr ''-1''" by (simp add: kf1_def kf_get_value_def)
  have n: "kf_parse_integer ''-1'' = Inr (- 1)" by code_simp
  show ?thesis using Behaviour.configure_http_server_port [of w_srv 11 kf1 13 http_server_new, OF _ _ _ _ _ p n] by simp
qed

theorem main_read_speed_value_witness:
  "main_read_speed w_srv = Inr (set_app (\<lambda>c. c\<lparr>dmx_speed := - 5\<rparr>) w_srv)"
proof -
  have "kf_get_value kf1 ''DMXPort'' ''Speed'' = Inr ''-5''" by (simp add: kf1_def kf_get_value_def)
  moreover have "kf_parse_integer ''-5'' = Inr (- 5)" by code_simp
  ultimately show ?thesis using Behaviour.main_read_speed_value [of w_srv 11 kf1] by simp
qed

theorem main_read_speed_roundtrip_witness:
  "\<exists>w'. main_read_speed w_srv = Inr w' \<and> dmx_speed (app w') = - 5"
proof -
  have "kf_get_value kf1 ''DMXPort'' ''Speed'' = Inr (int_to_dec (- 5))" by code_simp
  moreover have "in_gint_range (- 5)" by code_simp
  ultimately show ?thesis using Behaviour.main_read_speed_roundtrip [of w_srv 11 kf1 "- 5"] by simp
qed

theorem main_no_device_exit_witness:
  "\<exists>w. main e_nodev = Some (Exit EXIT_FAILURE, w) \<and>
       stderr w = [''No device: Key file does not have group '' @ glib_quote ''DMXPort''] \<and>
       phases w = [Init, OptionsParsed, ConfigLoaded, Terminated] \<and>
       dmx_recv (app w) = None \<and> http_server (app w) = None"
proof -
  have l: "g_key_file_load_from_file (env_files e_nodev) ''/etc/d.conf'' = Inr kf_nodev" by code_simp
  have g: "map_of kf_nodev ''DMXPort'' = None" by (simp add: kf_nodev_def)
  have o: "g_option_context_parse app_options (env_argv e_nodev) = OptOk [(''config-file'', ''/etc/d.conf'')]"
    by code_simp
  show ?thesis using Behaviour.main_no_device_exit [OF o _ l g] by simp
qed

theorem main_acquire_dmx_ignores_speed_witness:
  "\<exists>w'. main_acquire_dmx e_httpfail w_srv = Inr w' \<and>
        main_acquire_dmx e_httpfail (set_app (\<lambda>c. c\<lparr>dmx_speed := 9600\<rparr>) w_srv) =
          Inr (set_app (\<lambda>c. c\<lparr>dmx_speed := 9600\<rparr>) w')"
proof -
  have "\<exists>w'. main_acquire_dmx e_httpfail w_srv = Inr w'"
    by (simp add: main_acquire_dmx_def on_fault_def deref_string_def w_srv_def world_init_def
        app_ctxt_init_def e_httpfail_def Let_def)
  then obtain w' where a: "main_acquire_dmx e_httpfail w_srv = Inr w'" ..
  show ?thesis using Behaviour.main_acquire_dmx_ignores_speed [OF a, of 9600] a by blast
qed

theorem configure_string_property_leak_witness:
  "\<exists>w'. configure_string_property (Some 13) ''user'' (Some kf1) ''HTTP'' ''User'' w_srv = Inr w' \<and>
        app w' = app w_srv \<and> objs (heap w') 14 = Some (OString ''admin'') \<and>
        Some 14 \<notin> set (app_ptrs (app w'))"
proof -
  have v: "fst (g_key_file_get_string (Some kf1) ''HTTP'' ''User'') = Some ''admin''" by code_simp
  have n: "next_addr (heap w_srv) = 14" by (simp add: w_srv_def)
  show ?thesis using Behaviour.configure_string_property_leak [OF owned_w_srv _ _ v, of 13 http_server_new "''user''"] n
    by simp
qed

theorem main_read_device_empty_witness:
  "\<exists>w'. main_read_device w_empty_device = Inr w' \<and> deref_string w' (dmx_device (app w')) = Inr []"
proof -
  have c: "config_file (app w_empty_device) = Some 11"
    and o: "objs (heap w_empty_device) 11 = Some (OKeyFile [(''DMXPort'', [(''Device'', [])])])"
    by (simp_all add: w_empty_device_def)
  have "kf_get_value [(''DMXPort'', [(''Device'', [])])] ''DMXPort'' ''Device'' = Inr []"
    by (simp add: kf_get_value_def)
  then show ?thesis using Behaviour.main_read_device_empty [OF c o] by simp
qed

theorem set_value_root_tree_witness:
  "\<exists>w' s'. set_value_root (Some 13) w_srv = Inr w' \<and> app w' = app w_srv \<and>
     objs (heap w') 13 = Some (OHttpServer s') \<and>
     hs_value_root s' = Some (Some (JObject [(''foo'', JInt 78),
        (''bar'', JArray [JDouble (FloatLit 31415 4), JDouble (FloatLit (- 141) 2)])])) \<and>
     hs_port s' = None \<and> \<not> live (heap w') 14"
  using Behaviour.set_value_root_tree [of w_srv 13 http_server_new]
  by (simp add: http_server_new_def)

theorem configure_string_property_absent_witness:
  "configure_string_property (Some 13) ''http-root'' (Some kf1) ''HTTP'' ''Root'' w_srv = Inr w_srv"
proof -
  have "\<exists>err. kf_get_value kf1 ''HTTP'' ''Root'' = Inl err" by (simp add: kf1_def kf_get_value_def)
  then obtain err where "kf_get_value kf1 ''HTTP'' ''Root'' = Inl err" ..
  then show ?thesis by (rule Behaviour.configure_string_property_absent)
qed

theorem main_returns_witness: "main e1 \<noteq> None"
  using Behaviour.main_returns [of e1] by (simp add: e1_def)

theorem main_events_after_sigint_witness:
  "main (e1\<lparr>env_events := [IO_EVENT, SIGINT, SIGINT]\<rparr>) = main (e1\<lparr>env_events := [SIGINT]\<rparr>)"
  using Behaviour.main_events_after_sigint [of "[IO_EVENT, SIGINT, SIGINT]" e1] by simp

theorem main_load_config_roundtrip_witness:
  "\<exists>w'. main_load_config e_kf1 w_srv = Inr w' \<and> config_file (app w') = Some 14 \<and>
        objs (heap w') 14 = Some (OKeyFile kf1) \<and> last (phases w') = ConfigLoaded"
proof -
  have f: "env_files e_kf1 ''/etc/d.conf'' = Some (kf_print kf1)" by (simp add: e_kf1_def)
  have kw: "kf_wf kf1" by code_simp
  show ?thesis using Behaviour.main_load_config_roundtrip [of w_srv 10 "''/etc/d.conf''", OF _ _ _ f kw] by simp
qed

theorem main_parse_options_filename_witness:
  "\<exists>w. main_parse_options e1 world_init = Inr w \<and> deref_string w (config_filename (app w)) = Inr ''/etc/d.conf'' \<and>
       \<not> live (heap w) 0 \<and> phases w = [Init, OptionsParsed]"
proof -
  have o: "g_option_context_parse app_options (env_argv e1) = OptOk [(''config-file'', ''/etc/d.conf'')]"
    by code_simp
  show ?thesis using Behaviour.main_parse_options_filename [OF o] by simp
qed

theorem main_help_halts_witness:
  "\<exists>w. main (e1\<lparr>env_argv := [''--help'', ''-c'', ''/etc/d.conf'']\<rparr>) = Some (Halt EXIT_SUCCESS, w) \<and>
       phases w = [Init] \<and> stderr w = []"
  using Behaviour.main_help_halts [where a = "''--help''" and e = e1 and args = "[''-c'', ''/etc/d.conf'']"]
  by (simp add: is_help_arg_def)

theorem main_missing_argument_witness:
  "\<exists>w. main (e1\<lparr>env_argv := [''-c'']\<rparr>) = Some (Exit EXIT_FAILURE, w) \<and>
       stderr w = [''Failed to parse options: Missing argument for -c''] \<and> phases w = [Init, Terminated]"
  using Behaviour.main_missing_argument [where a = "''-c''" and e = e1] by simp

theorem main_parse_error_leaks_witness:
  "\<exists>w. main (e1\<lparr>env_argv := [''-x'']\<rparr>) = Some (Exit EXIT_FAILURE, w) \<and>
       stderr w = [''Failed to parse options: Unknown option -x''] \<and> phases w = [Init, Terminated] \<and>
       objs (heap w) = [0 \<mapsto> OOptionContext, 1 \<mapsto> OGError (opt_unknown ''-x'')]"
proof -
  have o: "g_option_context_parse app_options [''-x''] = OptErr (opt_unknown ''-x'')" by code_simp
  show ?thesis using Behaviour.main_parse_error_leaks [where e = "e1\<lparr>env_argv := [''-x'']\<rparr>"] o
    by (simp add: opt_unknown_def)
qed

theorem app_cleanup_reverse_order_witness: "app_cleanup w_srv = teardown_reverse w_srv"
  using Ownership.app_cleanup_reverse_order [OF owned_w_srv] .

lemma main_startup_e1: "\<exists>w. main_startup e1 = Inr w"
proof -
  have "\<not> isl (main_startup e1)" by code_simp
  then show ?thesis by (cases "main_startup e1") simp_all
qed

theorem main_startup_invariant_witness:
  "\<exists>w. main_startup e1 = Inr w \<and> owned w \<and> lc_trace (phases w) \<and> hd (phases w) = Init \<and>
       last (phases w) \<in> {ServerStarted, ServerDegraded}"
  using main_startup_e1 Stages.main_startup_invariant by blast

theorem main_config_missing_exit_witness:
  "\<exists>w. main e_missing = Some (Exit EXIT_FAILURE, w) \<and>
       stderr w = [''Failed to read configuration file: No such file or directory''] \<and>
       phases w = [Init, OptionsParsed, Terminated] \<and>
       (\<exists>a. objs (heap w) = [a \<mapsto> OGError (GError FILE_ERROR_NOENT ''No such file or directory'')])"
proof -
  have o: "g_option_context_parse app_options (env_argv e_missing) = OptOk [(''config-file'', ''/etc/none.conf'')]"
    by code_simp
  have n: "env_files e_missing ''/etc/none.conf'' = None" by (simp add: e_missing_def e_httpfail_def)
  show ?thesis using Behaviour.main_config_missing_exit [OF o _ n] by simp
qed

theorem main_acquire_dmx_failure_witness:
  "\<exists>w'. main_acquire_dmx e_dmxfail w_srv = Inl (Exit EXIT_FAILURE, w') \<and>
        stderr w' = [''Failed setup DMX port: cannot open device''] \<and> released w' \<and>
        phases w' = [Init, Terminated]"
proof -
  have d: "deref_string w_srv (dmx_device (app w_srv)) = Inr ''/dev/ttyUSB0''"
    by (simp add: deref_string_def w_srv_def world_init_def)
  have e: "env_dmx e_dmxfail ''/dev/ttyUSB0'' = Some (GError DMX_ERROR ''cannot open device'')"
    by (simp add: e_dmxfail_def)
  show ?thesis using Behaviour.main_acquire_dmx_failure [OF owned_w_srv d e]
    by (simp add: w_srv_def world_init_def)
qed


theorem main_read_speed_out_of_range_witness:
  "main_read_speed w_big = Inr (set_app (\<lambda>c. c\<lparr>dmx_speed := 250000\<rparr>) w_big)"
proof -
  have "int_to_dec 4294967296 = ''4294967296''"
    by (simp add: int_to_dec_def nat_to_dec.simps digit_char_def char_of_def bit_0)
  then have "kf_get_value kf_big ''DMXPort'' ''Speed'' = Inr (int_to_dec 4294967296)"
    by (simp add: kf_big_def kf_get_value_def)
  moreover have "\<not> in_gint_range 4294967296" by (simp add: in_gint_range_def gint_max_def)
  ultimately show ?thesis
    using Behaviour.main_read_speed_out_of_range [of w_big 11 kf_big 4294967296] by simp
qed

theorem configure_http_server_port_default_witness:
  "\<exists>w' s'. configure_http_server w_big = Inr w' \<and> objs (heap w') 13 = Some (OHttpServer s') \<and>
     hs_port s' = None"
proof -
  have "snd (g_key_file_get_integer (Some kf_big) ''HTTP'' ''Port'') \<noteq> None" by code_simp
  then show ?thesis
    using HttpConfig.configure_http_server_port_default [of w_big 11 kf_big 13 http_server_new]
    by (simp add: http_server_new_def)
qed

theorem main_setup_http_refines_witness:
  "\<exists>w'. main_setup_http w_big = Inr w' \<and> http_server (app w') = Some 14 \<and>
     objs (heap w') 14 = Some (OHttpServer (apply_server_config (read_server_config kf_big) http_server_new)) \<and>
     heap_frame 14 (heap w_big) (heap w') \<and> phases w' = phases w_big @ [ServerConfigured]"
  using HttpConfig.main_setup_http_refines [of w_big 11 kf_big] by simp


theorem main_setup_http_live_objects_witness:
  "\<exists>w'. main_setup_http w_big = Inr w' \<and> card (dom (objs (heap w'))) = 7 \<and>
     (\<exists>c. objs (heap w') c = Some (OJsonNode (JObject [(''foo'', JInt 78),
        (''bar'', JArray [JDouble (FloatLit 31415 4), JDouble (FloatLit (-141) 2)])])))"
proof -
  have d: "card (dom (objs (heap w_big))) = 4"
    by (simp add: w_big_def w_srv_def world_init_def)
  have f: "length (filter (\<lambda>k. fst (g_key_file_get_string (Some kf_big) ''HTTP'' k) \<noteq> None)
                       [''User'', ''Password'', ''Root'']) = 1"
    by code_simp
  show ?thesis
    using HttpConfig.main_setup_http_live_objects [of w_big 11 kf_big] d f by simp
qed


theorem configure_http_server_credentials_roundtrip_witness:
  "\<exists>w' s'. configure_http_server w_cred = Inr w' \<and> objs (heap w') 13 = Some (OHttpServer s') \<and>
     hs_user s' = Some [CHR '' '', CHR ''o'', CHR ''p'', CHR 0xC3, CHR 0xA9] \<and>
     hs_password s' = Some [CHR ''a'', CHR 0x5C, CHR 0x0A]"
proof -
  have u: "kf_get_value kf_cred ''HTTP'' ''User'' = Inr (kf_escape [CHR '' '', CHR ''o'', CHR ''p'', CHR 0xC3, CHR 0xA9])"
    by (simp add: kf_cred_def kf_get_value_def)
  have uv: "g_utf8_validate [CHR '' '', CHR ''o'', CHR ''p'', CHR 0xC3, CHR 0xA9]" by code_simp
  have pv: "g_utf8_validate [CHR ''a'', CHR 0x5C, CHR 0x0A]" by code_simp
  have p: "kf_get_value kf_cred ''HTTP'' ''Password'' = Inr (kf_escape [CHR ''a'', CHR 0x5C, CHR 0x0A])"
    by (simp add: kf_cred_def kf_get_value_def)
  have "heap_wf (heap w_cred)" by (simp add: w_cred_def w_srv_def heap_wf_def)
  then show ?thesis
    using HttpConfig.configure_http_server_credentials_roundtrip [OF _ _ _ _ _ u p uv pv, of w_cred 11 13 http_server_new]
    by (simp add: w_cred_def w_srv_def world_init_def app_ctxt_init_def)
qed


theorem main_parse_options_last_wins_witness:
  "\<exists>w. main_parse_options (e1\<lparr>env_argv := [''-c'', ''/old.conf'', ''--config-file'', ''/etc/d.conf'']\<rparr>) world_init =
         Inr w \<and> deref_string w (config_filename (app w)) = Inr ''/etc/d.conf''"
  using Behaviour.main_parse_options_last_wins [of "[''/old.conf'', ''/etc/d.conf'']" "[''-c'', ''--config-file'']" e1]
  by simp

theorem null_config_integer_defaults_witness:
  "main_read_speed w_nocfg = Inr (set_app (\<lambda>c. c\<lparr>dmx_speed := - 1\<rparr>) w_nocfg) \<and>
   (\<exists>w' s'. configure_http_server w_nocfg = Inr w' \<and> objs (heap w') 13 = Some (OHttpServer s') \<and>
            hs_port s' = Some 4294967295)"
  using Behaviour.null_config_integer_defaults [of w_nocfg 13 http_server_new]
  by (simp add: w_nocfg_def)


lemma e1_startup_facts:
  "g_option_context_parse app_options (env_argv e1) = OptOk [(''config-file'', ''/etc/d.conf'')]"
  "g_key_file_load_from_file (env_files e1) ''/etc/d.conf'' =
     Inr [(''DMXPort'', [(''Device'', ''/dev/ttyUSB0'')]), (''HTTP'', [(''Port'', ''8080'')])]"
  "g_key_file_get_string (Some [(''DMXPort'', [(''Device'', ''/dev/ttyUSB0'')]), (''HTTP'', [(''Port'', ''8080'')])])
     ''DMXPort'' ''Device'' = (Some ''/dev/ttyUSB0'', None)"
  by code_simp+

theorem main_startup_configures_server_witness:
  "\<exists>w a s. main_startup e1 = Inr w \<and> http_server (app w) = Some a \<and> objs (heap w) a = Some (OHttpServer s) \<and>
     hs_port s = Some 8080 \<and> hs_listening s \<and> dmx_speed (app w) = 250000 \<and>
     phases w = [Init, OptionsParsed, ConfigLoaded, DeviceAcquired, ServerConfigured, ServerStarted]"
proof -
  let ?kf = "[(''DMXPort'', [(''Device'', ''/dev/ttyUSB0'')]), (''HTTP'', [(''Port'', ''8080'')])]"
  have sp: "g_key_file_get_integer (Some ?kf) ''DMXPort'' ''Speed'' = (0, Some (GError KEY_FILE_ERROR_KEY_NOT_FOUND
              (''Key file does not have key '' @ glib_quote ''Speed'' @ '' in group '' @ glib_quote ''DMXPort'')))"
    by code_simp
  have pt: "hs_port (apply_server_config (read_server_config ?kf) http_server_new) = Some 8080" by code_simp
  show ?thesis
    using Behaviour.main_startup_configures_server [OF e1_startup_facts(1) _ e1_startup_facts(2,3)] sp pt
    by (simp add: e1_def) fastforce
qed

theorem main_sigint_clean_exit_witness:
  "\<exists>w. main e1 = Some (Exit EXIT_SUCCESS, w) \<and> released w \<and>
     phases w = [Init, OptionsParsed, ConfigLoaded, DeviceAcquired, ServerConfigured, ServerStarted,
                 Running, ShuttingDown, Terminated]"
  using Behaviour.main_sigint_clean_exit [OF e1_startup_facts(1) _ e1_startup_facts(2,3)]
  by (simp add: e1_def)

end
